(* ===== verification/Prelude.thy ===== *)
theory Prelude
  imports Complex_Main
begin

text \<open>
  Shared vocabulary of the development. JavaScript numbers are modelled as exact
  rationals (\<open>rat\<close>): every value the engine computes is a quotient of integers, and
  \<open>Math.round\<close> is HOL's \<open>round\<close> (\<open>round x = \<lfloor>x + 1/2\<rfloor>\<close>, ties towards
  \<open>+\<infinity>\<close>, as in ECMAScript). The two-decimal idiom \<open>Math.round(x * 100) / 100\<close>
  of \<open>src/src/data/mockData.ts\<close> is \<open>round2\<close>. This theory holds the generic facts on
  rounding and on list sums that the component theories share.
\<close>

named_theorems agg_simps "evaluation rules of the aggregation engine"
named_theorems round_bounds "bounds on the rounded values"

type_synonym qid = string
type_synonym cid = string
type_synonym sid = string
type_synonym js_num = rat

section \<open>Two-decimal rounding\<close>

text \<open>\<open>Math.round(x * 100) / 100\<close>\<close>

definition round2 :: "js_num \<Rightarrow> js_num" where
  "round2 x = of_int (round (x * 100)) / 100"

text \<open>A value with at most two decimals: \<open>x * 100\<close> is an integer.\<close>

definition hundredths :: "js_num \<Rightarrow> bool" where
  "hundredths x \<longleftrightarrow> of_int \<lfloor>x * 100\<rfloor> = x * 100"

text \<open>The exact mean of a list of numbers, the quantity the aggregation approximates.\<close>

definition mean :: "js_num list \<Rightarrow> js_num" where
  "mean xs = (if xs = [] then 0 else sum_list xs / of_nat (length xs))"

lemma round_eq_iff_rat:
  "round (x::rat) = k \<longleftrightarrow> of_int k - 1/2 \<le> x \<and> x < of_int k + 1/2"
  unfolding round_def by (auto simp: floor_eq_iff)

lemma round2_err [round_bounds]: "\<bar>round2 x - x\<bar> \<le> 1/200"
proof -
  have "\<bar>of_int (round (x * 100)) - x * 100\<bar> \<le> 1/2"
    by (rule of_int_round_abs_le)
  then have "\<bar>(of_int (round (x * 100)) - x * 100) / 100\<bar> \<le> 1/200"
    by simp
  then show ?thesis
    by (simp add: round2_def diff_divide_distrib)
qed

lemma round2_mono: "x \<le> y \<Longrightarrow> round2 x \<le> round2 y"
  unfolding round2_def by (simp add: divide_right_mono round_mono)

lemma round2_of_int [simp]: "round2 (of_int k) = of_int k"
proof -
  have "round (of_int k * 100 :: rat) = k * 100"
    by (metis of_int_mult of_int_numeral round_of_int)
  then show ?thesis by (simp add: round2_def)
qed

lemma round2_0 [simp]: "round2 0 = 0"
  using round2_of_int [of 0] by simp

lemma round2_hundredths [intro]: "hundredths (round2 x)"
  unfolding round2_def hundredths_def by simp

lemma hundredths_diff:
  assumes "hundredths a" and "hundredths b"
  shows "hundredths (a - b)"
proof -
  obtain ka kb :: int where ka: "a * 100 = of_int ka" and kb: "b * 100 = of_int kb"
    using assms unfolding hundredths_def by metis
  have "(a - b) * 100 = of_int (ka - kb)" using ka kb by (simp add: left_diff_distrib)
  then show ?thesis unfolding hundredths_def by simp
qed

lemma hundredths_round2_id: "hundredths x \<Longrightarrow> round2 x = x"
proof -
  assume "hundredths x"
  then have "x * 100 = of_int \<lfloor>x * 100\<rfloor>" unfolding hundredths_def by (rule sym)
  then have "round (x * 100) = \<lfloor>x * 100\<rfloor>"
    by (metis round_of_int)
  then show "round2 x = x"
    using \<open>x * 100 = _\<close> by (simp add: round2_def)
qed

text \<open>Rounding keeps a value inside integer bounds.\<close>

lemma round2_between_ints [round_bounds]:
  assumes "of_int a \<le> x" and "x \<le> of_int b"
  shows "of_int a \<le> round2 x \<and> round2 x \<le> of_int b"
  using round2_mono [OF assms(1)] round2_mono [OF assms(2)] by simp

lemma abs_diff_trans:
  "\<bar>a - b\<bar> \<le> e1 \<Longrightarrow> \<bar>b - c\<bar> \<le> e2 \<Longrightarrow> \<bar>a - c\<bar> \<le> e1 + (e2::'a::linordered_idom)"
  by (simp only: abs_le_iff) linarith

section \<open>Sums over lists\<close>

lemma sum_list_bounds:
  assumes "\<forall>x\<in>set xs. a \<le> f x \<and> f x \<le> (b::'a::linordered_semidom)"
  shows "of_nat (length xs) * a \<le> sum_list (map f xs)
       \<and> sum_list (map f xs) \<le> of_nat (length xs) * b"
  using assms
  by (induction xs) (auto simp: distrib_right intro: add_mono)

lemma mean_bounds:
  assumes "\<forall>x\<in>set xs. a \<le> x \<and> x \<le> b"
  shows "xs \<noteq> [] \<Longrightarrow> a \<le> mean xs \<and> mean xs \<le> b"
proof -
  assume ne: "xs \<noteq> []"
  have "of_nat (length xs) * a \<le> sum_list (map id xs)
       \<and> sum_list (map id xs) \<le> of_nat (length xs) * b"
    by (rule sum_list_bounds) (use assms in simp)
  moreover have "0 < (of_nat (length xs) :: rat)" using ne by simp
  ultimately show ?thesis
    using ne by (simp add: mean_def pos_le_divide_eq pos_divide_le_eq mult.commute)
qed

lemma sum_list_divide:
  "sum_list (map (\<lambda>x. f x / r) xs) = sum_list (map f xs) / (r::'a::field)"
  by (induction xs) (simp_all add: add_divide_distrib)

lemma length_filter_sum:
  "length (filter P xs) = sum_list (map (\<lambda>x. if P x then 1 else 0) xs)"
  by (induction xs) auto

section \<open>Lists: prefixes, positions and sorting\<close>

lemma take_until_sep: "c \<notin> set xs \<Longrightarrow> takeWhile (\<lambda>x. x \<noteq> c) (xs @ c # ys) = xs"
  by (induction xs) auto

lemma drop_until_sep: "c \<notin> set xs \<Longrightarrow> dropWhile (\<lambda>x. x \<noteq> c) (xs @ c # ys) = c # ys"
  by (induction xs) auto

lemma drop_prefix_nosep: "c \<notin> set xs \<Longrightarrow> dropWhile (\<lambda>x. x \<noteq> c) (xs @ ys) = dropWhile (\<lambda>x. x \<noteq> c) ys"
  by (induction xs) auto


lemma map_insort_key: "map f (insort_key (\<lambda>x. k (f x)) x ys) = insort_key k (f x) (map f ys)"
  by (induction ys) auto

text \<open>Sorting commutes with a projection that carries the key.\<close>

lemma map_sort_key: "map f (sort_key (\<lambda>x. k (f x)) xs) = sort_key k (map f xs)"
  by (induction xs) (simp_all add: map_insort_key)

lemma map2_fst: "length ys = length xs \<Longrightarrow> map2 (\<lambda>x y. f x) xs ys = map f xs"
  by (induction xs arbitrary: ys) (auto simp: length_Suc_conv)

lemma takeWhile_length_less: "x \<in> set xs \<Longrightarrow> length (takeWhile (\<lambda>y. y \<noteq> x) xs) < length xs"
  by (induction xs) auto

lemma distinct_key_filter_le1: "distinct (map f xs) \<Longrightarrow> length (filter (\<lambda>x. p = f x) xs) \<le> 1"
  by (induction xs) (auto simp: filter_empty_conv)

lemma distinct_key_filter_eq1:
  assumes "distinct (map f xs)" and "p \<in> set (map f xs)"
  shows "length (filter (\<lambda>x. p = f x) xs) = 1"
proof -
  have "filter (\<lambda>x. p = f x) xs \<noteq> []" using assms(2) by (auto simp: filter_empty_conv)
  then show ?thesis using distinct_key_filter_le1 [OF assms(1), of p]
    by (cases "filter (\<lambda>x. p = f x) xs") simp_all
qed

lemma map_zip_upt_snd: "map (\<lambda>x. f (snd x)) (zip [0..<length xs] xs) = map f xs"
  by (rule nth_equalityI) simp_all

lemma int_sum_list: "sum_list (map (\<lambda>x. int (f x)) xs) = int (sum_list (map f xs))"
  by (induction xs) simp_all

lemma length_filter_eq_iff: "length (filter P xs) = length xs \<longleftrightarrow> (\<forall>x\<in>set xs. P x)"
  by (induction xs) (auto dest: Suc_le_lessD simp: length_filter_le, metis Suc_n_not_le_n length_filter_le)

text \<open>In a list of distinct elements, the \<open>k\<close>-th element satisfying \<open>P\<close> has exactly
  \<open>k\<close> elements satisfying \<open>P\<close> before it.\<close>

lemma filter_nth_prefix:
  "distinct xs \<Longrightarrow> k < length (filter P xs) \<Longrightarrow>
     length (filter P (takeWhile (\<lambda>y. y \<noteq> filter P xs ! k) xs)) = k"
proof (induction xs arbitrary: k)
  case (Cons x xs)
  show ?case
  proof (cases "P x")
    case True
    show ?thesis
    proof (cases k)
      case (Suc k')
      then have "k' < length (filter P xs)" using Cons.prems True by simp
      then have "filter P xs ! k' \<in> set xs" using nth_mem by fastforce
      then have "filter P xs ! k' \<noteq> x" using Cons.prems(1) by auto
      then show ?thesis using Cons Suc True by auto
    qed (simp add: True)
  next
    case False
    then have "filter P xs ! k \<in> set xs" using Cons.prems(2) nth_mem by fastforce
    then have "filter P xs ! k \<noteq> x" using Cons.prems(1) by auto
    then show ?thesis using Cons False by auto
  qed
qed simp

end
