(* ===== verification/Schema.thy ===== *)
theory Schema
  imports Prelude
begin

text \<open>
  The survey schema of \<open>src/src/data/mockData.ts\<close>: the interfaces \<open>Question\<close> and
  \<open>Company\<close> as records, the section objects of \<open>sections\<close>, and the constant
  tables \<open>sections\<close>, \<open>questions\<close>, \<open>companies\<close> and \<open>scaleLabels\<close> as HOL
  constants (Portuguese text transliterated to ASCII). \<open>wf_schema\<close> states the
  well-formedness the engine relies on: unique identifiers, every question in exactly
  one declared section, and questions numbered \<open>1..n\<close> in order inside their section.
\<close>

record question =
  q_id :: qid
  q_section :: sid
  q_sectionIndex :: nat
  q_number :: nat
  q_text :: string

record company =
  c_id :: cid
  c_name :: string
  c_sector :: string
  c_employees :: nat
  c_color :: string

record section_def =
  s_id :: sid
  s_name :: string
  s_shortName :: string

definition sections :: "section_def list" where
  "sections =
    [ \<lparr>s_id = ''contexto'', s_name = ''Contexto do Trabalho'', s_shortName = ''Contexto''\<rparr>
    , \<lparr>s_id = ''gestao'', s_name = ''Estilo de Gestao'', s_shortName = ''Gestao''\<rparr>
    , \<lparr>s_id = ''vivencias'', s_name = ''Vivencias no Trabalho'', s_shortName = ''Vivencias''\<rparr>
    , \<lparr>s_id = ''saude'', s_name = ''Danos Fisicos e Psicologicos'', s_shortName = ''Saude''\<rparr> ]"

definition questions :: "question list" where
  "questions =
   [
     \<lparr>q_id = ''c1'', q_section = ''contexto'', q_sectionIndex = 0, q_number = 1, q_text = ''O numero de trabalhadores e suficiente para a execucao das tarefas''\<rparr>
   , \<lparr>q_id = ''c2'', q_section = ''contexto'', q_sectionIndex = 0, q_number = 2, q_text = ''Os recursos de trabalho sao em numero suficiente''\<rparr>
   , \<lparr>q_id = ''c3'', q_section = ''contexto'', q_sectionIndex = 0, q_number = 3, q_text = ''O espaco fisico disponivel e adequado''\<rparr>
   , \<lparr>q_id = ''c4'', q_section = ''contexto'', q_sectionIndex = 0, q_number = 4, q_text = ''Os equipamentos sao adequados''\<rparr>
   , \<lparr>q_id = ''c5'', q_section = ''contexto'', q_sectionIndex = 0, q_number = 5, q_text = ''O ritmo de trabalho e adequado''\<rparr>
   , \<lparr>q_id = ''c6'', q_section = ''contexto'', q_sectionIndex = 0, q_number = 6, q_text = ''Os prazos sao flexiveis''\<rparr>
   , \<lparr>q_id = ''c7'', q_section = ''contexto'', q_sectionIndex = 0, q_number = 7, q_text = ''Condicoes adequadas para resultados esperados''\<rparr>
   , \<lparr>q_id = ''c8'', q_section = ''contexto'', q_sectionIndex = 0, q_number = 8, q_text = ''Ha clareza na definicao das tarefas''\<rparr>
   , \<lparr>q_id = ''c9'', q_section = ''contexto'', q_sectionIndex = 0, q_number = 9, q_text = ''Ha justica na distribuicao das tarefas''\<rparr>
   , \<lparr>q_id = ''c10'', q_section = ''contexto'', q_sectionIndex = 0, q_number = 10, q_text = ''Funcionarios participam das decisoes''\<rparr>
   , \<lparr>q_id = ''c11'', q_section = ''contexto'', q_sectionIndex = 0, q_number = 11, q_text = ''Comunicacao chefe-subordinado adequada''\<rparr>
   , \<lparr>q_id = ''c12'', q_section = ''contexto'', q_sectionIndex = 0, q_number = 12, q_text = ''Autonomia para realizar tarefas''\<rparr>
   , \<lparr>q_id = ''c13'', q_section = ''contexto'', q_sectionIndex = 0, q_number = 13, q_text = ''Qualidade na comunicacao entre funcionarios''\<rparr>
   , \<lparr>q_id = ''c14'', q_section = ''contexto'', q_sectionIndex = 0, q_number = 14, q_text = ''Informacoes claras para executar tarefas''\<rparr>
   , \<lparr>q_id = ''c15'', q_section = ''contexto'', q_sectionIndex = 0, q_number = 15, q_text = ''Avaliacao inclui aspectos alem da producao''\<rparr>
   , \<lparr>q_id = ''c16'', q_section = ''contexto'', q_sectionIndex = 0, q_number = 16, q_text = ''Flexibilidade nas normas''\<rparr>
   , \<lparr>q_id = ''c17'', q_section = ''contexto'', q_sectionIndex = 0, q_number = 17, q_text = ''Orientacoes coerentes entre si''\<rparr>
   , \<lparr>q_id = ''c18'', q_section = ''contexto'', q_sectionIndex = 0, q_number = 18, q_text = ''Tarefas variadas''\<rparr>
   , \<lparr>q_id = ''c19'', q_section = ''contexto'', q_sectionIndex = 0, q_number = 19, q_text = ''Liberdade para opinar sobre o trabalho''\<rparr>
   , \<lparr>q_id = ''g1'', q_section = ''gestao'', q_sectionIndex = 1, q_number = 1, q_text = ''Incentiva-se a idolatria dos chefes''\<rparr>
   , \<lparr>q_id = ''g2'', q_section = ''gestao'', q_sectionIndex = 1, q_number = 2, q_text = ''Gestores se consideram insubstituiveis''\<rparr>
   , \<lparr>q_id = ''g3'', q_section = ''gestao'', q_sectionIndex = 1, q_number = 3, q_text = ''Gestores preferem trabalhar individualmente''\<rparr>
   , \<lparr>q_id = ''g4'', q_section = ''gestao'', q_sectionIndex = 1, q_number = 4, q_text = ''Gestores se consideram o centro do mundo''\<rparr>
   , \<lparr>q_id = ''g5'', q_section = ''gestao'', q_sectionIndex = 1, q_number = 5, q_text = ''Gestores fazem qualquer coisa para chamar atencao''\<rparr>
   , \<lparr>q_id = ''g6'', q_section = ''gestao'', q_sectionIndex = 1, q_number = 6, q_text = ''Grande importancia para as regras''\<rparr>
   , \<lparr>q_id = ''g7'', q_section = ''gestao'', q_sectionIndex = 1, q_number = 7, q_text = ''Hierarquia e valorizada''\<rparr>
   , \<lparr>q_id = ''g8'', q_section = ''gestao'', q_sectionIndex = 1, q_number = 8, q_text = ''Lacos afetivos fracos''\<rparr>
   , \<lparr>q_id = ''g9'', q_section = ''gestao'', q_sectionIndex = 1, q_number = 9, q_text = ''Forte controle do trabalho''\<rparr>
   , \<lparr>q_id = ''g10'', q_section = ''gestao'', q_sectionIndex = 1, q_number = 10, q_text = ''Ambiente se desorganiza com mudancas''\<rparr>
   , \<lparr>q_id = ''g11'', q_section = ''gestao'', q_sectionIndex = 1, q_number = 11, q_text = ''Pessoas comprometidas sem retorno adequado''\<rparr>
   , \<lparr>q_id = ''g12'', q_section = ''gestao'', q_sectionIndex = 1, q_number = 12, q_text = ''Merito das conquistas e de todos''\<rparr>
   , \<lparr>q_id = ''g13'', q_section = ''gestao'', q_sectionIndex = 1, q_number = 13, q_text = ''Trabalho coletivo valorizado''\<rparr>
   , \<lparr>q_id = ''g14'', q_section = ''gestao'', q_sectionIndex = 1, q_number = 14, q_text = ''Resultado visto como realizacao do grupo''\<rparr>
   , \<lparr>q_id = ''g15'', q_section = ''gestao'', q_sectionIndex = 1, q_number = 15, q_text = ''Decisoes tomadas em grupo''\<rparr>
   , \<lparr>q_id = ''g16'', q_section = ''gestao'', q_sectionIndex = 1, q_number = 16, q_text = ''Incentivo a buscar novos desafios''\<rparr>
   , \<lparr>q_id = ''g17'', q_section = ''gestao'', q_sectionIndex = 1, q_number = 17, q_text = ''Trabalho interativo entre areas''\<rparr>
   , \<lparr>q_id = ''g18'', q_section = ''gestao'', q_sectionIndex = 1, q_number = 18, q_text = ''Competencia valorizada pela gestao''\<rparr>
   , \<lparr>q_id = ''g19'', q_section = ''gestao'', q_sectionIndex = 1, q_number = 19, q_text = ''Oportunidades semelhantes de ascensao''\<rparr>
   , \<lparr>q_id = ''g20'', q_section = ''gestao'', q_sectionIndex = 1, q_number = 20, q_text = ''Gestores preocupados com bem-estar''\<rparr>
   , \<lparr>q_id = ''g21'', q_section = ''gestao'', q_sectionIndex = 1, q_number = 21, q_text = ''Inovacao e valorizada''\<rparr>
   , \<lparr>q_id = ''v1'', q_section = ''vivencias'', q_sectionIndex = 2, q_number = 1, q_text = ''Sinto-me inutil no trabalho''\<rparr>
   , \<lparr>q_id = ''v2'', q_section = ''vivencias'', q_sectionIndex = 2, q_number = 2, q_text = ''Tarefas insignificantes''\<rparr>
   , \<lparr>q_id = ''v3'', q_section = ''vivencias'', q_sectionIndex = 2, q_number = 3, q_text = ''Sinto-me improdutivo''\<rparr>
   , \<lparr>q_id = ''v4'', q_section = ''vivencias'', q_sectionIndex = 2, q_number = 4, q_text = ''Identificacao com tarefas inexistente''\<rparr>
   , \<lparr>q_id = ''v5'', q_section = ''vivencias'', q_sectionIndex = 2, q_number = 5, q_text = ''Desmotivado para tarefas''\<rparr>
   , \<lparr>q_id = ''v6'', q_section = ''vivencias'', q_sectionIndex = 2, q_number = 6, q_text = ''Trabalho irrelevante para a sociedade''\<rparr>
   , \<lparr>q_id = ''v7'', q_section = ''vivencias'', q_sectionIndex = 2, q_number = 7, q_text = ''Trabalho sem sentido''\<rparr>
   , \<lparr>q_id = ''v8'', q_section = ''vivencias'', q_sectionIndex = 2, q_number = 8, q_text = ''Tarefas banais''\<rparr>
   , \<lparr>q_id = ''v9'', q_section = ''vivencias'', q_sectionIndex = 2, q_number = 9, q_text = ''Permanece por falta de oportunidade''\<rparr>
   , \<lparr>q_id = ''v10'', q_section = ''vivencias'', q_sectionIndex = 2, q_number = 10, q_text = ''Trabalho cansativo''\<rparr>
   , \<lparr>q_id = ''v11'', q_section = ''vivencias'', q_sectionIndex = 2, q_number = 11, q_text = ''Trabalho desgastante''\<rparr>
   , \<lparr>q_id = ''v12'', q_section = ''vivencias'', q_sectionIndex = 2, q_number = 12, q_text = ''Trabalho frustrante''\<rparr>
   , \<lparr>q_id = ''v13'', q_section = ''vivencias'', q_sectionIndex = 2, q_number = 13, q_text = ''Trabalho sobrecarrega''\<rparr>
   , \<lparr>q_id = ''v14'', q_section = ''vivencias'', q_sectionIndex = 2, q_number = 14, q_text = ''Trabalho desanima''\<rparr>
   , \<lparr>q_id = ''v15'', q_section = ''vivencias'', q_sectionIndex = 2, q_number = 15, q_text = ''Decisoes politicas causam revolta''\<rparr>
   , \<lparr>q_id = ''v16'', q_section = ''vivencias'', q_sectionIndex = 2, q_number = 16, q_text = ''Trabalho causa sofrimento''\<rparr>
   , \<lparr>q_id = ''v17'', q_section = ''vivencias'', q_sectionIndex = 2, q_number = 17, q_text = ''Trabalho causa insatisfacao''\<rparr>
   , \<lparr>q_id = ''v18'', q_section = ''vivencias'', q_sectionIndex = 2, q_number = 18, q_text = ''Trabalho desvalorizado pela organizacao''\<rparr>
   , \<lparr>q_id = ''v19'', q_section = ''vivencias'', q_sectionIndex = 2, q_number = 19, q_text = ''Submissao do chefe causa revolta''\<rparr>
   , \<lparr>q_id = ''v20'', q_section = ''vivencias'', q_sectionIndex = 2, q_number = 20, q_text = ''Colegas desvalorizam meu trabalho''\<rparr>
   , \<lparr>q_id = ''v21'', q_section = ''vivencias'', q_sectionIndex = 2, q_number = 21, q_text = ''Falta liberdade para dizer o que pensa''\<rparr>
   , \<lparr>q_id = ''v22'', q_section = ''vivencias'', q_sectionIndex = 2, q_number = 22, q_text = ''Colegas indiferentes''\<rparr>
   , \<lparr>q_id = ''v23'', q_section = ''vivencias'', q_sectionIndex = 2, q_number = 23, q_text = ''Excluido do planejamento''\<rparr>
   , \<lparr>q_id = ''v24'', q_section = ''vivencias'', q_sectionIndex = 2, q_number = 24, q_text = ''Chefia trata com indiferenca''\<rparr>
   , \<lparr>q_id = ''v25'', q_section = ''vivencias'', q_sectionIndex = 2, q_number = 25, q_text = ''Dificil convivencia com colegas''\<rparr>
   , \<lparr>q_id = ''v26'', q_section = ''vivencias'', q_sectionIndex = 2, q_number = 26, q_text = ''Trabalho desqualificado pela chefia''\<rparr>
   , \<lparr>q_id = ''v27'', q_section = ''vivencias'', q_sectionIndex = 2, q_number = 27, q_text = ''Falta liberdade para dialogar com chefia''\<rparr>
   , \<lparr>q_id = ''v28'', q_section = ''vivencias'', q_sectionIndex = 2, q_number = 28, q_text = ''Desconfianca entre chefia e subordinado''\<rparr>
   , \<lparr>q_id = ''s1'', q_section = ''saude'', q_sectionIndex = 3, q_number = 1, q_text = ''Amargura''\<rparr>
   , \<lparr>q_id = ''s2'', q_section = ''saude'', q_sectionIndex = 3, q_number = 2, q_text = ''Sensacao de vazio''\<rparr>
   , \<lparr>q_id = ''s3'', q_section = ''saude'', q_sectionIndex = 3, q_number = 3, q_text = ''Mau-humor''\<rparr>
   , \<lparr>q_id = ''s4'', q_section = ''saude'', q_sectionIndex = 3, q_number = 4, q_text = ''Vontade de desistir de tudo''\<rparr>
   , \<lparr>q_id = ''s5'', q_section = ''saude'', q_sectionIndex = 3, q_number = 5, q_text = ''Tristeza''\<rparr>
   , \<lparr>q_id = ''s6'', q_section = ''saude'', q_sectionIndex = 3, q_number = 6, q_text = ''Perda da autoconfianca''\<rparr>
   , \<lparr>q_id = ''s7'', q_section = ''saude'', q_sectionIndex = 3, q_number = 7, q_text = ''Solidao''\<rparr>
   , \<lparr>q_id = ''s8'', q_section = ''saude'', q_sectionIndex = 3, q_number = 8, q_text = ''Insensibilidade com colegas''\<rparr>
   , \<lparr>q_id = ''s9'', q_section = ''saude'', q_sectionIndex = 3, q_number = 9, q_text = ''Dificuldades fora do trabalho''\<rparr>
   , \<lparr>q_id = ''s10'', q_section = ''saude'', q_sectionIndex = 3, q_number = 10, q_text = ''Vontade de ficar sozinho''\<rparr>
   , \<lparr>q_id = ''s11'', q_section = ''saude'', q_sectionIndex = 3, q_number = 11, q_text = ''Conflitos familiares''\<rparr>
   , \<lparr>q_id = ''s12'', q_section = ''saude'', q_sectionIndex = 3, q_number = 12, q_text = ''Agressividade''\<rparr>
   , \<lparr>q_id = ''s13'', q_section = ''saude'', q_sectionIndex = 3, q_number = 13, q_text = ''Dificuldade com amigos''\<rparr>
   , \<lparr>q_id = ''s14'', q_section = ''saude'', q_sectionIndex = 3, q_number = 14, q_text = ''Impaciencia com pessoas''\<rparr>
   , \<lparr>q_id = ''s15'', q_section = ''saude'', q_sectionIndex = 3, q_number = 15, q_text = ''Dores no corpo''\<rparr>
   , \<lparr>q_id = ''s16'', q_section = ''saude'', q_sectionIndex = 3, q_number = 16, q_text = ''Dores no braco''\<rparr>
   , \<lparr>q_id = ''s17'', q_section = ''saude'', q_sectionIndex = 3, q_number = 17, q_text = ''Dor de cabeca''\<rparr>
   , \<lparr>q_id = ''s18'', q_section = ''saude'', q_sectionIndex = 3, q_number = 18, q_text = ''Disturbios digestivos''\<rparr>
   , \<lparr>q_id = ''s19'', q_section = ''saude'', q_sectionIndex = 3, q_number = 19, q_text = ''Dores nas costas''\<rparr>
   , \<lparr>q_id = ''s20'', q_section = ''saude'', q_sectionIndex = 3, q_number = 20, q_text = ''Alteracoes no sono''\<rparr>
   , \<lparr>q_id = ''s21'', q_section = ''saude'', q_sectionIndex = 3, q_number = 21, q_text = ''Dores nas pernas''\<rparr>
   , \<lparr>q_id = ''s22'', q_section = ''saude'', q_sectionIndex = 3, q_number = 22, q_text = ''Disturbios circulatorios''\<rparr>
   , \<lparr>q_id = ''s23'', q_section = ''saude'', q_sectionIndex = 3, q_number = 23, q_text = ''Alteracoes no apetite''\<rparr>
   ]"

definition companies :: "company list" where
  "companies =
    [ \<lparr>c_id = ''emp1'', c_name = ''TechSol Ltda'', c_sector = ''Tecnologia'', c_employees = 120, c_color = ''hsl(217, 71%, 45%)''\<rparr>
    , \<lparr>c_id = ''emp2'', c_name = ''Construtora Horizonte'', c_sector = ''Construcao Civil'', c_employees = 350, c_color = ''hsl(170, 60%, 45%)''\<rparr>
    , \<lparr>c_id = ''emp3'', c_name = ''Industria MetalForte'', c_sector = ''Industria'', c_employees = 200, c_color = ''hsl(38, 92%, 55%)''\<rparr>
    , \<lparr>c_id = ''emp4'', c_name = ''Hospital Sao Lucas'', c_sector = ''Saude'', c_employees = 500, c_color = ''hsl(280, 60%, 55%)''\<rparr>
    , \<lparr>c_id = ''emp5'', c_name = ''Logistica Express'', c_sector = ''Logistica'', c_employees = 180, c_color = ''hsl(0, 72%, 55%)''\<rparr> ]"

text \<open>\<open>scaleLabels: Record<number, string>\<close>, the labels of the Likert scale 1..5.\<close>

definition scaleLabels :: "int \<rightharpoonup> string" where
  "scaleLabels = [1 \<mapsto> ''Nunca'', 2 \<mapsto> ''Raramente'', 3 \<mapsto> ''As vezes'',
                  4 \<mapsto> ''Frequentemente'', 5 \<mapsto> ''Sempre'']"

text \<open>The idiom \<open>questions.filter((q) => q.section === sectionId)\<close>, repeated in every
  component that walks a section.\<close>

definition section_questions :: "question list \<Rightarrow> sid \<Rightarrow> question list" where
  "section_questions qs s = filter (\<lambda>q. q_section q = s) qs"

section \<open>Well-formed schemas\<close>

definition wf_schema :: "section_def list \<Rightarrow> question list \<Rightarrow> bool" where
  "wf_schema secs qs \<longleftrightarrow>
     distinct (map s_id secs) \<and> distinct (map q_id qs)
     \<and> list_all (\<lambda>q. q_sectionIndex q < length secs
                     \<and> s_id (secs ! q_sectionIndex q) = q_section q) qs
     \<and> list_all (\<lambda>s. map q_number (section_questions qs (s_id s))
                     = [1..<Suc (length (section_questions qs (s_id s)))]) secs"

lemma section_questions_subset: "set (section_questions qs s) \<subseteq> set qs"
  by (auto simp: section_questions_def)

end
