(* ===== verification/Store.thy ===== *)
theory Store
  imports Schema
begin

text \<open>
  The respondent store of \<open>src/src/data/mockData.ts\<close>: the \<open>Respondent\<close> interface,
  the pool selection of \<open>getCompanyRespondents\<close> and of the expression
  \<open>companyId ? getCompanyRespondents(companyId) : respondents\<close>, and the read of one
  answer. The module-level constants \<open>sections\<close>, \<open>questions\<close>, \<open>companies\<close> and
  \<open>respondents\<close> are the read-only snapshot every engine operation reads; the model
  passes them explicitly as one \<open>snapshot\<close> record, so that every report is computed
  from a single snapshot by construction.
\<close>

datatype sex = Masculino | Feminino | Prefiro_nao_declarar

record respondent =
  r_id :: string
  r_companyId :: cid
  r_name :: string
  r_sex :: sex
  r_age :: int
  r_sector :: string
  r_answers :: "qid \<rightharpoonup> int"
  r_comment :: "string option"

record snapshot =
  db_sections :: "section_def list"
  db_questions :: "question list"
  db_companies :: "company list"
  db_respondents :: "respondent list"

text \<open>\<open>getCompanyRespondents(companyId)\<close>\<close>

definition getCompanyRespondents :: "snapshot \<Rightarrow> cid \<Rightarrow> respondent list" where
  "getCompanyRespondents db c = filter (\<lambda>r. r_companyId r = c) (db_respondents db)"

text \<open>
  \<open>companyId ? getCompanyRespondents(companyId) : respondents\<close>: an absent
  \<open>companyId\<close> and the empty string (falsy in JavaScript) both select every respondent.
\<close>

definition pool :: "snapshot \<Rightarrow> cid option \<Rightarrow> respondent list" where
  "pool db c = (case c of
                  None \<Rightarrow> db_respondents db
                | Some cid \<Rightarrow> if cid = [] then db_respondents db
                             else getCompanyRespondents db cid)"

text \<open>\<open>r.answers[questionId] || 0\<close>: a missing answer reads as 0.\<close>

definition answer_or_zero :: "respondent \<Rightarrow> qid \<Rightarrow> int" where
  "answer_or_zero r q = (case r_answers r q of None \<Rightarrow> 0 | Some v \<Rightarrow> v)"

section \<open>Example snapshot\<close>

text \<open>
  A small snapshot used by the witnesses: the four PROART sections, three questions
  (two of \<open>contexto\<close>, one of \<open>vivencias\<close>), the five companies, and five respondents
  of \<open>emp1\<close>, four answering 3 and one answering 5 to \<open>c1\<close>, all answering 5 to
  \<open>c2\<close> and 4 to \<open>v1\<close>. Company \<open>emp2\<close> has no respondent.
\<close>

definition ex_questions :: "question list" where
  "ex_questions =
     [ \<lparr>q_id = ''c1'', q_section = ''contexto'', q_sectionIndex = 0, q_number = 1, q_text = ''Q1''\<rparr>
     , \<lparr>q_id = ''c2'', q_section = ''contexto'', q_sectionIndex = 0, q_number = 2, q_text = ''Q2''\<rparr>
     , \<lparr>q_id = ''v1'', q_section = ''vivencias'', q_sectionIndex = 2, q_number = 1, q_text = ''Q3''\<rparr> ]"

definition ex_respondent :: "string \<Rightarrow> int \<Rightarrow> respondent" where
  "ex_respondent rid a =
     \<lparr>r_id = rid, r_companyId = ''emp1'', r_name = rid, r_sex = Feminino, r_age = 30,
      r_sector = ''TI'', r_answers = [''c1'' \<mapsto> a, ''c2'' \<mapsto> 5, ''v1'' \<mapsto> 4], r_comment = None\<rparr>"

definition ex_db :: snapshot where
  "ex_db = \<lparr>db_sections = sections, db_questions = ex_questions, db_companies = companies,
            db_respondents = [ex_respondent ''r0'' 3, ex_respondent ''r1'' 3,
                              ex_respondent ''r2'' 3, ex_respondent ''r3'' 3,
                              ex_respondent ''r4'' 5]\<rparr>"

text \<open>Three respondents answering three \<open>contexto\<close> questions with sums 4, 4 and 7: the
  rounded question means 1.33, 1.33 and 2.33 average to 1.6633..., while all nine answers
  average to 1.6666...; neither value is a half-cent tie of \<open>Math.round\<close>.\<close>

definition ex_views_questions :: "question list" where
  "ex_views_questions =
     [ \<lparr>q_id = ''c1'', q_section = ''contexto'', q_sectionIndex = 0, q_number = 1, q_text = ''Q1''\<rparr>
     , \<lparr>q_id = ''c2'', q_section = ''contexto'', q_sectionIndex = 0, q_number = 2, q_text = ''Q2''\<rparr>
     , \<lparr>q_id = ''c3'', q_section = ''contexto'', q_sectionIndex = 0, q_number = 3, q_text = ''Q3''\<rparr> ]"

definition ex_resp3 :: "string \<Rightarrow> int \<Rightarrow> int \<Rightarrow> int \<Rightarrow> respondent" where
  "ex_resp3 rid a b d =
     \<lparr>r_id = rid, r_companyId = ''emp1'', r_name = rid, r_sex = Masculino, r_age = 40,
      r_sector = ''RH'', r_answers = [''c1'' \<mapsto> a, ''c2'' \<mapsto> b, ''c3'' \<mapsto> d], r_comment = None\<rparr>"

definition ex_views_db :: snapshot where
  "ex_views_db = ex_db\<lparr>db_questions := ex_views_questions,
     db_respondents := [ex_resp3 ''a'' 1 1 2, ex_resp3 ''b'' 1 1 2, ex_resp3 ''c'' 2 2 3]\<rparr>"

section \<open>Data-quality invariants\<close>

text \<open>Every present answer lies on the scale 1..5 (missing answers are tolerated).\<close>

definition answers_in_scale :: "respondent \<Rightarrow> bool" where
  "answers_in_scale r \<longleftrightarrow> (\<forall>q v. r_answers r q = Some v \<longrightarrow> 1 \<le> v \<and> v \<le> 5)"

text \<open>The respondent answered question \<open>q\<close> with a value on the scale.\<close>

definition answered :: "respondent \<Rightarrow> qid \<Rightarrow> bool" where
  "answered r q \<longleftrightarrow> (case r_answers r q of None \<Rightarrow> False | Some v \<Rightarrow> 1 \<le> v \<and> v \<le> 5)"

definition complete_respondent :: "question list \<Rightarrow> respondent \<Rightarrow> bool" where
  "complete_respondent qs r \<longleftrightarrow> list_all (\<lambda>q. answered r (q_id q)) qs"

lemma answer_or_zero_range:
  assumes "answers_in_scale r"
  shows "0 \<le> answer_or_zero r q \<and> answer_or_zero r q \<le> 5"
proof (cases "r_answers r q")
  case (Some v)
  with assms have "1 \<le> v \<and> v \<le> 5" by (auto simp: answers_in_scale_def)
  with Some show ?thesis by (simp add: answer_or_zero_def)
qed (simp add: answer_or_zero_def)

lemma answer_or_zero_answered:
  "answered r q \<Longrightarrow> 1 \<le> answer_or_zero r q \<and> answer_or_zero r q \<le> 5"
  by (auto simp: answered_def answer_or_zero_def split: option.splits)

lemma pool_subset: "set (pool db c) \<subseteq> set (db_respondents db)"
  by (auto simp: pool_def getCompanyRespondents_def split: option.splits)

lemma pool_company [simp]:
  "cid \<noteq> [] \<Longrightarrow> pool db (Some cid) = getCompanyRespondents db cid"
  by (simp add: pool_def)

end
