(* ===== verification/Aggregation.thy ===== *)
theory Aggregation
  imports Store
begin

text \<open>
  The aggregation engine of \<open>src/src/data/mockData.ts\<close>: \<open>getQuestionAverage\<close>,
  \<open>getSectionAverage\<close> and \<open>getAnswerDistribution\<close>, and the flattened
  \<open>groupAverage\<close> of \<open>src/src/pages/Demographics.tsx\<close>. The \<open>reduce\<close> loops are
  \<open>foldl\<close> from 0. The lemmas relate each operation to the exact mean it rounds, bound
  its result, and count the distribution.
\<close>

text \<open>\<open>getQuestionAverage(questionId, companyId?)\<close>\<close>

definition getQuestionAverage :: "snapshot \<Rightarrow> qid \<Rightarrow> cid option \<Rightarrow> js_num" where
  "getQuestionAverage db q c =
     (let p = pool db c in
      if length p = 0 then 0
      else (let s = foldl (\<lambda>acc r. acc + of_int (answer_or_zero r q)) 0 p
            in round2 (s / of_nat (length p))))"

text \<open>\<open>getSectionAverage(sectionId, companyId?)\<close>: the mean of the rounded question
  averages of the section, rounded again.\<close>

definition getSectionAverage :: "snapshot \<Rightarrow> sid \<Rightarrow> cid option \<Rightarrow> js_num" where
  "getSectionAverage db s c =
     (let sq = section_questions (db_questions db) s in
      if length sq = 0 then 0
      else round2 (foldl (\<lambda>acc q. acc + getQuestionAverage db (q_id q) c) 0 sq
                   / of_nat (length sq)))"

record dist_entry =
  d_value :: int
  d_count :: nat
  d_percentage :: int

text \<open>\<open>getAnswerDistribution(questionId, companyId?)\<close>\<close>

definition getAnswerDistribution :: "snapshot \<Rightarrow> qid \<Rightarrow> cid option \<Rightarrow> dist_entry list" where
  "getAnswerDistribution db q c =
     (let p = pool db c in
      map (\<lambda>v. let cnt = length (filter (\<lambda>r. r_answers r q = Some v) p) in
               \<lparr>d_value = v, d_count = cnt,
                d_percentage = (if length p > 0
                                then round (of_nat cnt / of_nat (length p) * (100::js_num)) else 0)\<rparr>)
          [1, 2, 3, 4, 5])"

text \<open>\<open>groupAverage(pool, sectionId)\<close> of \<open>Demographics.tsx\<close>: one flattened mean over
  every answer of the section by every respondent of the pool.\<close>

definition groupAverage :: "question list \<Rightarrow> respondent list \<Rightarrow> sid \<Rightarrow> js_num" where
  "groupAverage qs0 p s =
     (let qs = section_questions qs0 s in
      if length p = 0 \<or> length qs = 0 then 0
      else (let total = foldl (\<lambda>acc r. acc + foldl (\<lambda>a q. a + of_int (answer_or_zero r (q_id q))) 0 qs) 0 p
            in round2 (total / of_nat (length p * length qs))))"

section \<open>Specification-level quantities\<close>

text \<open>The answers the question average reads, as numbers.\<close>

definition answer_values :: "snapshot \<Rightarrow> qid \<Rightarrow> cid option \<Rightarrow> js_num list" where
  "answer_values db q c = map (\<lambda>r. of_int (answer_or_zero r q)) (pool db c)"

text \<open>The exact (unrounded) per-question mean and the exact mean of those means.\<close>

definition exact_question_mean :: "snapshot \<Rightarrow> qid \<Rightarrow> cid option \<Rightarrow> js_num" where
  "exact_question_mean db q c = mean (answer_values db q c)"

definition exact_section_mean :: "snapshot \<Rightarrow> sid \<Rightarrow> cid option \<Rightarrow> js_num" where
  "exact_section_mean db s c =
     mean (map (\<lambda>q. exact_question_mean db (q_id q) c) (section_questions (db_questions db) s))"

definition store_in_scale :: "snapshot \<Rightarrow> bool" where
  "store_in_scale db \<longleftrightarrow> (\<forall>r\<in>set (db_respondents db). answers_in_scale r)"

section \<open>Folds as sums\<close>

lemma foldl_add_sum_list:
  "foldl (\<lambda>acc x. acc + f x) a xs = a + sum_list (map f xs)"
  by (induction xs arbitrary: a) (auto simp: add.assoc)

lemma sum_list_round_err:
  "\<bar>sum_list (map (\<lambda>x. of_int (round (f x))) xs) - sum_list (map f xs)\<bar>
     \<le> of_nat (length xs) / (2::rat)"
proof (induction xs)
  case Nil
  then show ?case by simp
next
  case (Cons x xs)
  let ?R = "sum_list (map (\<lambda>x. of_int (round (f x))) xs)" and ?F = "sum_list (map f xs)"
  have "\<bar>of_int (round (f x)) - f x\<bar> \<le> (1/2::rat)"
    by (rule of_int_round_abs_le)
  moreover have "\<bar>(of_int (round (f x)) + ?R) - (f x + ?F)\<bar>
      \<le> \<bar>of_int (round (f x)) - f x\<bar> + \<bar>?R - ?F\<bar>"
    by (metis abs_triangle_ineq add_diff_add)
  ultimately show ?case
    using Cons.IH by (simp add: field_simps)
qed

section \<open>Question average\<close>

lemma getQuestionAverage_mean [agg_simps]:
  "getQuestionAverage db q c = round2 (exact_question_mean db q c)"
  by (simp add: getQuestionAverage_def exact_question_mean_def answer_values_def mean_def
      foldl_add_sum_list Let_def comp_def)

lemma answer_values_range:
  "store_in_scale db \<Longrightarrow> \<forall>x\<in>set (answer_values db q c). 0 \<le> x \<and> x \<le> 5"
  using pool_subset [of db c] answer_or_zero_range
  by (fastforce simp: store_in_scale_def answer_values_def)

lemma exact_question_mean_range:
  assumes "store_in_scale db"
  shows "0 \<le> exact_question_mean db q c \<and> exact_question_mean db q c \<le> 5"
  using mean_bounds [OF answer_values_range [OF assms, of q c]]
  by (cases "answer_values db q c = []") (auto simp: exact_question_mean_def mean_def)

lemma getQuestionAverage_range [round_bounds]:
  assumes "store_in_scale db"
  shows "0 \<le> getQuestionAverage db q c \<and> getQuestionAverage db q c \<le> 5"
  using round2_between_ints [of 0 "exact_question_mean db q c" 5]
    exact_question_mean_range [OF assms, of q c]
  by (simp add: getQuestionAverage_mean)

section \<open>Section average\<close>

lemma mean_diff_le:
  assumes "\<forall>x\<in>set xs. \<bar>f x - g x\<bar> \<le> e" and "0 \<le> e"
  shows "\<bar>mean (map f xs) - mean (map g xs)\<bar> \<le> e"
proof (cases "xs = []")
  case False
  have "of_nat (length xs) * (- e) \<le> sum_list (map (\<lambda>x. f x - g x) xs)
      \<and> sum_list (map (\<lambda>x. f x - g x) xs) \<le> of_nat (length xs) * e"
    by (rule sum_list_bounds) (use assms(1) in force)
  moreover have "sum_list (map (\<lambda>x. f x - g x) xs) = sum_list (map f xs) - sum_list (map g xs)"
    by (simp add: sum_list_subtractf)
  moreover have "0 < (of_nat (length xs) :: rat)" using False by simp
  ultimately show ?thesis
    using False by (simp add: mean_def abs_le_iff diff_divide_distrib [symmetric]
        pos_le_divide_eq pos_divide_le_eq mult.commute)
qed (simp add: mean_def assms)

lemma mean_const:
  "xs \<noteq> [] \<Longrightarrow> \<forall>x\<in>set xs. x = k \<Longrightarrow> mean xs = k"
proof -
  assume ne: "xs \<noteq> []" and k: "\<forall>x\<in>set xs. x = k"
  then have "xs = replicate (length xs) k" by (simp add: replicate_length_same)
  then have "sum_list xs = of_nat (length xs) * k" by (metis sum_list_replicate)
  with ne show ?thesis by (simp add: mean_def)
qed

lemma getSectionAverage_mean [agg_simps]:
  "getSectionAverage db s c =
     round2 (mean (map (\<lambda>q. getQuestionAverage db (q_id q) c) (section_questions (db_questions db) s)))"
  by (simp add: getSectionAverage_def mean_def foldl_add_sum_list Let_def comp_def)

lemma getSectionAverage_err [round_bounds]:
  "\<bar>getSectionAverage db s c - exact_section_mean db s c\<bar> \<le> 1/100"
proof -
  let ?sq = "section_questions (db_questions db) s"
  let ?M = "mean (map (\<lambda>q. getQuestionAverage db (q_id q) c) ?sq)"
  have "\<forall>q\<in>set ?sq. \<bar>getQuestionAverage db (q_id q) c - exact_question_mean db (q_id q) c\<bar> \<le> 1/200"
    using round2_err by (simp only: getQuestionAverage_mean) blast
  then have "\<bar>?M - exact_section_mean db s c\<bar> \<le> 1/200"
    unfolding exact_section_mean_def by (rule mean_diff_le) simp
  with round2_err [of ?M] have "\<bar>round2 ?M - exact_section_mean db s c\<bar> \<le> 1/200 + 1/200"
    by (rule abs_diff_trans)
  then show ?thesis by (simp add: getSectionAverage_mean)
qed

lemma getSectionAverage_range [round_bounds]:
  assumes "store_in_scale db"
  shows "0 \<le> getSectionAverage db s c \<and> getSectionAverage db s c \<le> 5"
proof -
  let ?xs = "map (\<lambda>q. getQuestionAverage db (q_id q) c) (section_questions (db_questions db) s)"
  have "\<forall>x\<in>set ?xs. 0 \<le> x \<and> x \<le> 5"
    using getQuestionAverage_range [OF assms] by auto
  then have "0 \<le> mean ?xs \<and> mean ?xs \<le> 5"
    using mean_bounds [of ?xs 0 5] by (cases "?xs = []") (auto simp: mean_def)
  then show ?thesis
    using round2_between_ints [of 0 "mean ?xs" 5] by (simp add: getSectionAverage_mean)
qed

section \<open>Answer distribution\<close>

lemma sum_list_indicator_distinct:
  "distinct vs \<Longrightarrow> sum_list (map (\<lambda>v. if x = v then 1 else 0) vs) = (if x \<in> set vs then 1 else (0::nat))"
  by (induction vs) auto

lemma length_filter_Cons_ind:
  "length (filter P (r # p)) = (if P r then 1 else 0) + length (filter P p)"
  by simp

lemma sum_count_distinct:
  "distinct vs \<Longrightarrow>
     sum_list (map (\<lambda>v. length (filter (\<lambda>r. g r = v) p)) vs) = length (filter (\<lambda>r. g r \<in> set vs) p)"
proof (induction p)
  case Nil
  then show ?case by (simp add: sum_list_triv)
next
  case (Cons r p)
  have "sum_list (map (\<lambda>v. length (filter (\<lambda>r. g r = v) (r # p))) vs)
      = sum_list (map (\<lambda>v. if g r = v then 1 else 0) vs)
        + sum_list (map (\<lambda>v. length (filter (\<lambda>r. g r = v) p)) vs)"
    by (simp only: length_filter_Cons_ind sum_list_addf)
  with Cons show ?case by (simp add: sum_list_indicator_distinct)
qed

lemma scale_values: "set [1, 2, 3, 4, 5::int] = {1..5}"
  by auto

lemma getAnswerDistribution_counts:
  "map d_count (getAnswerDistribution db q c)
     = map (\<lambda>v. length (filter (\<lambda>r. r_answers r q = v) (pool db c))) (map Some [1, 2, 3, 4, 5])"
  by (simp add: getAnswerDistribution_def Let_def)

lemma distribution_count_total:
  "sum_list (map d_count (getAnswerDistribution db q c))
     = length (filter (\<lambda>r. answered r q) (pool db c))"
proof -
  have "sum_list (map d_count (getAnswerDistribution db q c))
      = length (filter (\<lambda>r. r_answers r q \<in> set (map Some [1, 2, 3, 4, 5::int])) (pool db c))"
    unfolding getAnswerDistribution_counts by (rule sum_count_distinct) simp
  also have "\<dots> = length (filter (\<lambda>r. answered r q) (pool db c))"
    by (rule arg_cong [where f = length], rule filter_cong)
       (auto simp: answered_def split: option.splits)
  finally show ?thesis .
qed

lemma getAnswerDistribution_percentages:
  "pool db c \<noteq> [] \<Longrightarrow>
   map d_percentage (getAnswerDistribution db q c)
     = map (\<lambda>n. round (of_nat n / of_nat (length (pool db c)) * (100::rat)))
           (map d_count (getAnswerDistribution db q c))"
  by (simp add: getAnswerDistribution_def Let_def)

lemma sum_list_scaled:
  "sum_list (map (\<lambda>k. of_nat k * a) ns) = of_nat (sum_list ns) * (a::rat)"
  by (induction ns) (simp_all add: distrib_right)

lemma of_int_sum_list_round:
  "of_int (sum_list (map (\<lambda>k. round (f k)) ns)) = sum_list (map (\<lambda>k. of_int (round (f k))) ns :: rat list)"
  by (induction ns) simp_all

lemma percentages_sum_bound:
  assumes pos: "0 < m" and tot: "sum_list ns = m" and len: "length ns = 5"
  shows "98 \<le> sum_list (map (\<lambda>k. round (of_nat k / of_nat m * (100::rat))) ns)
       \<and> sum_list (map (\<lambda>k. round (of_nat k / of_nat m * (100::rat))) ns) \<le> 102"
proof -
  let ?f = "\<lambda>k. of_nat k / of_nat m * (100::rat)"
  let ?S = "sum_list (map (\<lambda>k. round (?f k)) ns)"
  have "sum_list (map ?f ns) = sum_list (map (\<lambda>k. of_nat k * (100 / of_nat m)) ns)"
    by (simp add: field_simps)
  also have "\<dots> = 100"
    by (simp only: sum_list_scaled) (use pos tot in simp)
  finally have sum100: "sum_list (map ?f ns) = 100" .
  have "\<bar>of_int ?S - sum_list (map ?f ns)\<bar> \<le> of_nat (length ns) / 2"
    unfolding of_int_sum_list_round by (rule sum_list_round_err)
  with sum100 len have "\<bar>of_int ?S - 100\<bar> \<le> (5/2::rat)" by simp
  then have "(97::rat) < of_int ?S \<and> of_int ?S < (103::rat)"
    by (simp only: abs_le_iff) linarith
  then have "(97::int) < ?S \<and> ?S < 103"
    by (metis of_int_less_iff of_int_numeral)
  then show ?thesis by linarith
qed

lemma percent_round_nonneg: "0 \<le> round (of_nat k * 100 / of_nat n :: rat)"
  by (metis divide_nonneg_nonneg of_nat_0_le_iff of_nat_numeral of_nat_mult round_0 round_mono)

lemma percent_round_le_100: "k \<le> n \<Longrightarrow> round (of_nat k * 100 / of_nat n :: rat) \<le> 100"
proof -
  assume "k \<le> n"
  then have "of_nat k * 100 / of_nat n \<le> (100::rat)"
    by (cases "n = 0") (simp_all add: pos_divide_le_eq)
  then show ?thesis
    using round_mono [of "of_nat k * 100 / of_nat n :: rat" 100] by simp
qed

section \<open>Flattened group average\<close>

lemma sum_list_swap:
  fixes f :: "'a \<Rightarrow> 'b \<Rightarrow> 'c::comm_monoid_add"
  shows "sum_list (map (\<lambda>r. sum_list (map (\<lambda>q. f r q) qs)) p)
     = sum_list (map (\<lambda>q. sum_list (map (\<lambda>r. f r q) p)) qs)"
proof (induction p)
  case (Cons a p)
  then show ?case by (simp add: sum_list_addf)
qed simp

lemma groupAverage_sum:
  "groupAverage qs0 p s =
     (let qs = section_questions qs0 s in
      if p = [] \<or> qs = [] then 0
      else round2 (sum_list (map (\<lambda>r. sum_list (map (\<lambda>q. of_int (answer_or_zero r (q_id q))) qs)) p)
                   / of_nat (length p * length qs)))"
  by (simp add: groupAverage_def foldl_add_sum_list Let_def)

lemma groupAverage_exact:
  "groupAverage (db_questions db) (pool db c) s = round2 (exact_section_mean db s c)"
proof -
  let ?p = "pool db c" and ?qs = "section_questions (db_questions db) s"
  let ?a = "\<lambda>r q. of_int (answer_or_zero r (q_id q)) :: rat"
  show ?thesis
  proof (cases "?p = [] \<or> ?qs = []")
    case True
    then show ?thesis
      by (auto simp: groupAverage_sum exact_section_mean_def exact_question_mean_def
          answer_values_def mean_def)
  next
    case False
    have "exact_section_mean db s c
        = sum_list (map (\<lambda>q. sum_list (map (\<lambda>r. ?a r q) ?p) / of_nat (length ?p)) ?qs)
          / of_nat (length ?qs)"
      using False by (simp add: exact_section_mean_def exact_question_mean_def answer_values_def
          mean_def comp_def)
    also have "\<dots> = sum_list (map (\<lambda>q. sum_list (map (\<lambda>r. ?a r q) ?p)) ?qs)
          / of_nat (length ?p * length ?qs)"
      by (simp add: sum_list_divide divide_divide_eq_left mult.commute)
    also have "\<dots> = sum_list (map (\<lambda>r. sum_list (map (\<lambda>q. ?a r q) ?qs)) ?p)
          / of_nat (length ?p * length ?qs)"
      by (simp only: sum_list_swap [of _ ?qs ?p])
    finally show ?thesis
      using False by (simp only: groupAverage_sum Let_def if_False)
  qed
qed

section \<open>Properties of the aggregation engine\<close>

text \<open>
  C1. \<open>getQuestionAverage\<close> is the mean of the pool's answers (a missing answer
  counting 0, an empty pool giving 0) to the nearest cent: a value with at most two
  decimals within 0.005 of that mean. At an exact half cent both neighbours qualify, so the
  statement also holds where the double product falls just below the tie (194/80 gives
  2.42 in JavaScript).
\<close>

theorem question_average_nearest_cent:
  "hundredths (getQuestionAverage db q c)
   \<and> \<bar>getQuestionAverage db q c - mean (map (\<lambda>r. of_int (answer_or_zero r q)) (pool db c))\<bar> \<le> 1/200"
  using round2_err [of "exact_question_mean db q c"]
  by (simp add: getQuestionAverage_mean round2_hundredths exact_question_mean_def answer_values_def)

text \<open>
  C2. \<open>getSectionAverage\<close> is the two-level mean to the nearest cent: a value with at
  most two decimals within 0.005 of the mean of the section's rounded question averages,
  and so within 0.01 of the mean of the exact question means (ties either way, as in C1).
\<close>

theorem section_average_nearest_cent:
  "hundredths (getSectionAverage db s c)
   \<and> \<bar>getSectionAverage db s c
        - mean (map (\<lambda>q. getQuestionAverage db (q_id q) c) (section_questions (db_questions db) s))\<bar> \<le> 1/200
   \<and> \<bar>getSectionAverage db s c - exact_section_mean db s c\<bar> \<le> 1/100"
  using getSectionAverage_err [of db s c]
    round2_err [of "mean (map (\<lambda>q. getQuestionAverage db (q_id q) c) (section_questions (db_questions db) s))"]
  by (simp add: getSectionAverage_mean round2_hundredths)

text \<open>
  C3. When every stored answer lies on the scale 1..5, every question average and every
  section average lies in [0, 5], whatever the pool.
\<close>

theorem averages_in_scale:
  assumes "store_in_scale db"
  shows "0 \<le> getQuestionAverage db q c \<and> getQuestionAverage db q c \<le> 5
       \<and> 0 \<le> getSectionAverage db s c \<and> getSectionAverage db s c \<le> 5"
  using getQuestionAverage_range [OF assms] getSectionAverage_range [OF assms] by blast

theorem averages_in_scale_witness:
  "0 \<le> getQuestionAverage ex_db ''c1'' (Some ''emp1'') \<and> getQuestionAverage ex_db ''c1'' (Some ''emp1'') \<le> 5
   \<and> 0 \<le> getSectionAverage ex_db ''contexto'' (Some ''emp1'') \<and> getSectionAverage ex_db ''contexto'' (Some ''emp1'') \<le> 5"
proof -
  have h: "store_in_scale ex_db"
    by (simp add: store_in_scale_def ex_db_def ex_respondent_def answers_in_scale_def)
  show ?thesis using averages_in_scale [OF h, of "''c1''" "Some ''emp1''" "''contexto''"] by blast
qed

text \<open>
  C4. The five counts of \<open>getAnswerDistribution\<close> add up to the number of respondents
  of the pool that answered the question on the scale; when every respondent of the pool
  answered it, they add up to the pool size.
\<close>

theorem distribution_counts_total:
  assumes "\<forall>r\<in>set (pool db c). answered r q"
  shows "sum_list (map d_count (getAnswerDistribution db q c)) = length (pool db c)"
  using assms by (simp add: distribution_count_total)

theorem distribution_counts_total_witness:
  "sum_list (map d_count (getAnswerDistribution ex_db ''c1'' (Some ''emp1'')))
       = length (pool ex_db (Some ''emp1''))"
proof -
  have h: "\<forall>r\<in>set (pool ex_db (Some ''emp1'')). answered r ''c1''" by code_simp
  show ?thesis using distribution_counts_total [OF h] by blast
qed

text \<open>
  C5. For a non-empty pool in which every respondent answered the question, the five
  rounded percentages add up to 100 up to the rounding of five entries: between 98 and 102.
\<close>

theorem distribution_percentages_sum:
  assumes "pool db c \<noteq> []" and "\<forall>r\<in>set (pool db c). answered r q"
  shows "98 \<le> sum_list (map d_percentage (getAnswerDistribution db q c))
       \<and> sum_list (map d_percentage (getAnswerDistribution db q c)) \<le> 102"
proof -
  let ?ns = "map d_count (getAnswerDistribution db q c)"
  have "sum_list ?ns = length (pool db c)"
    using assms(2) by (simp add: distribution_count_total)
  moreover have "length ?ns = 5" by (simp add: getAnswerDistribution_def Let_def)
  moreover have "0 < length (pool db c)" using assms(1) by simp
  ultimately show ?thesis
    using percentages_sum_bound [of "length (pool db c)" ?ns]
    by (simp add: getAnswerDistribution_percentages [OF assms(1)])
qed

theorem distribution_percentages_sum_witness:
  "map d_percentage (getAnswerDistribution ex_db ''c1'' (Some ''emp1'')) = [0, 0, 80, 0, 20]
   \<and> map d_count (getAnswerDistribution ex_db ''c1'' (Some ''emp1'')) = [0, 0, 4, 0, 1]
   \<and> 98 \<le> sum_list (map d_percentage (getAnswerDistribution ex_db ''c1'' (Some ''emp1'')))"
proof -
  have h1: "pool ex_db (Some ''emp1'') \<noteq> []" by code_simp
  have h2: "\<forall>r\<in>set (pool ex_db (Some ''emp1'')). answered r ''c1''" by code_simp
  have "map d_percentage (getAnswerDistribution ex_db ''c1'' (Some ''emp1'')) = [0, 0, 80, 0, 20]"
    by code_simp
  moreover have "map d_count (getAnswerDistribution ex_db ''c1'' (Some ''emp1'')) = [0, 0, 4, 0, 1]"
    by code_simp
  ultimately show ?thesis using distribution_percentages_sum [OF h1 h2] by blast
qed

text \<open>
  C6. The distribution always has the five scale values 1..5 in ascending order, each
  with a count at most the pool size and a percentage in [0, 100], also when a value is
  never observed.
\<close>

theorem distribution_shape:
  "map d_value (getAnswerDistribution db q c) = [1, 2, 3, 4, 5]
   \<and> (\<forall>e\<in>set (getAnswerDistribution db q c).
        d_count e \<le> length (pool db c) \<and> 0 \<le> d_percentage e \<and> d_percentage e \<le> 100)"
  by (auto simp: getAnswerDistribution_def Let_def percent_round_nonneg percent_round_le_100)

theorem distribution_shape_witness:
  "map d_value (getAnswerDistribution ex_db ''v1'' None) = [1, 2, 3, 4, 5]
   \<and> d_percentage (getAnswerDistribution ex_db ''v1'' None ! 3) \<le> 100"
proof -
  have "3 < length (getAnswerDistribution ex_db ''v1'' None)"
    by (simp add: getAnswerDistribution_def Let_def)
  then have "getAnswerDistribution ex_db ''v1'' None ! 3 \<in> set (getAnswerDistribution ex_db ''v1'' None)"
    by (rule nth_mem)
  then show ?thesis using distribution_shape [of ex_db "''v1''" None] by blast
qed

text \<open>
  C7. A company with no respondent is a reportable state: for it every question average
  and every section average is 0 and every distribution entry has count 0 and
  percentage 0.
\<close>

theorem empty_company_zero:
  assumes "cid \<noteq> []" and "\<forall>r\<in>set (db_respondents db). r_companyId r \<noteq> cid"
  shows "getQuestionAverage db q (Some cid) = 0 \<and> getSectionAverage db s (Some cid) = 0
       \<and> map d_count (getAnswerDistribution db q (Some cid)) = [0, 0, 0, 0, 0]
       \<and> map d_percentage (getAnswerDistribution db q (Some cid)) = [0, 0, 0, 0, 0]"
proof -
  have empty: "pool db (Some cid) = []"
    using assms by (simp add: getCompanyRespondents_def filter_empty_conv)
  then have q0: "getQuestionAverage db q' (Some cid) = 0" for q'
    by (simp add: getQuestionAverage_def)
  have "mean (map (\<lambda>q. getQuestionAverage db (q_id q) (Some cid))
                  (section_questions (db_questions db) s)) = 0"
    by (simp add: q0 mean_def sum_list_triv)
  then have "getSectionAverage db s (Some cid) = 0"
    by (simp add: getSectionAverage_mean)
  with q0 empty show ?thesis
    by (simp add: getAnswerDistribution_def)
qed

theorem empty_company_zero_witness:
  "getSectionAverage ex_db ''gestao'' (Some ''emp2'') = 0
   \<and> map d_count (getAnswerDistribution ex_db ''c1'' (Some ''emp2'')) = [0, 0, 0, 0, 0]"
proof -
  have h1: "''emp2'' \<noteq> []" by simp
  have h2: "\<forall>r\<in>set (db_respondents ex_db). r_companyId r \<noteq> ''emp2''"
    by (simp add: ex_db_def ex_respondent_def)
  show ?thesis using empty_company_zero [OF h1 h2, of "''c1''" "''gestao''"] by blast
qed

text \<open>
  C8. Known values: if every respondent of a non-empty pool answers every question of a
  non-empty section with the same value \<open>k\<close>, the section average is exactly \<open>k\<close>
  (a single respondent answering 5 everywhere gives 5.00).
\<close>

theorem uniform_answers_section_average:
  assumes "pool db c \<noteq> []" and "section_questions (db_questions db) s \<noteq> []"
    and "\<forall>r\<in>set (pool db c). \<forall>q\<in>set (section_questions (db_questions db) s).
           r_answers r (q_id q) = Some k"
  shows "getSectionAverage db s c = of_int k"
proof -
  have qk: "getQuestionAverage db (q_id q) c = of_int k"
    if "q \<in> set (section_questions (db_questions db) s)" for q
  proof -
    have "\<forall>x\<in>set (answer_values db (q_id q) c). x = of_int k"
      using assms(3) that by (auto simp: answer_values_def answer_or_zero_def)
    then have "exact_question_mean db (q_id q) c = of_int k"
      using assms(1) by (simp add: exact_question_mean_def mean_const answer_values_def)
    then show ?thesis by (simp add: getQuestionAverage_mean)
  qed
  have "mean (map (\<lambda>q. getQuestionAverage db (q_id q) c) (section_questions (db_questions db) s))
      = of_int k"
    using assms(2) qk by (simp add: mean_const)
  then show ?thesis by (simp add: getSectionAverage_mean)
qed

theorem uniform_answers_section_average_witness:
  "getSectionAverage ex_db ''vivencias'' (Some ''emp1'') = 4"
proof -
  have h1: "pool ex_db (Some ''emp1'') \<noteq> []" by code_simp
  have h2: "section_questions (db_questions ex_db) ''vivencias'' \<noteq> []" by code_simp
  have h3: "\<forall>r\<in>set (pool ex_db (Some ''emp1'')).
              \<forall>q\<in>set (section_questions (db_questions ex_db) ''vivencias''). r_answers r (q_id q) = Some 4"
    by code_simp
  show ?thesis using uniform_answers_section_average [OF h1 h2 h3] by simp
qed

text \<open>
  C9. The flattened \<open>groupAverage\<close> of the demographic view, applied to the pool of
  the engine, is the exact mean of the exact question means to the nearest cent (every
  question shares one pool, so flattening and the two-level mean agree before rounding);
  it stays within 0.015 of \<open>getSectionAverage\<close>.
\<close>

theorem group_average_vs_section_average:
  "hundredths (groupAverage (db_questions db) (pool db c) s)
   \<and> \<bar>groupAverage (db_questions db) (pool db c) s - exact_section_mean db s c\<bar> \<le> 1/200
   \<and> \<bar>getSectionAverage db s c - groupAverage (db_questions db) (pool db c) s\<bar> \<le> 3/200"
proof -
  have g: "groupAverage (db_questions db) (pool db c) s = round2 (exact_section_mean db s c)"
    by (rule groupAverage_exact)
  have e: "\<bar>groupAverage (db_questions db) (pool db c) s - exact_section_mean db s c\<bar> \<le> 1/200"
    using round2_err by (simp add: g)
  then have "\<bar>exact_section_mean db s c - groupAverage (db_questions db) (pool db c) s\<bar> \<le> 1/200"
    by (simp add: abs_minus_commute)
  with getSectionAverage_err [of db s c]
  have "\<bar>getSectionAverage db s c - groupAverage (db_questions db) (pool db c) s\<bar> \<le> 1/100 + 1/200"
    by (rule abs_diff_trans)
  with g e show ?thesis by (simp add: round2_hundredths)
qed

text \<open>
  C10. The two section figures the program shows do differ: for three respondents whose
  answers to the three questions of a section sum to 4, 4 and 7, \<open>getSectionAverage\<close>
  (reports, dashboard) gives 1.66 while \<open>groupAverage\<close> (demographic view) gives 1.67
  for the same pool. Before rounding the two are 499/300 and 5/3, a third of a cent from any
  half-cent tie, so double arithmetic gives the same two figures.
\<close>

theorem section_views_disagree:
  "mean (map (\<lambda>q. getQuestionAverage ex_views_db (q_id q) None)
             (section_questions (db_questions ex_views_db) ''contexto'')) = 499/300
   \<and> exact_section_mean ex_views_db ''contexto'' None = 5/3
   \<and> getSectionAverage ex_views_db ''contexto'' None = 83/50
   \<and> groupAverage (db_questions ex_views_db) (pool ex_views_db None) ''contexto'' = 167/100"
proof -
  have "mean (map (\<lambda>q. getQuestionAverage ex_views_db (q_id q) None)
             (section_questions (db_questions ex_views_db) ''contexto'')) = 499/300" by code_simp
  moreover have "exact_section_mean ex_views_db ''contexto'' None = 5/3" by code_simp
  moreover have "getSectionAverage ex_views_db ''contexto'' None = 83/50" by code_simp
  moreover have "groupAverage (db_questions ex_views_db) (pool ex_views_db None) ''contexto'' = 167/100"
    by code_simp
  ultimately show ?thesis by blast
qed

end
