(* ===== verification/Classification.thy ===== *)
theory Classification
  imports Prelude
begin

text \<open>
  The classification policy as the program implements it, once per call site: the
  label of the CSV summary (\<open>exportUtils.ts\<close>), \<open>getClassification\<close> with its PDF
  colour (\<open>pdfExport.ts\<close>), the \<open>ClassBadge\<close> of the report preview
  (\<open>Reports.tsx\<close>) and the heatmap cell colour \<open>getColor\<close> with the inversion of
  the negative sections (\<open>HeatmapTable.tsx\<close>). The abstract policy of the specification
  is \<open>classify\<close> over an ordered datatype; each call site is shown to be \<open>classify\<close>
  followed by a rendering.
\<close>

datatype classification = Critico | Moderado | Bom

type_synonym rgb = "nat \<times> nat \<times> nat"

text \<open>\<open>COLORS.success\<close>, \<open>COLORS.warning\<close>, \<open>COLORS.danger\<close> of \<open>pdfExport.ts\<close>.\<close>

definition color_success :: rgb where "color_success = (34, 197, 94)"
definition color_warning :: rgb where "color_warning = (234, 179, 8)"
definition color_danger :: rgb where "color_danger = (239, 68, 68)"

text \<open>\<open>avg >= 4 ? "Bom" : avg >= 3 ? "Moderado" : "Critico"\<close> (CSV company report).\<close>

definition csv_classification :: "js_num \<Rightarrow> string" where
  "csv_classification avg =
     (if avg \<ge> 4 then ''Bom'' else if avg \<ge> 3 then ''Moderado'' else ''Critico'')"

record pdf_class =
  pc_label :: string
  pc_color :: rgb

text \<open>\<open>getClassification(value)\<close> of \<open>pdfExport.ts\<close>.\<close>

definition getClassification :: "js_num \<Rightarrow> pdf_class" where
  "getClassification v =
     (if v \<ge> 4 then \<lparr>pc_label = ''Bom'', pc_color = color_success\<rparr>
      else if v \<ge> 3 then \<lparr>pc_label = ''Moderado'', pc_color = color_warning\<rparr>
      else \<lparr>pc_label = ''Critico'', pc_color = color_danger\<rparr>)"

text \<open>\<open>ClassBadge({ value })\<close> of \<open>Reports.tsx\<close>: the tone of the badge and its text.\<close>

definition ClassBadge :: "js_num \<Rightarrow> string \<times> string" where
  "ClassBadge v =
     (if v \<ge> 4 then (''success'', ''Bom'')
      else if v \<ge> 3 then (''warning'', ''Moderado'')
      else (''destructive'', ''Critico''))"

text \<open>\<open>sectionId === "vivencias" || sectionId === "saude"\<close>: the inverted sections.\<close>

definition isNegative_section :: "sid \<Rightarrow> bool" where
  "isNegative_section s \<longleftrightarrow> s = ''vivencias'' \<or> s = ''saude''"

text \<open>\<open>isNegative ? 6 - value : value\<close>\<close>

definition oriented :: "bool \<Rightarrow> js_num \<Rightarrow> js_num" where
  "oriented neg v = (if neg then 6 - v else v)"

text \<open>\<open>getColor(value, isNegative)\<close> of \<open>HeatmapTable.tsx\<close>.\<close>

definition getColor :: "js_num \<Rightarrow> bool \<Rightarrow> string" where
  "getColor value neg =
     (let v = oriented neg value in
      if v \<ge> 4 then ''bg-success/80 text-success-foreground''
      else if v \<ge> 3 then ''bg-warning/70 text-warning-foreground''
      else ''bg-destructive/70 text-destructive-foreground'')"

section \<open>The abstract policy\<close>

text \<open>Specification 4.2: Good from 4.0, Moderate from 3.0, Critical below.\<close>

definition classify :: "js_num \<Rightarrow> classification" where
  "classify v = (if v \<ge> 4 then Bom else if v \<ge> 3 then Moderado else Critico)"

fun class_rank :: "classification \<Rightarrow> nat" where
  "class_rank Critico = 0"
| "class_rank Moderado = 1"
| "class_rank Bom = 2"

fun class_label :: "classification \<Rightarrow> string" where
  "class_label Bom = ''Bom''"
| "class_label Moderado = ''Moderado''"
| "class_label Critico = ''Critico''"

fun class_pdf_color :: "classification \<Rightarrow> rgb" where
  "class_pdf_color Bom = color_success"
| "class_pdf_color Moderado = color_warning"
| "class_pdf_color Critico = color_danger"

fun class_tone :: "classification \<Rightarrow> string" where
  "class_tone Bom = ''success''"
| "class_tone Moderado = ''warning''"
| "class_tone Critico = ''destructive''"

fun class_css :: "classification \<Rightarrow> string" where
  "class_css Bom = ''bg-success/80 text-success-foreground''"
| "class_css Moderado = ''bg-warning/70 text-warning-foreground''"
| "class_css Critico = ''bg-destructive/70 text-destructive-foreground''"

instantiation classification :: linorder
begin

definition less_eq_classification :: "classification \<Rightarrow> classification \<Rightarrow> bool" where
  "less_eq_classification a b \<longleftrightarrow> class_rank a \<le> class_rank b"

definition less_classification :: "classification \<Rightarrow> classification \<Rightarrow> bool" where
  "less_classification a b \<longleftrightarrow> class_rank a < class_rank b"

instance
proof
  fix a b c :: classification
  show "a < b \<longleftrightarrow> a \<le> b \<and> \<not> b \<le> a"
    by (auto simp: less_eq_classification_def less_classification_def)
  show "a \<le> a" by (simp add: less_eq_classification_def)
  show "a \<le> b \<Longrightarrow> b \<le> c \<Longrightarrow> a \<le> c" by (simp add: less_eq_classification_def)
  show "a \<le> b \<Longrightarrow> b \<le> a \<Longrightarrow> a = b"
    by (cases a; cases b) (simp_all add: less_eq_classification_def)
  show "a \<le> b \<or> b \<le> a" by (auto simp: less_eq_classification_def)
qed

end

section \<open>Each call site is the policy followed by a rendering\<close>

lemma csv_classification_classify: "csv_classification v = class_label (classify v)"
  by (simp add: csv_classification_def classify_def)

lemma getClassification_classify:
  "getClassification v = \<lparr>pc_label = class_label (classify v), pc_color = class_pdf_color (classify v)\<rparr>"
  by (simp add: getClassification_def classify_def)

lemma ClassBadge_classify: "ClassBadge v = (class_tone (classify v), class_label (classify v))"
  by (simp add: ClassBadge_def classify_def)

lemma getColor_classify: "getColor v neg = class_css (classify (oriented neg v))"
  by (simp add: getColor_def classify_def Let_def)

lemma classify_iff:
  "classify v = Bom \<longleftrightarrow> 4 \<le> v"
  "classify v = Moderado \<longleftrightarrow> 3 \<le> v \<and> v < 4"
  "classify v = Critico \<longleftrightarrow> v < 3"
  by (auto simp: classify_def)

lemma class_css_inj: "class_css a = class_css b \<longleftrightarrow> a = b"
  by (cases a; cases b) simp_all

lemma class_label_inj: "class_label a = class_label b \<longleftrightarrow> a = b"
  by (cases a; cases b) simp_all

lemma classify_mono: "v \<le> w \<Longrightarrow> classify v \<le> classify w"
  by (simp add: classify_def less_eq_classification_def)

lemma oriented_involution [simp]: "oriented neg (oriented neg v) = v"
  by (simp add: oriented_def)

lemma oriented_scale:
  "1 \<le> v \<Longrightarrow> v \<le> 5 \<Longrightarrow> 1 \<le> oriented neg v \<and> oriented neg v \<le> 5"
  by (simp add: oriented_def)

section \<open>Properties of the classification policy\<close>

text \<open>
  C11. The three renderings of a classification agree for every value: the CSV label,
  the PDF label of \<open>getClassification\<close> and the text of the preview's
  \<open>ClassBadge\<close> are the same word, and the PDF colour and badge tone are those of the
  same band of \<open>classify\<close>.
\<close>

theorem classification_parity:
  "csv_classification v = pc_label (getClassification v)
   \<and> snd (ClassBadge v) = csv_classification v
   \<and> pc_color (getClassification v) = class_pdf_color (classify v)
   \<and> fst (ClassBadge v) = class_tone (classify v)"
  by (simp add: csv_classification_classify getClassification_classify ClassBadge_classify)

text \<open>
  C12. Orientation law of the heatmap: in an inverted section a cell is coloured good
  exactly when the raw average is at most 2 and critical exactly when it exceeds 3 (lower
  raw is better); in the other sections good exactly from 4 and critical below 3.
\<close>

theorem heatmap_colour_orientation:
  "(getColor v True = class_css Bom \<longleftrightarrow> v \<le> 2)
   \<and> (getColor v True = class_css Critico \<longleftrightarrow> 3 < v)
   \<and> (getColor v False = class_css Bom \<longleftrightarrow> 4 \<le> v)
   \<and> (getColor v False = class_css Critico \<longleftrightarrow> v < 3)"
  by (simp only: getColor_classify class_css_inj classify_iff oriented_def if_True if_False) auto

end
