(* ===== verification/Format.thy ===== *)
theory Format
  imports Prelude
begin

text \<open>
  The ECMAScript operations the export code uses to turn numbers into text and back:
  \<open>Number.prototype.toFixed\<close> (\<open>to_fixed\<close>), the decimal rendering of a non-negative
  integer in a template literal (\<open>nat_str\<close>), \<open>Array.prototype.join\<close>
  (\<open>js_join\<close>) and \<open>parseFloat\<close> on decimal literals (\<open>parseFloat_dec\<close>). They
  are library semantics, modelled from the ECMAScript specification: \<open>toFixed(f)\<close> of a
  non-negative \<open>x\<close> prints the integer \<open>n\<close> nearest to \<open>x * 10^f\<close>, the larger
  one on a tie, with \<open>f\<close> decimals; a negative \<open>x\<close> is printed as \<open>"-"\<close> followed
  by \<open>toFixed\<close> of \<open>-x\<close>. Values of \<open>10^21\<close> and above (printed in exponent form)
  never occur in the program and are not modelled. \<open>parseFloat_dec\<close> accepts an optional
  sign, digits and an optional fraction; where \<open>parseFloat\<close> would read a longer prefix or
  return NaN it returns \<open>None\<close>.
\<close>

definition digit_char :: "nat \<Rightarrow> char" where
  "digit_char d = char_of (48 + d)"

fun nat_str :: "nat \<Rightarrow> string" where
  "nat_str n = (if n < 10 then [digit_char n] else nat_str (n div 10) @ [digit_char (n mod 10)])"

definition int_str :: "int \<Rightarrow> string" where
  "int_str i = (if i < 0 then ''-'' @ nat_str (nat (- i)) else nat_str (nat i))"

definition to_fixed_nonneg :: "nat \<Rightarrow> js_num \<Rightarrow> string" where
  "to_fixed_nonneg f x =
     (let m = nat_str (nat (round (x * 10 ^ f))) in
      if f = 0 then m
      else (let m' = (if length m \<le> f then replicate (f + 1 - length m) (CHR ''0'') @ m else m);
                k = length m'
            in take (k - f) m' @ ''.'' @ drop (k - f) m'))"

definition to_fixed :: "nat \<Rightarrow> js_num \<Rightarrow> string" where
  "to_fixed f x = (if x < 0 then ''-'' @ to_fixed_nonneg f (- x) else to_fixed_nonneg f x)"

fun js_join :: "string \<Rightarrow> string list \<Rightarrow> string" where
  "js_join sep [] = []"
| "js_join sep [x] = x"
| "js_join sep (x # xs) = x @ sep @ js_join sep xs"

definition is_digit :: "char \<Rightarrow> bool" where
  "is_digit c \<longleftrightarrow> (48::nat) \<le> of_char c \<and> of_char c \<le> (57::nat)"

definition digit_val :: "char \<Rightarrow> nat" where
  "digit_val c = of_char c - 48"

definition digits_num :: "string \<Rightarrow> nat" where
  "digits_num s = foldl (\<lambda>a c. 10 * a + digit_val c) 0 s"

definition digits_val :: "string \<Rightarrow> nat option" where
  "digits_val s = (if s \<noteq> [] \<and> list_all is_digit s then Some (digits_num s) else None)"

definition parseFloat_dec :: "string \<Rightarrow> js_num option" where
  "parseFloat_dec s =
     (let (sg, rest) = (if s \<noteq> [] \<and> hd s = CHR ''-'' then (-1, tl s)
                        else if s \<noteq> [] \<and> hd s = CHR ''+'' then (1, tl s) else (1, s));
          ip = takeWhile (\<lambda>c. c \<noteq> CHR ''.'') rest;
          fp = drop (Suc (length ip)) rest
      in case digits_val ip of
           None \<Rightarrow> None
         | Some a \<Rightarrow>
             if length ip = length rest then Some (sg * of_nat a)
             else (case digits_val fp of
                     None \<Rightarrow> None
                   | Some b \<Rightarrow> Some (sg * (of_nat a + of_nat b / 10 ^ length fp))))"

text \<open>The characters a printed number is made of; none of them is a CSV delimiter or quote.\<close>

definition numeric_text :: "string \<Rightarrow> bool" where
  "numeric_text s \<longleftrightarrow> list_all (\<lambda>c. is_digit c \<or> c = CHR ''-'' \<or> c = CHR ''.'') s"

declare nat_str.simps [simp del]

section \<open>Digits\<close>

lemma digit_char_is_digit: "d < 10 \<Longrightarrow> is_digit (digit_char d)"
  by (simp add: digit_char_def is_digit_def)

lemma digit_char_values [simp]:
  "digit_char 0 = CHR ''0''" "digit_char 1 = CHR ''1''" "digit_char 2 = CHR ''2''"
  "digit_char 3 = CHR ''3''" "digit_char 4 = CHR ''4''" "digit_char 5 = CHR ''5''"
  "digit_char 6 = CHR ''6''" "digit_char 7 = CHR ''7''" "digit_char 8 = CHR ''8''"
  "digit_char 9 = CHR ''9''"
  by (simp_all add: digit_char_def char_of_def bit_simps)

lemma digit_val_char [simp]: "d < 10 \<Longrightarrow> digit_val (digit_char d) = d"
  by (simp add: digit_char_def digit_val_def)

lemma digits_num_append:
  "digits_num (xs @ ys) = digits_num xs * 10 ^ length ys + digits_num ys"
proof (induction ys rule: rev_induct)
  case Nil
  then show ?case by (simp add: digits_num_def)
next
  case (snoc y ys)
  then show ?case by (simp add: digits_num_def algebra_simps)
qed

lemma digits_num_zeros [simp]: "digits_num (replicate k (CHR ''0'') @ m) = digits_num m"
proof -
  have "digits_num (replicate k (CHR ''0'')) = 0"
  proof (induction k)
    case (Suc k)
    have "replicate (Suc k) (CHR ''0'') = replicate k (CHR ''0'') @ [CHR ''0'']"
      by (simp add: replicate_append_same)
    with Suc show ?case by (simp add: digits_num_append digits_num_def digit_val_def)
  qed (simp add: digits_num_def)
  then show ?thesis by (simp add: digits_num_append)
qed

lemma nat_str_props: "nat_str n \<noteq> [] \<and> list_all is_digit (nat_str n) \<and> digits_num (nat_str n) = n"
proof (induction n rule: nat_str.induct)
  case (1 n)
  show ?case
  proof (cases "n < 10")
    case True
    then show ?thesis
      by (simp add: nat_str.simps [of n] digit_char_is_digit digits_num_def)
  next
    case False
    with "1.IH" have ih: "list_all is_digit (nat_str (n div 10)) \<and> digits_num (nat_str (n div 10)) = n div 10"
      by simp
    have "digits_num (nat_str (n div 10) @ [digit_char (n mod 10)]) = n div 10 * 10 + n mod 10"
      using ih by (simp add: digits_num_append digits_num_def)
    then show ?thesis
      using False ih by (simp add: nat_str.simps [of n] digit_char_is_digit)
  qed
qed

lemma digits_val_nat_str [simp]: "digits_val (nat_str n) = Some n"
  using nat_str_props [of n] by (simp add: digits_val_def)

lemma is_digit_not_sign:
  "is_digit c \<Longrightarrow> c \<noteq> CHR ''-'' \<and> c \<noteq> CHR ''+'' \<and> c \<noteq> CHR ''.''"
  by (auto simp: is_digit_def)

lemma zeros_digits: "list_all is_digit (replicate k (CHR ''0''))"
  by (simp add: is_digit_def list_all_iff)

section \<open>Parsing a printed decimal\<close>

lemma parse_unsigned:
  assumes "ip \<noteq> []" "list_all is_digit ip" "fp \<noteq> []" "list_all is_digit fp"
  shows "parseFloat_dec (ip @ ''.'' @ fp)
           = Some (of_nat (digits_num ip) + of_nat (digits_num fp) / 10 ^ length fp)"
proof -
  have hd: "hd (ip @ ''.'' @ fp) \<noteq> CHR ''-'' \<and> hd (ip @ ''.'' @ fp) \<noteq> CHR ''+''"
    using assms(1,2) is_digit_not_sign by (cases ip) auto
  have tw: "takeWhile (\<lambda>c. c \<noteq> CHR ''.'') (ip @ CHR ''.'' # fp) = ip"
    using assms(2) is_digit_not_sign by (simp add: takeWhile_append2 list_all_iff)
  show ?thesis
    using assms hd by (simp add: parseFloat_dec_def tw digits_val_def Let_def)
qed

lemma parse_negative:
  assumes "ip \<noteq> []" "list_all is_digit ip" "fp \<noteq> []" "list_all is_digit fp"
  shows "parseFloat_dec (''-'' @ ip @ ''.'' @ fp)
           = Some (- (of_nat (digits_num ip) + of_nat (digits_num fp) / 10 ^ length fp))"
proof -
  have tw: "takeWhile (\<lambda>c. c \<noteq> CHR ''.'') (ip @ CHR ''.'' # fp) = ip"
    using assms(2) is_digit_not_sign by (simp add: takeWhile_append2 list_all_iff)
  show ?thesis
    using assms by (simp add: parseFloat_dec_def tw digits_val_def Let_def)
qed

lemma to_fixed2_split:
  "\<exists>ip fp. to_fixed_nonneg 2 x = ip @ ''.'' @ fp \<and> ip \<noteq> [] \<and> list_all is_digit ip
     \<and> length fp = 2 \<and> list_all is_digit fp
     \<and> digits_num ip * 100 + digits_num fp = nat (round (x * 100))"
proof -
  let ?N = "nat (round (x * 100))"
  let ?m = "nat_str ?N"
  define m' where "m' = (if length ?m \<le> 2 then replicate (2 + 1 - length ?m) (CHR ''0'') @ ?m else ?m)"
  have len: "3 \<le> length m'"
    using nat_str_props [of ?N] by (auto simp: m'_def)
  have dig: "list_all is_digit m'"
    using nat_str_props [of ?N] zeros_digits by (auto simp: m'_def)
  have val: "digits_num m' = ?N"
    using nat_str_props [of ?N] by (simp add: m'_def)
  let ?ip = "take (length m' - 2) m'" and ?fp = "drop (length m' - 2) m'"
  have str: "to_fixed_nonneg 2 x = ?ip @ ''.'' @ ?fp"
    by (simp add: to_fixed_nonneg_def m'_def Let_def)
  have "digits_num m' = digits_num ?ip * 10 ^ length ?fp + digits_num ?fp"
    by (metis append_take_drop_id digits_num_append)
  then have "digits_num ?ip * 100 + digits_num ?fp = ?N"
    using len val by simp
  moreover have "?ip \<noteq> []" "length ?fp = 2" using len by auto
  moreover have "list_all is_digit ?ip" "list_all is_digit ?fp"
    using dig by (simp_all add: list_all_iff) (meson in_set_dropD in_set_takeD)+
  ultimately show ?thesis using str by blast
qed

lemma hundredths_nat_round:
  assumes "0 \<le> x" and "hundredths x"
  shows "of_nat (nat (round (x * 100))) = x * 100"
proof -
  have "x * 100 = of_int \<lfloor>x * 100\<rfloor>" using assms(2) unfolding hundredths_def by (rule sym)
  then have r: "round (x * 100) = \<lfloor>x * 100\<rfloor>" by (metis round_of_int)
  have "0 \<le> \<lfloor>x * 100\<rfloor>" using assms(1) by simp
  then show ?thesis using r \<open>x * 100 = _\<close> by simp
qed

lemma to_fixed2_nonneg_roundtrip:
  assumes "0 \<le> x" and "hundredths x"
  shows "parseFloat_dec (to_fixed_nonneg 2 x) = Some x"
proof -
  obtain ip fp where s: "to_fixed_nonneg 2 x = ip @ ''.'' @ fp" and ip: "ip \<noteq> []" "list_all is_digit ip"
    and fp: "length fp = 2" "list_all is_digit fp"
    and v: "digits_num ip * 100 + digits_num fp = nat (round (x * 100))"
    using to_fixed2_split [of x] by blast
  have "fp \<noteq> []" using fp(1) by auto
  then have "parseFloat_dec (to_fixed_nonneg 2 x) = Some (of_nat (digits_num ip) + of_nat (digits_num fp) / 100)"
    using s ip fp parse_unsigned [of ip fp] by simp
  also have "of_nat (digits_num ip) + of_nat (digits_num fp) / 100 = (of_nat (digits_num ip * 100 + digits_num fp) :: rat) / 100"
    by (simp add: field_simps)
  also have "\<dots> = x"
    using v hundredths_nat_round [OF assms] by simp
  finally show ?thesis .
qed

section \<open>Printed numbers are plain fields\<close>

lemma numeric_nat_str: "numeric_text (nat_str n)"
  using nat_str_props [of n] by (simp add: numeric_text_def list_all_iff)

lemma numeric_int_str: "numeric_text (int_str i)"
  using numeric_nat_str by (simp add: int_str_def numeric_text_def)

lemma numeric_to_fixed: "numeric_text (to_fixed f x)"
proof -
  have nn: "numeric_text (to_fixed_nonneg f y)" for y
  proof -
    let ?m = "nat_str (nat (round (y * 10 ^ f)))"
    define m' where "m' = (if length ?m \<le> f then replicate (f + 1 - length ?m) (CHR ''0'') @ ?m else ?m)"
    have d: "list_all is_digit m'"
      using nat_str_props zeros_digits by (simp add: m'_def)
    have "list_all is_digit (take k m')" "list_all is_digit (drop k m')" for k
      using d by (simp_all add: list_all_iff) (meson in_set_dropD in_set_takeD)+
    moreover have "to_fixed_nonneg f y = ?m
        \<or> to_fixed_nonneg f y = take (length m' - f) m' @ ''.'' @ drop (length m' - f) m'"
      by (simp add: to_fixed_nonneg_def m'_def Let_def)
    moreover have "numeric_text ?m" by (rule numeric_nat_str)
    ultimately show ?thesis
      by (auto simp: numeric_text_def list_all_iff)
  qed
  then show ?thesis by (simp add: to_fixed_def numeric_text_def)
qed

lemma numeric_no_sep:
  "numeric_text s \<Longrightarrow> CHR 0x22 \<notin> set s \<and> CHR '','' \<notin> set s"
  by (auto simp: numeric_text_def list_all_iff is_digit_def)

lemma parse_digits:
  assumes "ip \<noteq> []" "list_all is_digit ip"
  shows "parseFloat_dec ip = Some (of_nat (digits_num ip))"
    and "parseFloat_dec (CHR ''-'' # ip) = Some (- of_nat (digits_num ip))"
proof -
  have tw: "takeWhile (\<lambda>c. c \<noteq> CHR ''.'') ip = ip"
    using assms(2) is_digit_not_sign by (simp add: list_all_iff)
  have "hd ip \<noteq> CHR ''-'' \<and> hd ip \<noteq> CHR ''+''"
    using assms is_digit_not_sign by (cases ip) auto
  then show "parseFloat_dec ip = Some (of_nat (digits_num ip))"
    using assms by (simp add: parseFloat_dec_def tw digits_val_def Let_def)
  show "parseFloat_dec (CHR ''-'' # ip) = Some (- of_nat (digits_num ip))"
    using assms by (simp add: parseFloat_dec_def tw digits_val_def Let_def)
qed

lemma parse_int_str: "parseFloat_dec (int_str i) = Some (of_int i)"
proof -
  have p: "parseFloat_dec (nat_str n) = Some (of_nat n)"
      and m: "parseFloat_dec (CHR ''-'' # nat_str n) = Some (- of_nat n)" for n
    using parse_digits [of "nat_str n"] nat_str_props [of n] by simp_all
  show ?thesis
    using p [of "nat i"] m [of "nat (- i)"] by (simp add: int_str_def)
qed

lemma parse_empty: "parseFloat_dec [] = None"
  by (simp add: parseFloat_dec_def digits_val_def)

section \<open>Round trip of two-decimal values\<close>

lemma to_fixed2_parse:
  assumes "hundredths x"
  shows "parseFloat_dec (to_fixed 2 x) = Some x"
proof (cases "x < 0")
  case True
  have h: "hundredths (- x)"
    using assms by (simp add: hundredths_def) (metis floor_minus of_int_minus minus_mult_left)
  obtain ip fp where s: "to_fixed_nonneg 2 (- x) = ip @ ''.'' @ fp" and ip: "ip \<noteq> []" "list_all is_digit ip"
    and fp: "length fp = 2" "list_all is_digit fp"
    and v: "digits_num ip * 100 + digits_num fp = nat (round (- x * 100))"
    using to_fixed2_split [of "- x"] by auto
  have "fp \<noteq> []" using fp(1) by auto
  then have "parseFloat_dec (to_fixed 2 x) = Some (- (of_nat (digits_num ip) + of_nat (digits_num fp) / 100))"
    using True s ip fp parse_negative [of ip fp] by (simp add: to_fixed_def)
  also have "of_nat (digits_num ip) + of_nat (digits_num fp) / 100 = (of_nat (digits_num ip * 100 + digits_num fp) :: rat) / 100"
    by (simp add: field_simps)
  also have "\<dots> = - x"
    using v hundredths_nat_round [of "- x"] h True by simp
  finally show ?thesis by simp
next
  case False
  then show ?thesis
    using to_fixed2_nonneg_roundtrip [OF _ assms] by (simp add: to_fixed_def)
qed

section \<open>Signs and joins\<close>

lemma parse_plus_sign:
  "s \<noteq> [] \<Longrightarrow> hd s \<noteq> CHR ''-'' \<Longrightarrow> hd s \<noteq> CHR ''+'' \<Longrightarrow>
     parseFloat_dec (CHR ''+'' # s) = parseFloat_dec s"
  by (simp add: parseFloat_dec_def)

lemma to_fixed2_plus_parse:
  assumes "0 \<le> x" and "hundredths x"
  shows "parseFloat_dec (''+'' @ to_fixed 2 x) = Some x"
proof -
  obtain ip fp where s: "to_fixed_nonneg 2 x = ip @ ''.'' @ fp" and ip: "ip \<noteq> []" "list_all is_digit ip"
    using to_fixed2_split [of x] by blast
  have "hd (to_fixed 2 x) \<noteq> CHR ''-'' \<and> hd (to_fixed 2 x) \<noteq> CHR ''+''"
    using assms(1) s ip is_digit_not_sign by (cases ip) (auto simp: to_fixed_def)
  moreover have "to_fixed 2 x \<noteq> []" using assms(1) s by (simp add: to_fixed_def)
  ultimately show ?thesis
    using parse_plus_sign to_fixed2_parse [OF assms(2)] by simp
qed

lemma js_join_append:
  "xs \<noteq> [] \<Longrightarrow> ys \<noteq> [] \<Longrightarrow> js_join sep (xs @ ys) = js_join sep xs @ sep @ js_join sep ys"
proof (induction sep xs rule: js_join.induct)
  case (2 sep x)
  then show ?case by (cases ys) simp_all
qed simp_all

lemma js_join_Cons: "xs \<noteq> [] \<Longrightarrow> js_join sep (x # xs) = x @ sep @ js_join sep xs"
  by (cases xs) simp_all

end
