(* ===== verification/CsvExport.thy ===== *)
theory CsvExport
  imports Aggregation Classification Format
begin

text \<open>
  The CSV exports of \<open>src/src/lib/exportUtils.ts\<close>: \<open>exportCompanyReport\<close>,
  \<open>exportComparisonReport\<close>, \<open>exportRawData\<close> and \<open>exportHeatmapData\<close>, each
  producing the file handed to \<open>downloadCSV\<close>. The browser download itself (Blob, object
  URL, click) is not modelled: \<open>downloadCSV\<close> returns the file name and the content it
  would write (byte-order mark, then the lines joined by newlines). The two date strings
  (\<open>toLocaleDateString("pt-BR")\<close> and the ISO date of the file name) are inputs.
  Each line builder is one definition, named after the loop it comes from.
\<close>

record csv_file =
  f_name :: string
  f_content :: string

text \<open>\<open>const BOM = "\uFEFF"\<close>, encoded in UTF-8.\<close>

definition BOM :: string where
  "BOM = [CHR 0xEF, CHR 0xBB, CHR 0xBF]"

definition newline :: string where
  "newline = [CHR 0x0A]"

text \<open>\<open>downloadCSV(filename, csvContent)\<close>: the file the Blob holds.\<close>

definition downloadCSV :: "string \<Rightarrow> string \<Rightarrow> csv_file" where
  "downloadCSV filename csvContent = \<lparr>f_name = filename, f_content = BOM @ csvContent\<rparr>"

text \<open>\<open>name.replace(/\s+/g, "_")\<close>: every run of white space becomes one underscore.
  The flag records that the previous character was white space (inside a run).\<close>

definition is_ws :: "char \<Rightarrow> bool" where
  "is_ws c \<longleftrightarrow> c \<in> set [CHR '' '', CHR 0x09, CHR 0x0A, CHR 0x0B, CHR 0x0C, CHR 0x0D]"

fun underscore_run :: "bool \<Rightarrow> string \<Rightarrow> string" where
  "underscore_run inws [] = []"
| "underscore_run inws (c # cs) =
     (if is_ws c then (if inws then underscore_run True cs else CHR ''_'' # underscore_run True cs)
      else c # underscore_run False cs)"

definition underscore_ws :: "string \<Rightarrow> string" where
  "underscore_ws s = underscore_run False s"

text \<open>\<open>toUpperCase()\<close> on ASCII text.\<close>

definition js_upper :: "string \<Rightarrow> string" where
  "js_upper s = map (\<lambda>c. if (97::nat) \<le> of_char c \<and> of_char c \<le> (122::nat)
                         then char_of (of_char c - (32::nat)) else c) s"

text \<open>\<open>c.name.split(" ")[0]\<close>\<close>

definition first_word :: "string \<Rightarrow> string" where
  "first_word s = takeWhile (\<lambda>c. c \<noteq> CHR '' '') s"

text \<open>The values of \<open>Respondent.sex\<close> as printed.\<close>

fun sex_label :: "sex \<Rightarrow> string" where
  "sex_label Masculino = ''Masculino''"
| "sex_label Feminino = ''Feminino''"
| "sex_label Prefiro_nao_declarar = ''Prefiro nao declarar''"

definition sexGroups :: "sex list" where
  "sexGroups = [Masculino, Feminino, Prefiro_nao_declarar]"

record age_range =
  ar_label :: string
  ar_min :: int
  ar_max :: int

definition ageRanges :: "age_range list" where
  "ageRanges =
     [\<lparr>ar_label = ''18-25'', ar_min = 18, ar_max = 25\<rparr>, \<lparr>ar_label = ''26-35'', ar_min = 26, ar_max = 35\<rparr>,
      \<lparr>ar_label = ''36-45'', ar_min = 36, ar_max = 45\<rparr>, \<lparr>ar_label = ''46-55'', ar_min = 46, ar_max = 55\<rparr>,
      \<lparr>ar_label = ''56+'', ar_min = 56, ar_max = 100\<rparr>]"

definition age_count :: "respondent list \<Rightarrow> age_range \<Rightarrow> nat" where
  "age_count p r = length (filter (\<lambda>resp. ar_min r \<le> r_age resp \<and> r_age resp \<le> ar_max r) p)"

section \<open>Company report\<close>

text \<open>\<open>sections.forEach(s => ...)\<close> of the summary: \<open>${s.name},${avg.toFixed(2)},${classification}\<close>.\<close>

definition csv_summary_line :: "snapshot \<Rightarrow> cid \<Rightarrow> section_def \<Rightarrow> string" where
  "csv_summary_line db c s =
     (let avg = getSectionAverage db (s_id s) (Some c) in
      s_name s @ '','' @ to_fixed 2 avg @ '','' @ csv_classification avg)"

text \<open>\<open>qs.forEach(q => ...)\<close>: \<open>${q.number},"${q.text}",${avg.toFixed(2)},${percentages}\<close>.\<close>

definition csv_question_line :: "snapshot \<Rightarrow> cid \<Rightarrow> question \<Rightarrow> string" where
  "csv_question_line db c q =
     (let avg = getQuestionAverage db (q_id q) (Some c);
          dist = getAnswerDistribution db (q_id q) (Some c)
      in nat_str (q_number q) @ '','' @ ''\"'' @ q_text q @ ''\"'' @ '','' @ to_fixed 2 avg @ '',''
         @ js_join '','' (map (\<lambda>d. int_str (d_percentage d)) dist))"

definition csv_detail_block :: "snapshot \<Rightarrow> cid \<Rightarrow> section_def \<Rightarrow> string list" where
  "csv_detail_block db c s =
     [''DETALHAMENTO - '' @ js_upper (s_name s),
      ''N,Pergunta,Media,Nunca(%),Raramente(%),As vezes(%),Frequentemente(%),Sempre(%)'']
     @ map (csv_question_line db c) (section_questions (db_questions db) (s_id s)) @ ['''']"

definition csv_sex_line :: "respondent list \<Rightarrow> sex \<Rightarrow> string" where
  "csv_sex_line p sx =
     (let count = length (filter (\<lambda>r. r_sex r = sx) p) in
      sex_label sx @ '','' @ nat_str count @ '',''
      @ int_str (if length p > 0 then round (of_nat count / of_nat (length p) * (100::js_num)) else 0)
      @ ''%'')"

definition csv_age_line :: "respondent list \<Rightarrow> age_range \<Rightarrow> string" where
  "csv_age_line p r = ar_label r @ '','' @ nat_str (age_count p r)"

text \<open>\<open>exportCompanyReport(companyId)\<close>: \<open>None\<close> is the early return on an unknown id.\<close>

definition exportCompanyReport :: "snapshot \<Rightarrow> string \<Rightarrow> string \<Rightarrow> cid \<Rightarrow> csv_file option" where
  "exportCompanyReport db date isoDate companyId =
     (case find (\<lambda>c. c_id c = companyId) (db_companies db) of
        None \<Rightarrow> None
      | Some company \<Rightarrow>
          (let pool = getCompanyRespondents db companyId;
               lines =
                 [''RELATORIO PROART - '' @ c_name company, ''Setor: '' @ c_sector company,
                  ''Funcionarios: '' @ nat_str (c_employees company),
                  ''Respostas coletadas: '' @ nat_str (length pool),
                  ''Data de geracao: '' @ date, '''',
                  ''RESUMO POR PILAR'', ''Pilar,Media,Classificacao'']
                 @ map (csv_summary_line db companyId) (db_sections db) @ ['''']
                 @ concat (map (csv_detail_block db companyId) (db_sections db))
                 @ [''PERFIL DEMOGRAFICO DOS RESPONDENTES'', ''Genero,Quantidade,%'']
                 @ map (csv_sex_line pool) sexGroups @ ['''']
                 @ [''Faixa Etaria,Quantidade''] @ map (csv_age_line pool) ageRanges
           in Some (downloadCSV (''relatorio_'' @ underscore_ws (c_name company) @ ''_'' @ isoDate @ ''.csv'')
                                (js_join newline lines))))"

section \<open>Comparison report\<close>

text \<open>\<open>companies.filter(c => companyIds.includes(c.id))\<close>\<close>

definition selected_companies :: "snapshot \<Rightarrow> cid list \<Rightarrow> company list" where
  "selected_companies db ids = filter (\<lambda>c. c_id c \<in> set ids) (db_companies db)"

text \<open>The overall average printed by both comparison exports:
  \<open>(sections.reduce(...) / sections.length).toFixed(2)\<close>.\<close>

definition overall_average :: "snapshot \<Rightarrow> cid \<Rightarrow> js_num" where
  "overall_average db c =
     foldl (\<lambda>acc s. acc + getSectionAverage db (s_id s) (Some c)) 0 (db_sections db)
     / of_nat (length (db_sections db))"

definition csv_overview_line :: "snapshot \<Rightarrow> company \<Rightarrow> string" where
  "csv_overview_line db c =
     (let avgs = map (\<lambda>s. to_fixed 2 (getSectionAverage db (s_id s) (Some (c_id c)))) (db_sections db)
      in ''\"'' @ c_name c @ ''\"'' @ '','' @ c_sector c @ '',''
         @ nat_str (length (getCompanyRespondents db (c_id c))) @ '','' @ js_join '','' avgs
         @ '','' @ to_fixed 2 (overall_average db (c_id c)))"

definition csv_compare_block :: "snapshot \<Rightarrow> company list \<Rightarrow> section_def \<Rightarrow> string list" where
  "csv_compare_block db sel s =
     [''COMPARATIVO POR PERGUNTA - '' @ js_upper (s_name s),
      js_join '','' ([''N'', ''Pergunta''] @ map (\<lambda>c. first_word (c_name c)) sel)]
     @ map (\<lambda>q. nat_str (q_number q) @ '','' @ ''\"'' @ q_text q @ ''\"'' @ '',''
                @ js_join '','' (map (\<lambda>c. to_fixed 2 (getQuestionAverage db (q_id q) (Some (c_id c)))) sel))
           (section_questions (db_questions db) (s_id s))
     @ ['''']"

text \<open>\<open>exportComparisonReport(companyIds)\<close>: no check on the number of companies.\<close>

definition exportComparisonReport :: "snapshot \<Rightarrow> string \<Rightarrow> string \<Rightarrow> cid list \<Rightarrow> csv_file" where
  "exportComparisonReport db date isoDate companyIds =
     (let sel = selected_companies db companyIds;
          lines =
            [''RELATORIO COMPARATIVO PROART'', ''Empresas: '' @ js_join '' | '' (map c_name sel),
             ''Data: '' @ date, '''', ''VISAO GERAL'',
             js_join '','' ([''Empresa'', ''Setor'', ''Respostas''] @ map s_shortName (db_sections db)
                            @ [''Media Geral''])]
            @ map (csv_overview_line db) sel @ ['''']
            @ concat (map (csv_compare_block db sel) (db_sections db))
      in downloadCSV (''comparativo_PROART_'' @ isoDate @ ''.csv'') (js_join newline lines))"

section \<open>Raw data and heatmap exports\<close>

text \<open>\<open>r.answers[q.id] || ""\<close>: a missing (or zero) answer is a blank field.\<close>

definition raw_answer :: "respondent \<Rightarrow> question \<Rightarrow> string" where
  "raw_answer r q = (case r_answers r (q_id q) of None \<Rightarrow> '''' | Some v \<Rightarrow> if v = 0 then '''' else int_str v)"

text \<open>\<open>companies.find(c => c.id === r.companyId)?.name || ""\<close>\<close>

definition company_name :: "snapshot \<Rightarrow> cid \<Rightarrow> string" where
  "company_name db cid =
     (case find (\<lambda>c. c_id c = cid) (db_companies db) of None \<Rightarrow> '''' | Some c \<Rightarrow> c_name c)"

definition raw_row :: "snapshot \<Rightarrow> respondent \<Rightarrow> string" where
  "raw_row db r =
     ''\"'' @ r_name r @ ''\",\"'' @ company_name db (r_companyId r) @ ''\"'' @ '','' @ sex_label (r_sex r)
     @ '','' @ int_str (r_age r) @ '','' @ r_sector r @ '',''
     @ js_join '','' (map (raw_answer r) (db_questions db))"

definition raw_header :: "snapshot \<Rightarrow> string" where
  "raw_header db =
     js_join '','' ([''Respondente'', ''Empresa'', ''Sexo'', ''Idade'', ''Setor'']
                    @ map (\<lambda>q. q_section q @ ''_'' @ nat_str (q_number q)) (db_questions db))"

definition raw_lines :: "snapshot \<Rightarrow> string list" where
  "raw_lines db = raw_header db # map (raw_row db) (db_respondents db)"

definition exportRawData :: "snapshot \<Rightarrow> string \<Rightarrow> csv_file" where
  "exportRawData db isoDate =
     downloadCSV (''dados_brutos_PROART_'' @ isoDate @ ''.csv'') (js_join newline (raw_lines db))"

definition heatmap_row :: "snapshot \<Rightarrow> question \<Rightarrow> string" where
  "heatmap_row db q =
     ''\"'' @ nat_str (q_number q) @ ''. '' @ q_text q @ ''\"'' @ '',''
     @ js_join '','' (map (\<lambda>c. to_fixed 2 (getQuestionAverage db (q_id q) (Some (c_id c)))) (db_companies db))"

definition exportHeatmapData :: "snapshot \<Rightarrow> string \<Rightarrow> string \<Rightarrow> sid \<Rightarrow> csv_file" where
  "exportHeatmapData db date isoDate sectionId =
     (let qs = section_questions (db_questions db) sectionId;
          title = (case find (\<lambda>s. s_id s = sectionId) (db_sections db) of
                     None \<Rightarrow> sectionId
                   | Some s \<Rightarrow> if js_upper (s_name s) = [] then sectionId else js_upper (s_name s));
          lines = [''HEATMAP - '' @ title, ''Data: '' @ date, '''',
                   js_join '','' (''Pergunta'' # map (\<lambda>c. first_word (c_name c)) (db_companies db))]
                  @ map (heatmap_row db) qs
      in downloadCSV (''heatmap_'' @ sectionId @ ''_'' @ isoDate @ ''.csv'') (js_join newline lines))"

section \<open>Reading the tabular output back\<close>

text \<open>
  A reader of the tabular format of the specification: fields are separated by commas and
  a field may be wrapped in double quotes, inside which a comma is data. It has no escape
  for a quote inside a quoted field, since the program never writes one. \<open>csv_number\<close>
  reads a field as a number the way the engine reads an answer, a blank field as 0.
\<close>

fun csv_fields :: "bool \<Rightarrow> string \<Rightarrow> string \<Rightarrow> string list" where
  "csv_fields inq cur [] = [rev cur]"
| "csv_fields inq cur (c # cs) =
     (if inq then (if c = CHR 0x22 then csv_fields False cur cs else csv_fields True (c # cur) cs)
      else if c = CHR 0x22 then csv_fields True cur cs
      else if c = CHR '','' then rev cur # csv_fields False [] cs
      else csv_fields False (c # cur) cs)"

definition csv_split :: "string \<Rightarrow> string list" where
  "csv_split s = csv_fields False [] s"

definition csv_number :: "string \<Rightarrow> js_num" where
  "csv_number f = (case parseFloat_dec f of None \<Rightarrow> 0 | Some x \<Rightarrow> x)"

definition plain_field :: "string \<Rightarrow> bool" where
  "plain_field f \<longleftrightarrow> CHR 0x22 \<notin> set f \<and> CHR '','' \<notin> set f"

section \<open>Lemmas on the reader\<close>

lemma csv_fields_plain:
  "plain_field f \<Longrightarrow> csv_fields False cur (f @ rest) = csv_fields False (rev f @ cur) rest"
  by (induction f arbitrary: cur) (auto simp: plain_field_def)

lemma csv_fields_quoted:
  "CHR 0x22 \<notin> set f \<Longrightarrow> csv_fields True cur (f @ rest) = csv_fields True (rev f @ cur) rest"
  by (induction f arbitrary: cur) auto

lemma csv_fields_plain_last:
  "plain_field f \<Longrightarrow> csv_fields False [] f = [f]"
  using csv_fields_plain [of f "[]" "[]"] by simp

lemma csv_fields_field:
  "plain_field f \<Longrightarrow> csv_fields False [] (f @ CHR '','' # rest) = f # csv_fields False [] rest"
  by (simp add: csv_fields_plain)

lemma csv_fields_quoted_field:
  "CHR 0x22 \<notin> set f \<Longrightarrow>
     csv_fields False [] (CHR 0x22 # f @ CHR 0x22 # CHR '','' # rest) = f # csv_fields False [] rest"
  by (simp add: csv_fields_quoted)

lemma csv_fields_join:
  "fs \<noteq> [] \<Longrightarrow> list_all plain_field fs \<Longrightarrow> csv_fields False [] (js_join '','' fs) = fs"
  by (induction "'','' :: string" fs rule: js_join.induct)
     (simp_all add: csv_fields_plain_last csv_fields_field)

lemma numeric_plain [intro]: "numeric_text s \<Longrightarrow> plain_field s"
  using numeric_no_sep by (simp add: plain_field_def)

lemma plain_csv_classification [simp]: "plain_field (csv_classification v)"
  by (simp add: csv_classification_def plain_field_def)

lemma plain_sex_label [simp]: "plain_field (sex_label x)"
  by (cases x) (simp_all add: plain_field_def)

lemma plain_int_str [simp]: "plain_field (int_str i)"
  using numeric_int_str by (rule numeric_plain)

lemma plain_raw_answer [simp]: "plain_field (raw_answer r q)"
  by (simp add: raw_answer_def split: option.splits) (simp add: plain_field_def)

lemma raw_answer_read: "csv_number (raw_answer r q) = of_int (answer_or_zero r (q_id q))"
  by (simp add: raw_answer_def csv_number_def answer_or_zero_def parse_int_str parse_empty
      split: option.splits)

lemma raw_answer_blank: "raw_answer r q = [] \<longleftrightarrow> answer_or_zero r (q_id q) = 0"
  using nat_str_props by (auto simp: raw_answer_def answer_or_zero_def int_str_def split: option.splits)

lemma engine_hundredths:
  "hundredths (getQuestionAverage db q c)" "hundredths (getSectionAverage db s c)"
  by (simp_all only: getQuestionAverage_mean getSectionAverage_mean round2_hundredths)

section \<open>Properties of the CSV exports\<close>

text \<open>
  C19. The CSV summary row of a section, read back with a CSV reader, has three fields: the
  section name, the section average printed with two decimals, which parses back to the
  exact value \<open>getSectionAverage\<close> returned, and the label of the classification of
  that value.
\<close>

theorem csv_summary_roundtrip:
  assumes "plain_field (s_name s)"
  shows "csv_split (csv_summary_line db c s)
           = [s_name s, to_fixed 2 (getSectionAverage db (s_id s) (Some c)),
              class_label (classify (getSectionAverage db (s_id s) (Some c)))]
         \<and> csv_number (csv_split (csv_summary_line db c s) ! 1) = getSectionAverage db (s_id s) (Some c)"
proof -
  let ?a = "getSectionAverage db (s_id s) (Some c)"
  have fx: "plain_field (to_fixed 2 ?a)" using numeric_to_fixed by (rule numeric_plain)
  have split: "csv_split (csv_summary_line db c s) = [s_name s, to_fixed 2 ?a, csv_classification ?a]"
    using assms fx by (simp add: csv_split_def csv_summary_line_def Let_def csv_fields_field csv_fields_plain_last)
  have "csv_number (to_fixed 2 ?a) = ?a"
    using to_fixed2_parse [OF engine_hundredths(2)] by (simp add: csv_number_def)
  then show ?thesis using split by (simp add: csv_classification_classify)
qed

theorem csv_summary_roundtrip_witness:
  "csv_split (csv_summary_line ex_db ''emp1'' (sections ! 0))
     = [''Contexto do Trabalho'', ''4.20'', ''Bom'']
   \<and> csv_number (csv_split (csv_summary_line ex_db ''emp1'' (sections ! 0)) ! 1) = 21/5"
proof -
  have a: "getSectionAverage ex_db ''contexto'' (Some ''emp1'') = 21/5" by code_simp
  have n: "plain_field (s_name (sections ! 0))" by (simp add: sections_def plain_field_def)
  have i: "s_id (sections ! 0) = ''contexto''" by (simp add: sections_def)
  show ?thesis using csv_summary_roundtrip [OF n, of ex_db "''emp1''"] a i
    by (simp add: to_fixed_def to_fixed_nonneg_def classify_def) code_simp
qed

text \<open>
  C20. A raw-data row, read back with a CSV reader, gives the respondent's name, company
  name, sex, age and sector followed by one field per question in schema order; each answer
  field reads back as the value the engine uses for it (\<open>r.answers[q] || 0\<close>), and it
  is blank exactly when that value is 0, so a missing answer is blank and never a zero. The
  row keeps its shape only when the name fields hold no double quote and the unquoted
  sector no comma: the program does not escape them.
\<close>

theorem raw_row_roundtrip:
  assumes "CHR 0x22 \<notin> set (r_name r)" "CHR 0x22 \<notin> set (company_name db (r_companyId r))"
    and "plain_field (r_sector r)" and "db_questions db \<noteq> []"
  shows "csv_split (raw_row db r)
           = [r_name r, company_name db (r_companyId r), sex_label (r_sex r), int_str (r_age r), r_sector r]
             @ map (raw_answer r) (db_questions db)
         \<and> map csv_number (drop 5 (csv_split (raw_row db r)))
           = map (\<lambda>q. of_int (answer_or_zero r (q_id q))) (db_questions db)
         \<and> (raw_answer r q = [] \<longleftrightarrow> answer_or_zero r (q_id q) = 0)"
proof -
  have j: "csv_fields False [] (js_join '','' (map (raw_answer r) (db_questions db)))
             = map (raw_answer r) (db_questions db)"
    using assms(4) by (intro csv_fields_join) (simp_all add: list_all_iff)
  have "csv_split (raw_row db r)
           = [r_name r, company_name db (r_companyId r), sex_label (r_sex r), int_str (r_age r), r_sector r]
             @ map (raw_answer r) (db_questions db)"
    using assms(1-3) j
    by (simp add: csv_split_def raw_row_def csv_fields_quoted csv_fields_field del: csv_fields.simps)
       (simp add: csv_fields_quoted csv_fields_field)
  then show ?thesis by (simp add: comp_def raw_answer_read raw_answer_blank)
qed

theorem raw_row_roundtrip_witness:
  "csv_split (raw_row ex_db (ex_respondent ''r0'' 3))
     = [''r0'', ''TechSol Ltda'', ''Feminino'', ''30'', ''TI'', ''3'', ''5'', ''4'']
   \<and> map csv_number (drop 5 (csv_split (raw_row ex_db (ex_respondent ''r0'' 3)))) = [3, 5, 4]
   \<and> raw_answer (ex_respondent ''r0'' 3) (ex_questions ! 0) \<noteq> []"
proof -
  let ?r = "ex_respondent ''r0'' 3"
  have cn: "company_name ex_db (r_companyId ?r) = ''TechSol Ltda''"
    by (simp add: company_name_def ex_db_def companies_def ex_respondent_def)
  have h2: "CHR 0x22 \<notin> set (company_name ex_db (r_companyId ?r))"
    unfolding cn by simp
  have h1: "CHR 0x22 \<notin> set (r_name ?r)"
    and h3: "plain_field (r_sector ?r)" and h4: "db_questions ex_db \<noteq> []"
    by (simp_all add: cn ex_respondent_def plain_field_def ex_db_def ex_questions_def)
  have m: "map (raw_answer ?r) (db_questions ex_db) = [''3'', ''5'', ''4'']"
    and q: "map (\<lambda>q. of_int (answer_or_zero ?r (q_id q))) (db_questions ex_db) = [3, 5, 4 :: js_num]"
    and z: "answer_or_zero ?r (q_id (ex_questions ! 0)) = 3"
    and f: "r_name ?r = ''r0''" "sex_label (r_sex ?r) = ''Feminino''" "int_str (r_age ?r) = ''30''"
      "r_sector ?r = ''TI''"
    by (simp_all add: ex_db_def ex_questions_def ex_respondent_def raw_answer_def answer_or_zero_def
        int_str_def nat_str.simps)
  have n: "csv_number ''3'' = 3" "csv_number ''5'' = 5" "csv_number ''4'' = 4"
    using parse_int_str [of 3] parse_int_str [of 5] parse_int_str [of 4]
    by (simp_all add: csv_number_def int_str_def nat_str.simps)
  show ?thesis
    using raw_row_roundtrip [OF h1 h2 h3 h4, of "ex_questions ! 0"] n
    unfolding m q z f cn by simp
qed

text \<open>
  C21. The comparison report depends only on the set of company ids it is given: its columns
  follow the order of the companies in the store, not the order the caller supplied.
\<close>

theorem comparison_columns_company_order:
  "set ids1 = set ids2 \<Longrightarrow> exportComparisonReport db d i ids1 = exportComparisonReport db d i ids2"
  by (simp add: exportComparisonReport_def selected_companies_def)

theorem comparison_columns_company_order_witness:
  "exportComparisonReport ex_db ''09/11/2026'' ''2026-11-09'' [''emp2'', ''emp1'']
     = exportComparisonReport ex_db ''09/11/2026'' ''2026-11-09'' [''emp1'', ''emp2'']
   \<and> map c_id (selected_companies ex_db [''emp2'', ''emp1'']) = [''emp1'', ''emp2'']"
proof -
  have "set [''emp2'', ''emp1''] = set [''emp1'', ''emp2'']" by auto
  then show ?thesis
    using comparison_columns_company_order [of "[''emp2'', ''emp1'']" "[''emp1'', ''emp2'']" ex_db]
    by (simp add: selected_companies_def ex_db_def companies_def)
qed

text \<open>
  C22. The company report is produced exactly when the id names a company of the store
  (an unknown id returns without output), and the file it produces starts with the UTF-8
  byte-order mark.
\<close>

theorem company_report_not_found:
  "(exportCompanyReport db d i c = None \<longleftrightarrow> c \<notin> c_id ` set (db_companies db))
   \<and> (exportCompanyReport db d i c = Some f \<longrightarrow> take 3 (f_content f) = BOM)"
proof -
  have "find (\<lambda>co. c_id co = c) (db_companies db) = Some co \<Longrightarrow> c \<in> c_id ` set (db_companies db)" for co
    by (auto simp: find_Some_iff)
  then show ?thesis
    by (auto simp: exportCompanyReport_def find_None_iff downloadCSV_def BOM_def Let_def split: option.splits)
qed

theorem company_report_not_found_witness:
  "exportCompanyReport ex_db ''09/11/2026'' ''2026-11-09'' ''emp9'' = None
   \<and> take 3 (f_content (the (exportCompanyReport ex_db ''09/11/2026'' ''2026-11-09'' ''emp1''))) = BOM"
proof -
  let ?e = "\<lambda>c. exportCompanyReport ex_db ''09/11/2026'' ''2026-11-09'' c"
  have n: "?e ''emp9'' = None" and s: "?e ''emp1'' \<noteq> None"
    using company_report_not_found [of ex_db _ _ "''emp9''"] company_report_not_found [of ex_db _ _ "''emp1''"]
    by (simp_all add: ex_db_def companies_def)
  then have "?e ''emp1'' = Some (the (?e ''emp1''))" by simp
  then show ?thesis
    using n company_report_not_found [of ex_db _ _ "''emp1''" "the (?e ''emp1'')"] by simp
qed

end
