(* ===== verification/Ranking.thy ===== *)
theory Ranking
  imports Aggregation Classification "HOL-Library.Multiset"
begin

text \<open>
  The strengths and critical-items rankings, computed twice in the program: in the report
  preview (\<open>Reports.tsx\<close>) and in the company PDF (\<open>pdfExport.ts\<close>). Each builds
  \<open>allQAvg\<close> (every question extended with its average), sorts a copy with a
  comparator and keeps the first five (\<open>slice(0, 5)\<close>).

  \<open>Array.prototype.sort\<close> is modelled by \<open>js_sort\<close>, a stable insertion sort driven
  by the comparator's sign: ECMAScript requires the sort to be stable, and for a
  comparator of the form \<open>k a - k b\<close> every stable sort returns the same permutation,
  the one of the library's \<open>sort_key k\<close>; \<open>js_sort_key\<close> proves the equation.
\<close>

text \<open>\<open>{ ...q, avg: getQuestionAverage(q.id, companyId) }\<close>\<close>

record question_avg = question +
  qa_avg :: js_num

definition allQAvg :: "snapshot \<Rightarrow> cid option \<Rightarrow> question_avg list" where
  "allQAvg db c =
     map (\<lambda>q. question.extend q (question_avg.fields (getQuestionAverage db (q_id q) c)))
         (db_questions db)"

fun js_insert :: "('a \<Rightarrow> 'a \<Rightarrow> js_num) \<Rightarrow> 'a \<Rightarrow> 'a list \<Rightarrow> 'a list" where
  "js_insert cmp x [] = [x]"
| "js_insert cmp x (y # ys) = (if cmp x y \<le> 0 then x # y # ys else y # js_insert cmp x ys)"

fun js_sort :: "('a \<Rightarrow> 'a \<Rightarrow> js_num) \<Rightarrow> 'a list \<Rightarrow> 'a list" where
  "js_sort cmp [] = []"
| "js_sort cmp (x # xs) = js_insert cmp x (js_sort cmp xs)"

text \<open>Comparator of \<open>critical\<close> in \<open>Reports.tsx\<close>.\<close>

definition reports_critical_cmp :: "question_avg \<Rightarrow> question_avg \<Rightarrow> js_num" where
  "reports_critical_cmp a b =
     (let isNegA = isNegative_section (q_section a); isNegB = isNegative_section (q_section b);
          scoreA = (if isNegA then qa_avg a else 6 - qa_avg a);
          scoreB = (if isNegB then qa_avg b else 6 - qa_avg b)
      in scoreB - scoreA)"

text \<open>Comparator of \<open>strengths\<close> in \<open>Reports.tsx\<close>.\<close>

definition reports_strengths_cmp :: "question_avg \<Rightarrow> question_avg \<Rightarrow> js_num" where
  "reports_strengths_cmp a b =
     (let isNegA = isNegative_section (q_section a); isNegB = isNegative_section (q_section b);
          scoreA = (if isNegA then 6 - qa_avg a else qa_avg a);
          scoreB = (if isNegB then 6 - qa_avg b else qa_avg b)
      in scoreB - scoreA)"

text \<open>Comparator of \<open>strengths\<close> in \<open>pdfExport.ts\<close>.\<close>

definition pdf_strengths_cmp :: "question_avg \<Rightarrow> question_avg \<Rightarrow> js_num" where
  "pdf_strengths_cmp a b =
     (let isNegA = isNegative_section (q_section a); isNegB = isNegative_section (q_section b)
      in (if isNegB then 6 - qa_avg b else qa_avg b) - (if isNegA then 6 - qa_avg a else qa_avg a))"

text \<open>Comparator of \<open>critical\<close> in \<open>pdfExport.ts\<close>.\<close>

definition pdf_critical_cmp :: "question_avg \<Rightarrow> question_avg \<Rightarrow> js_num" where
  "pdf_critical_cmp a b =
     (let isNegA = isNegative_section (q_section a); isNegB = isNegative_section (q_section b)
      in (if isNegB then qa_avg b else 6 - qa_avg b) - (if isNegA then qa_avg a else 6 - qa_avg a))"

definition reports_critical :: "snapshot \<Rightarrow> cid option \<Rightarrow> question_avg list" where
  "reports_critical db c = take 5 (js_sort reports_critical_cmp (allQAvg db c))"

definition reports_strengths :: "snapshot \<Rightarrow> cid option \<Rightarrow> question_avg list" where
  "reports_strengths db c = take 5 (js_sort reports_strengths_cmp (allQAvg db c))"

definition pdf_strengths :: "snapshot \<Rightarrow> cid option \<Rightarrow> question_avg list" where
  "pdf_strengths db c = take 5 (js_sort pdf_strengths_cmp (allQAvg db c))"

definition pdf_critical :: "snapshot \<Rightarrow> cid option \<Rightarrow> question_avg list" where
  "pdf_critical db c = take 5 (js_sort pdf_critical_cmp (allQAvg db c))"

text \<open>The oriented score of a ranked question (higher is better in every section).\<close>

definition oriented_score :: "question_avg \<Rightarrow> js_num" where
  "oriented_score a = oriented (isNegative_section (q_section a)) (qa_avg a)"

text \<open>A fixture for the witnesses: seven questions over the example respondents, of which
  four have no answers (average 0); \<open>s1\<close> is inverted, so its oriented score is 6.\<close>

definition ex_rank_db :: snapshot where
  "ex_rank_db = ex_db\<lparr>db_questions := ex_questions @
     [ \<lparr>q_id = ''c3'', q_section = ''contexto'', q_sectionIndex = 0, q_number = 3, q_text = ''Q4''\<rparr>
     , \<lparr>q_id = ''g1'', q_section = ''gestao'', q_sectionIndex = 1, q_number = 1, q_text = ''Q5''\<rparr>
     , \<lparr>q_id = ''g2'', q_section = ''gestao'', q_sectionIndex = 1, q_number = 2, q_text = ''Q6''\<rparr>
     , \<lparr>q_id = ''s1'', q_section = ''saude'', q_sectionIndex = 3, q_number = 1, q_text = ''Q7''\<rparr> ]\<rparr>"

section \<open>The comparator sort is the stable key sort\<close>

lemma js_insert_key:
  "(\<forall>a b. cmp a b = k a - k b) \<Longrightarrow> js_insert cmp x ys = insort_key k x ys"
  by (induction ys) auto

lemma js_sort_key:
  "(\<forall>a b. cmp a b = k a - k b) \<Longrightarrow> js_sort cmp xs = sort_key k xs"
  by (induction xs) (simp_all add: js_insert_key)

lemma strengths_cmp_key:
  "reports_strengths_cmp a b = (- oriented_score a) - (- oriented_score b)"
  "pdf_strengths_cmp a b = (- oriented_score a) - (- oriented_score b)"
  by (simp_all add: reports_strengths_cmp_def pdf_strengths_cmp_def oriented_score_def
      oriented_def Let_def)

lemma critical_cmp_key:
  "reports_critical_cmp a b = oriented_score a - oriented_score b"
  "pdf_critical_cmp a b = oriented_score a - oriented_score b"
  by (simp_all add: reports_critical_cmp_def pdf_critical_cmp_def oriented_score_def
      oriented_def Let_def)

lemma js_sort_strengths:
  "js_sort pdf_strengths_cmp xs = sort_key (\<lambda>a. - oriented_score a) xs"
  "js_sort reports_strengths_cmp xs = sort_key (\<lambda>a. - oriented_score a) xs"
  by (rule js_sort_key, simp add: strengths_cmp_key)+

lemma js_sort_critical:
  "js_sort pdf_critical_cmp xs = sort_key oriented_score xs"
  "js_sort reports_critical_cmp xs = sort_key oriented_score xs"
  by (rule js_sort_key, simp add: critical_cmp_key)+

lemma strengths_sort_key:
  "pdf_strengths db c = take 5 (sort_key (\<lambda>a. - oriented_score a) (allQAvg db c))"
  "reports_strengths db c = take 5 (sort_key (\<lambda>a. - oriented_score a) (allQAvg db c))"
  by (simp_all add: pdf_strengths_def reports_strengths_def js_sort_strengths)

lemma critical_sort_key:
  "pdf_critical db c = take 5 (sort_key oriented_score (allQAvg db c))"
  "reports_critical db c = take 5 (sort_key oriented_score (allQAvg db c))"
  by (simp_all add: pdf_critical_def reports_critical_def js_sort_critical)

section \<open>Top-k selection from a sorted list\<close>

lemma take_sorted_top:
  assumes "sorted (map k ys)" and "a \<in> set (take n ys)" and "b \<in> set (drop n ys)"
  shows "k a \<le> k b"
proof -
  have "sorted (map k (take n ys) @ map k (drop n ys))"
    using assms(1) by (simp add: map_append [symmetric] del: map_append)
  then show ?thesis
    using assms(2,3) by (auto simp: sorted_append)
qed

lemma mset_take_drop_diff: "mset ys - mset (take n ys) = mset (drop n ys)"
  by (metis add_diff_cancel_left' append_take_drop_id mset_append)

lemma top_of_sort_key:
  fixes k :: "'a \<Rightarrow> 'b::linorder"
  assumes "a \<in> set (take n (sort_key k xs))" and "b \<in># mset xs - mset (take n (sort_key k xs))"
  shows "k a \<le> k b"
proof -
  have "mset xs = mset (sort_key k xs)" by simp
  then have "b \<in> set (drop n (sort_key k xs))"
    using assms(2) by (metis mset_take_drop_diff set_mset_mset)
  then show ?thesis
    using take_sorted_top [OF sorted_sort_key assms(1)] by blast
qed

lemma sorted_take_map: "sorted (map k ys) \<Longrightarrow> sorted (map k (take n ys))"
  by (simp add: take_map [symmetric] sorted_wrt_take)

lemma length_allQAvg [simp]: "length (allQAvg db c) = length (db_questions db)"
  by (simp add: allQAvg_def)

section \<open>Properties of the rankings\<close>

text \<open>
  C14. The report preview and the PDF compute the same rankings: their strengths lists
  are equal and their critical-items lists are equal, although each call site writes its
  own comparator with its own inversion of the negative sections.
\<close>

theorem ranking_parity:
  "reports_strengths db c = pdf_strengths db c \<and> reports_critical db c = pdf_critical db c"
  by (simp add: strengths_sort_key critical_sort_key)

text \<open>
  C15. The strengths are the top five questions by oriented score: as many as
  \<open>min 5\<close> of the questions, taken from them, in descending oriented score, and no
  question left out scores higher than one selected.
\<close>

theorem strengths_top5:
  "length (pdf_strengths db c) = min 5 (length (db_questions db))
   \<and> mset (pdf_strengths db c) \<subseteq># mset (allQAvg db c)
   \<and> sorted (map (\<lambda>a. - oriented_score a) (pdf_strengths db c))
   \<and> (\<forall>a\<in>set (pdf_strengths db c). \<forall>b\<in># mset (allQAvg db c) - mset (pdf_strengths db c).
        oriented_score b \<le> oriented_score a)"
proof -
  let ?S = "sort_key (\<lambda>a. - oriented_score a) (allQAvg db c)"
  have "mset (take 5 ?S) \<subseteq># mset ?S"
    by (metis append_take_drop_id mset_append mset_subset_eq_add_left)
  moreover have "\<forall>a\<in>set (take 5 ?S). \<forall>b\<in># mset (allQAvg db c) - mset (take 5 ?S).
      oriented_score b \<le> oriented_score a"
    using top_of_sort_key [where k = "\<lambda>a. - oriented_score a"] by fastforce
  ultimately show ?thesis
    by (simp add: strengths_sort_key sorted_take_map)
qed

theorem strengths_top5_witness:
  "map q_id (pdf_strengths ex_rank_db (Some ''emp1'')) = [''s1'', ''c2'', ''c1'', ''v1'', ''c3'']
   \<and> oriented_score (allQAvg ex_rank_db (Some ''emp1'') ! 4)
       \<le> oriented_score (pdf_strengths ex_rank_db (Some ''emp1'') ! 4)"
proof -
  let ?xs = "allQAvg ex_rank_db (Some ''emp1'')" and ?S = "pdf_strengths ex_rank_db (Some ''emp1'')"
  have ids: "map q_id ?S = [''s1'', ''c2'', ''c1'', ''v1'', ''c3'']"
    by (simp add: pdf_strengths_def) code_simp
  then have "length (map q_id ?S) = 5" by simp
  then have "length ?S = 5" by simp
  then have a: "?S ! 4 \<in> set ?S" by (simp add: nth_mem)
  have "?xs ! 4 \<in> set (drop 5 (js_sort pdf_strengths_cmp ?xs))" by code_simp
  then have b: "?xs ! 4 \<in># mset ?xs - mset ?S"
    by (simp add: js_sort_strengths strengths_sort_key mset_take_drop_diff [of "sort_key _ ?xs", simplified])
  show ?thesis using ids strengths_top5 [of ex_rank_db "Some ''emp1''"] a b by blast
qed

text \<open>
  C17. The critical items are the bottom five questions by oriented score: in ascending
  oriented score, and no question left out scores lower than one selected.
\<close>

theorem critical_bottom5:
  "length (pdf_critical db c) = min 5 (length (db_questions db))
   \<and> sorted (map oriented_score (pdf_critical db c))
   \<and> (\<forall>a\<in>set (pdf_critical db c). \<forall>b\<in># mset (allQAvg db c) - mset (pdf_critical db c).
        oriented_score a \<le> oriented_score b)"
proof -
  let ?S = "sort_key oriented_score (allQAvg db c)"
  have "\<forall>a\<in>set (take 5 ?S). \<forall>b\<in># mset (allQAvg db c) - mset (take 5 ?S).
      oriented_score a \<le> oriented_score b"
    using top_of_sort_key [where k = oriented_score] by blast
  then show ?thesis
    by (simp add: critical_sort_key sorted_take_map)
qed

theorem critical_bottom5_witness:
  "map q_id (pdf_critical ex_rank_db (Some ''emp1'')) = [''c3'', ''g1'', ''g2'', ''v1'', ''c1'']
   \<and> oriented_score (pdf_critical ex_rank_db (Some ''emp1'') ! 4)
       \<le> oriented_score (allQAvg ex_rank_db (Some ''emp1'') ! 1)"
proof -
  let ?xs = "allQAvg ex_rank_db (Some ''emp1'')" and ?S = "pdf_critical ex_rank_db (Some ''emp1'')"
  have ids: "map q_id ?S = [''c3'', ''g1'', ''g2'', ''v1'', ''c1'']"
    by (simp add: pdf_critical_def) code_simp
  then have "length (map q_id ?S) = 5" by simp
  then have "length ?S = 5" by simp
  then have a: "?S ! 4 \<in> set ?S" by (simp add: nth_mem)
  have "?xs ! 1 \<in> set (drop 5 (js_sort pdf_critical_cmp ?xs))" by code_simp
  then have b: "?xs ! 1 \<in># mset ?xs - mset ?S"
    by (simp add: js_sort_critical critical_sort_key mset_take_drop_diff [of "sort_key _ ?xs", simplified])
  show ?thesis using ids critical_bottom5 [of ex_rank_db "Some ''emp1''"] a b by blast
qed

end
