(* ===== verification/PdfExport.thy ===== *)
theory PdfExport
  imports CsvExport Ranking
begin

text \<open>
  The PDF exports of \<open>src/src/lib/pdfExport.ts\<close>: \<open>exportCompanyPDF\<close> and
  \<open>exportComparisonPDF\<close>. The engine's contract with the document library is the
  content it hands over, so a document is modelled as its pages, each with the header lines
  of \<open>addHeader\<close>, a body of KPI boxes, headings, text lines and tables, and the footer
  lines of \<open>addFooter\<close>. A table cell carries its text and the text colour the table's
  \<open>didParseCell\<close> hook gives it; fonts, sizes and coordinates are rendering and not
  modelled. The page counter \<open>page\<close> is threaded through the loop over the sections as in
  the code. The overall average (\<open>sections.reduce(...) / sections.length\<close>) is the
  expression of the CSV export and is shared with it (\<open>overall_average\<close>); the company
  lookup, \<open>replace(/\s+/g, "_")\<close> and \<open>split(" ")[0]\<close> likewise.
\<close>

type_synonym pdf_row = "(string \<times> rgb option) list"

datatype pdf_elem =
    Kpi string string
  | Heading string
  | TextLine string
  | Table "string list" "pdf_row list"

record pdf_page =
  pg_header :: "string list"
  pg_body :: "pdf_elem list"
  pg_footer :: "string list"

record pdf_doc =
  d_pages :: "pdf_page list"
  d_file :: string

text \<open>\<open>addHeader(doc, companyName, subtitle)\<close>: the texts it draws, in order.\<close>

definition addHeader :: "string \<Rightarrow> string \<Rightarrow> string \<Rightarrow> string list" where
  "addHeader companyName subtitle date =
     [''P'', ''PROART'', ''Protocolo de Avaliacao dos Riscos Psicossociais do Trabalho'',
      companyName @ '' - '' @ subtitle, ''Gerado em: '' @ date]"

text \<open>\<open>addFooter(doc, pageNum)\<close>\<close>

definition addFooter :: "nat \<Rightarrow> string list" where
  "addFooter pageNum = [''PROART Dashboard - Relatorio Confidencial'', ''Pagina '' @ nat_str pageNum]"

text \<open>
  \<open>getClassification(parseFloat(text))\<close>: \<open>None\<close> is \<open>NaN\<close>, for which both
  comparisons \<open>value >= 4\<close> and \<open>value >= 3\<close> are false.
\<close>

definition getClassification_parsed :: "js_num option \<Rightarrow> pdf_class" where
  "getClassification_parsed v =
     (case v of None \<Rightarrow> \<lparr>pc_label = ''Critico'', pc_color = color_danger\<rparr> | Some x \<Rightarrow> getClassification x)"

text \<open>\<open>val >= 0 ? COLORS.success : COLORS.danger\<close> with \<open>val = parseFloat(...)\<close>.\<close>

definition diff_color :: "js_num option \<Rightarrow> rgb" where
  "diff_color v = (case v of None \<Rightarrow> color_danger | Some x \<Rightarrow> if x \<ge> 0 then color_success else color_danger)"

text \<open>A table row with the colours a \<open>didParseCell\<close> hook gives its cells.\<close>

definition styled_row :: "(string list \<Rightarrow> nat \<Rightarrow> rgb option) \<Rightarrow> string list \<Rightarrow> pdf_row" where
  "styled_row hook row = map (\<lambda>j. (row ! j, hook row j)) [0..<length row]"

definition no_style :: "string list \<Rightarrow> nat \<Rightarrow> rgb option" where
  "no_style row j = None"

section \<open>Company report\<close>

text \<open>\<open>sectionRows\<close>: \<open>[s.name, avg.toFixed(2), cls.label, sign + diff.toFixed(2)]\<close>.\<close>

definition pdf_section_row :: "snapshot \<Rightarrow> cid \<Rightarrow> section_def \<Rightarrow> string list" where
  "pdf_section_row db c s =
     (let avg = getSectionAverage db (s_id s) (Some c);
          generalAvg = getSectionAverage db (s_id s) None;
          diff = avg - generalAvg;
          cls = getClassification avg
      in [s_name s, to_fixed 2 avg, pc_label cls, (if diff \<ge> 0 then ''+'' else '''') @ to_fixed 2 diff])"

text \<open>\<open>didParseCell\<close> of the summary table: column 2 coloured by the classification
  of the parsed column 1, column 3 by the sign of the parsed difference.\<close>

definition summary_cell_color :: "string list \<Rightarrow> nat \<Rightarrow> rgb option" where
  "summary_cell_color row j =
     (if j = 2 then Some (pc_color (getClassification_parsed (parseFloat_dec (row ! 1))))
      else if j = 3 then Some (diff_color (parseFloat_dec (row ! 3)))
      else None)"

text \<open>\<open>`${i + 1}. ${q.text} (${q.avg.toFixed(1)})`\<close> for the strengths and critical lists.\<close>

definition rank_lines :: "question_avg list \<Rightarrow> string list" where
  "rank_lines qs =
     map (\<lambda>(i, q). nat_str (i + 1) @ ''. '' @ q_text q @ '' ('' @ to_fixed 1 (qa_avg q) @ '')'')
         (zip [0..<length qs] qs)"

text \<open>The rows of a detail page: number, text, average, the five percentages.\<close>

definition pdf_detail_row :: "snapshot \<Rightarrow> cid \<Rightarrow> question \<Rightarrow> string list" where
  "pdf_detail_row db c q =
     (let avg = getQuestionAverage db (q_id q) (Some c);
          dist = getAnswerDistribution db (q_id q) (Some c)
      in [nat_str (q_number q), q_text q, to_fixed 2 avg] @ map (\<lambda>d. int_str (d_percentage d) @ ''%'') dist)"

definition detail_cell_color :: "string list \<Rightarrow> nat \<Rightarrow> rgb option" where
  "detail_cell_color row j =
     (if j = 2 then Some (pc_color (getClassification_parsed (parseFloat_dec (row ! 2)))) else None)"

definition summary_page :: "snapshot \<Rightarrow> string \<Rightarrow> company \<Rightarrow> pdf_page" where
  "summary_page db date company =
     (let c = c_id company;
          pool = getCompanyRespondents db c;
          overallAvg = overall_average db c;
          sectionRows = map (pdf_section_row db c) (db_sections db)
      in \<lparr>pg_header = addHeader (c_name company) ''Relatorio Individual'' date,
          pg_body =
            [Kpi ''Respostas'' (nat_str (length pool)), Kpi ''Media Geral'' (to_fixed 2 overallAvg),
             Kpi ''Setor'' (c_sector company), Kpi ''Funcionarios'' (nat_str (c_employees company)),
             Heading ''Resumo por Pilar'',
             Table [''Pilar'', ''Media'', ''Classificacao'', ''vs. Geral'']
                   (map (styled_row summary_cell_color) sectionRows),
             Heading ''Pontos Fortes'']
            @ map TextLine (rank_lines (pdf_strengths db (Some c)))
            @ [Heading ''Pontos Criticos'']
            @ map TextLine (rank_lines (pdf_critical db (Some c))),
          pg_footer = addFooter 1\<rparr>)"

definition detail_page :: "snapshot \<Rightarrow> string \<Rightarrow> company \<Rightarrow> section_def \<Rightarrow> nat \<Rightarrow> pdf_page" where
  "detail_page db date company s page =
     \<lparr>pg_header = addHeader (c_name company) (''Detalhamento - '' @ s_name s) date,
      pg_body = [Table [''N'', ''Pergunta'', ''Media'', ''Nunca'', ''Raram.'', ''As vezes'', ''Freq.'', ''Sempre'']
                       (map (styled_row detail_cell_color \<circ> pdf_detail_row db (c_id company))
                            (section_questions (db_questions db) (s_id s)))],
      pg_footer = addFooter page\<rparr>"

text \<open>\<open>sections.forEach(s => { doc.addPage(); page++; ... })\<close>: the document and the counter.\<close>

definition add_pages :: "(section_def \<Rightarrow> nat \<Rightarrow> pdf_page) \<Rightarrow> pdf_page list \<times> nat \<Rightarrow> section_def list
                          \<Rightarrow> pdf_page list \<times> nat" where
  "add_pages mk st secs =
     foldl (\<lambda>(pages, page) s. (let page' = page + 1 in (pages @ [mk s page'], page'))) st secs"

text \<open>\<open>exportCompanyPDF(companyId)\<close>: \<open>None\<close> is the early return on an unknown id.\<close>

definition exportCompanyPDF :: "snapshot \<Rightarrow> string \<Rightarrow> string \<Rightarrow> cid \<Rightarrow> pdf_doc option" where
  "exportCompanyPDF db date isoDate companyId =
     (case find (\<lambda>c. c_id c = companyId) (db_companies db) of
        None \<Rightarrow> None
      | Some company \<Rightarrow>
          Some \<lparr>d_pages = fst (add_pages (detail_page db date company) ([summary_page db date company], 1)
                                          (db_sections db)),
                d_file = ''relatorio_'' @ underscore_ws (c_name company) @ ''_'' @ isoDate @ ''.pdf''\<rparr>)"

section \<open>Comparison report\<close>

definition pdf_overview_row :: "snapshot \<Rightarrow> company \<Rightarrow> string list" where
  "pdf_overview_row db c =
     [c_name c, c_sector c, nat_str (length (getCompanyRespondents db (c_id c)))]
     @ map (\<lambda>s. to_fixed 2 (getSectionAverage db (s_id s) (Some (c_id c)))) (db_sections db)
     @ [to_fixed 2 (overall_average db (c_id c))]"

definition pdf_compare_row :: "snapshot \<Rightarrow> company list \<Rightarrow> question \<Rightarrow> string list" where
  "pdf_compare_row db sel q =
     [nat_str (q_number q), q_text q]
     @ map (\<lambda>c. to_fixed 2 (getQuestionAverage db (q_id q) (Some (c_id c)))) sel"

definition compare_page :: "snapshot \<Rightarrow> string \<Rightarrow> company list \<Rightarrow> section_def \<Rightarrow> nat \<Rightarrow> pdf_page" where
  "compare_page db date sel s page =
     \<lparr>pg_header = addHeader (''Comparativo - '' @ s_name s) ''Por Pergunta'' date,
      pg_body = [Table ([''N'', ''Pergunta''] @ map (\<lambda>c. first_word (c_name c)) sel)
                       (map (styled_row no_style \<circ> pdf_compare_row db sel)
                            (section_questions (db_questions db) (s_id s)))],
      pg_footer = addFooter page\<rparr>"

text \<open>\<open>exportComparisonPDF(companyIds)\<close>: \<open>None\<close> is the early return when fewer than
  two companies are selected.\<close>

definition exportComparisonPDF :: "snapshot \<Rightarrow> string \<Rightarrow> string \<Rightarrow> cid list \<Rightarrow> pdf_doc option" where
  "exportComparisonPDF db date isoDate companyIds =
     (let selected = selected_companies db companyIds in
      if length selected < 2 then None
      else
        (let header = [''Empresa'', ''Setor'', ''Respostas''] @ map s_shortName (db_sections db) @ [''Media''];
             page1 = \<lparr>pg_header = addHeader (js_join '' vs '' (map c_name selected)) ''Relatorio Comparativo'' date,
                      pg_body = [Table header (map (styled_row no_style \<circ> pdf_overview_row db) selected)],
                      pg_footer = addFooter 1\<rparr>
         in Some \<lparr>d_pages = fst (add_pages (compare_page db date selected) ([page1], 1) (db_sections db)),
                  d_file = ''comparativo_PROART_'' @ isoDate @ ''.pdf''\<rparr>))"


section \<open>Lemmas on the documents\<close>

lemma styled_row_nth: "j < length row \<Longrightarrow> styled_row hook row ! j = (row ! j, hook row j)"
  by (simp add: styled_row_def)

lemma add_pages_eq:
  "add_pages mk (ps, n) secs = (ps @ map2 mk secs [Suc n..<Suc n + length secs], n + length secs)"
proof (induction secs arbitrary: ps n)
  case Nil
  then show ?case by (simp add: add_pages_def)
next
  case (Cons s secs)
  have "add_pages mk (ps, n) (s # secs) = add_pages mk (ps @ [mk s (Suc n)], Suc n) secs"
    by (simp add: add_pages_def)
  also have "\<dots> = (ps @ map2 mk (s # secs) [Suc n..<Suc n + length (s # secs)], n + length (s # secs))"
    using Cons.IH by (simp add: upt_conv_Cons del: upt_Suc)
  finally show ?case .
qed

lemma map2_footer:
  "(\<And>s k. pg_footer (mk s k) = addFooter k) \<Longrightarrow>
     map pg_footer (map2 mk secs ks) = map addFooter (take (length secs) ks)"
proof (induction secs arbitrary: ks)
  case (Cons s secs)
  then show ?case by (cases ks) simp_all
qed simp

lemma footers_from_one:
  assumes "\<And>s k. pg_footer (mk s k) = addFooter k" and "pg_footer p1 = addFooter 1"
  shows "map pg_footer (fst (add_pages mk ([p1], 1) secs)) = map addFooter [1..<length secs + 2]"
proof -
  have "map pg_footer (fst (add_pages mk ([p1], 1) secs))
          = addFooter 1 # map addFooter (take (length secs) [Suc 1..<Suc 1 + length secs])"
    by (simp only: add_pages_eq fst_conv map_append list.map map2_footer [OF assms(1)] assms(2)
        append_Cons append_Nil)
  also have "\<dots> = map addFooter [1..<length secs + 2]"
    by (simp add: upt_conv_Cons del: upt_Suc)
  finally show ?thesis .
qed

lemma pdf_section_row_eq:
  "pdf_section_row db c s =
     [s_name s, to_fixed 2 (getSectionAverage db (s_id s) (Some c)),
      class_label (classify (getSectionAverage db (s_id s) (Some c))),
      (if getSectionAverage db (s_id s) (Some c) - getSectionAverage db (s_id s) None \<ge> 0 then ''+'' else '''')
      @ to_fixed 2 (getSectionAverage db (s_id s) (Some c) - getSectionAverage db (s_id s) None)]"
  by (simp add: pdf_section_row_def getClassification_classify Let_def)

lemma summary_class_cell:
  "styled_row summary_cell_color (pdf_section_row db c s) ! 2
     = (class_label (classify (getSectionAverage db (s_id s) (Some c))),
        Some (class_pdf_color (classify (getSectionAverage db (s_id s) (Some c)))))"
proof -
  have "parseFloat_dec (to_fixed 2 (getSectionAverage db (s_id s) (Some c))) = Some (getSectionAverage db (s_id s) (Some c))"
    using to_fixed2_parse engine_hundredths by blast
  then show ?thesis
    by (simp add: pdf_section_row_eq styled_row_nth summary_cell_color_def
        getClassification_parsed_def getClassification_classify)
qed

section \<open>Properties of the PDF exports\<close>

text \<open>
  C23. Cross-format parity of the company report: the PDF is produced exactly when the CSV
  is, the CSV summary row of every section is the comma-join of the first three cells of the
  PDF summary row, and the CSV detail row of every question carries the same number, text,
  average and percentages as the PDF detail row.
\<close>

theorem company_report_parity:
  "(exportCompanyPDF db d i c = None \<longleftrightarrow> exportCompanyReport db d i c = None)
   \<and> csv_summary_line db c s = js_join '','' (take 3 (pdf_section_row db c s))
   \<and> csv_question_line db c q =
       (let row = pdf_detail_row db c q in
        row ! 0 @ '','' @ ''\"'' @ row ! 1 @ ''\"'' @ '','' @ row ! 2 @ '',''
        @ js_join '','' (map butlast (drop 3 row)))"
proof (intro conjI)
  show "exportCompanyPDF db d i c = None \<longleftrightarrow> exportCompanyReport db d i c = None"
    by (simp add: exportCompanyPDF_def exportCompanyReport_def Let_def split: option.splits)
  show "csv_summary_line db c s = js_join '','' (take 3 (pdf_section_row db c s))"
    by (simp add: csv_summary_line_def pdf_section_row_def Let_def
        getClassification_classify csv_classification_classify)
  show "csv_question_line db c q = (let row = pdf_detail_row db c q in
        row ! 0 @ '','' @ ''\"'' @ row ! 1 @ ''\"'' @ '','' @ row ! 2 @ '',''
        @ js_join '','' (map butlast (drop 3 row)))"
    by (simp add: csv_question_line_def pdf_detail_row_def Let_def comp_def)
qed

text \<open>
  C24. The PDF cell colours are those of the values the engine returned, although the code
  recomputes them from the printed text with \<open>parseFloat\<close>: the classification cell of
  a summary row has the label and colour of the classification of the section average, the
  difference cell is green exactly when the company's section average is at least the
  average over all respondents, and the average cell of a detail row has the colour of the
  classification of the question average.
\<close>

theorem pdf_cell_colours:
  "styled_row summary_cell_color (pdf_section_row db c s) ! 2
     = (class_label (classify (getSectionAverage db (s_id s) (Some c))),
        Some (class_pdf_color (classify (getSectionAverage db (s_id s) (Some c)))))
   \<and> snd (styled_row summary_cell_color (pdf_section_row db c s) ! 3)
     = Some (if getSectionAverage db (s_id s) None \<le> getSectionAverage db (s_id s) (Some c)
             then color_success else color_danger)
   \<and> snd (styled_row detail_cell_color (pdf_detail_row db c q) ! 2)
     = Some (class_pdf_color (classify (getQuestionAverage db (q_id q) (Some c))))"
proof -
  let ?a = "getSectionAverage db (s_id s) (Some c)" and ?g = "getSectionAverage db (s_id s) None"
  let ?qa = "getQuestionAverage db (q_id q) (Some c)"
  have hd: "hundredths (?a - ?g)" using hundredths_diff engine_hundredths by blast
  have p3: "parseFloat_dec ((if ?a - ?g \<ge> 0 then ''+'' else '''') @ to_fixed 2 (?a - ?g)) = Some (?a - ?g)"
    using to_fixed2_plus_parse [OF _ hd] to_fixed2_parse [OF hd] by simp
  have pq: "parseFloat_dec (to_fixed 2 ?qa) = Some ?qa"
    using to_fixed2_parse engine_hundredths by blast
  have drow: "pdf_detail_row db c q ! 2 = to_fixed 2 ?qa" "2 < length (pdf_detail_row db c q)"
    by (simp_all add: pdf_detail_row_def Let_def)
  show ?thesis
    using p3 pq drow summary_class_cell [of db c s]
    by (simp add: pdf_section_row_eq styled_row_nth summary_cell_color_def detail_cell_color_def
        getClassification_parsed_def diff_color_def getClassification_classify)
qed

text \<open>
  C25. The comparison PDF is refused (no document) exactly when fewer than two companies of
  the store are selected, whatever the number of ids passed; a produced document has one
  overview page and one page per section, numbered 1, 2, ... in their footers.
\<close>

theorem comparison_pdf_guard:
  "(exportComparisonPDF db d i ids = None \<longleftrightarrow> length (selected_companies db ids) < 2)
   \<and> (exportComparisonPDF db d i ids = Some p \<longrightarrow>
        map pg_footer (d_pages p) = map addFooter [1..<length (db_sections db) + 2])"
proof (intro conjI impI)
  show "exportComparisonPDF db d i ids = None \<longleftrightarrow> length (selected_companies db ids) < 2"
    by (simp add: exportComparisonPDF_def Let_def)
  assume e: "exportComparisonPDF db d i ids = Some p"
  obtain pg where p: "d_pages p = fst (add_pages (compare_page db d (selected_companies db ids)) ([pg], 1)
                                       (db_sections db))"
    and pg: "pg_footer pg = addFooter 1"
    using e by (auto simp: exportComparisonPDF_def Let_def split: if_splits)
  have "pg_footer (compare_page db d (selected_companies db ids) s k) = addFooter k" for s k
    by (simp add: compare_page_def)
  from footers_from_one [OF this pg] show "map pg_footer (d_pages p) = map addFooter [1..<length (db_sections db) + 2]"
    by (simp only: p)
qed

theorem comparison_pdf_guard_witness:
  "exportComparisonPDF ex_db ''09/11/2026'' ''2026-11-09'' [''emp1'', ''emp9''] = None
   \<and> map pg_footer (d_pages (the (exportComparisonPDF ex_db ''09/11/2026'' ''2026-11-09'' [''emp1'', ''emp2''])))
     = map addFooter [1, 2, 3, 4, 5]"
proof -
  let ?e = "exportComparisonPDF ex_db ''09/11/2026'' ''2026-11-09''"
  have sel: "length (selected_companies ex_db [''emp1'', ''emp9'']) = 1"
    "length (selected_companies ex_db [''emp1'', ''emp2'']) = 2"
    by (simp_all add: selected_companies_def ex_db_def companies_def)
  have n: "?e [''emp1'', ''emp9''] = None" and s: "?e [''emp1'', ''emp2''] \<noteq> None"
    using comparison_pdf_guard [of ex_db _ _ "[''emp1'', ''emp9'']"]
      comparison_pdf_guard [of ex_db _ _ "[''emp1'', ''emp2'']"] sel by simp_all
  then have "?e [''emp1'', ''emp2''] = Some (the (?e [''emp1'', ''emp2'']))" by simp
  moreover have r: "[1..<length (db_sections ex_db) + 2] = [1, 2, 3, 4, 5]"
    by (simp add: ex_db_def sections_def upt_rec)
  ultimately show ?thesis
    using n comparison_pdf_guard [of ex_db _ _ "[''emp1'', ''emp2'']" "the (?e [''emp1'', ''emp2''])"]
    unfolding r by simp
qed

text \<open>
  C26. A company PDF has the summary page and one page per section, numbered consecutively
  from 1 in the footers, and every page header names the company.
\<close>

theorem company_pdf_pages:
  "exportCompanyPDF db d i c = Some p \<Longrightarrow>
     map pg_footer (d_pages p) = map addFooter [1..<length (db_sections db) + 2]
     \<and> (\<forall>pg\<in>set (d_pages p). take (length (company_name db c)) (pg_header pg ! 3) = company_name db c)"
proof -
  assume e: "exportCompanyPDF db d i c = Some p"
  then obtain co where f: "find (\<lambda>x. c_id x = c) (db_companies db) = Some co"
    and p: "d_pages p = fst (add_pages (detail_page db d co) ([summary_page db d co], 1) (db_sections db))"
    by (auto simp: exportCompanyPDF_def split: option.splits)
  have cn: "company_name db c = c_name co" using f by (simp add: company_name_def)
  have foot: "pg_footer (detail_page db d co s k) = addFooter k" for s k
    by (simp add: detail_page_def)
  have hdr: "take (length (c_name co)) (pg_header pg ! 3) = c_name co"
    if "pg \<in> set (d_pages p)" for pg
  proof -
    have "pg = summary_page db d co \<or> (\<exists>s k. pg = detail_page db d co s k)"
      using that by (auto simp: p add_pages_eq set_zip)
    then show ?thesis
      by (auto simp: summary_page_def detail_page_def addHeader_def Let_def)
  qed
  show ?thesis
    using hdr footers_from_one [of "detail_page db d co", OF foot] cn
    by (simp add: p summary_page_def Let_def)
qed

theorem company_pdf_pages_witness:
  "map pg_footer (d_pages (the (exportCompanyPDF ex_db ''09/11/2026'' ''2026-11-09'' ''emp1'')))
     = map addFooter [1, 2, 3, 4, 5]
   \<and> take (length ''TechSol Ltda'') (pg_header (last (d_pages (the (exportCompanyPDF ex_db ''09/11/2026'' ''2026-11-09'' ''emp1'')))) ! 3)
     = ''TechSol Ltda''"
proof -
  let ?e = "exportCompanyPDF ex_db ''09/11/2026'' ''2026-11-09'' ''emp1''"
  have s: "?e \<noteq> None"
    by (simp add: exportCompanyPDF_def ex_db_def companies_def split: option.splits)
  then have e: "?e = Some (the ?e)" by simp
  have cn: "company_name ex_db ''emp1'' = ''TechSol Ltda''"
    by (simp add: company_name_def ex_db_def companies_def)
  have r: "[1..<length (db_sections ex_db) + 2] = [1, 2, 3, 4, 5]"
    by (simp add: ex_db_def sections_def upt_rec)
  have ne: "d_pages (the ?e) \<noteq> []"
    using company_pdf_pages [OF e] unfolding r by auto
  show ?thesis
    using company_pdf_pages [OF e] cn last_in_set [OF ne] unfolding r by simp
qed

text \<open>
  C27. Cross-format parity of the comparison report: the CSV overview row of a company is
  its quoted name followed by the comma-join of the remaining cells of the PDF overview row,
  and every CSV comparison row of a question holds the cells of the PDF comparison row.
\<close>

theorem comparison_report_parity:
  "db_sections db \<noteq> [] \<Longrightarrow>
     csv_overview_line db c = ''\"'' @ c_name c @ ''\"'' @ '','' @ js_join '','' (tl (pdf_overview_row db c))
     \<and> csv_compare_block db sel s =
         [''COMPARATIVO POR PERGUNTA - '' @ js_upper (s_name s),
          js_join '','' ([''N'', ''Pergunta''] @ map (\<lambda>c. first_word (c_name c)) sel)]
         @ map (\<lambda>q. let row = pdf_compare_row db sel q in
                    row ! 0 @ '','' @ ''\"'' @ row ! 1 @ ''\"'' @ '','' @ js_join '','' (drop 2 row))
               (section_questions (db_questions db) (s_id s))
         @ ['''']"
proof -
  assume ne: "db_sections db \<noteq> []"
  let ?avgs = "map (\<lambda>s. to_fixed 2 (getSectionAverage db (s_id s) (Some (c_id c)))) (db_sections db)"
  have "js_join '','' ([c_sector c, nat_str (length (getCompanyRespondents db (c_id c)))] @ ?avgs
          @ [to_fixed 2 (overall_average db (c_id c))])
        = c_sector c @ '','' @ nat_str (length (getCompanyRespondents db (c_id c))) @ '','' @ js_join '','' ?avgs
          @ '','' @ to_fixed 2 (overall_average db (c_id c))"
    using ne by (simp add: js_join_append js_join_Cons)
  then show ?thesis
    by (simp add: csv_overview_line_def pdf_overview_row_def csv_compare_block_def pdf_compare_row_def
        Let_def)
qed

theorem comparison_report_parity_witness:
  "csv_overview_line ex_db (companies ! 0)
     = ''\"'' @ ''TechSol Ltda'' @ ''\"'' @ '','' @ js_join '','' (tl (pdf_overview_row ex_db (companies ! 0)))"
proof -
  have "db_sections ex_db \<noteq> []" by (simp add: ex_db_def sections_def)
  then show ?thesis using comparison_report_parity [of ex_db "companies ! 0"] by (simp add: companies_def)
qed

text \<open>
  C28. The report summaries classify the raw section average, without the orientation of
  the inverted sections: in an inverted section an average of 4 or more, the worst outcome,
  is labelled Bom in the CSV and the PDF and coloured green in the PDF, while the oriented
  policy classifies it Critico.
\<close>

theorem summary_classification_unoriented:
  "isNegative_section (s_id s) \<Longrightarrow> 4 \<le> getSectionAverage db (s_id s) (Some c) \<Longrightarrow>
     pdf_section_row db c s ! 2 = ''Bom''
     \<and> csv_classification (getSectionAverage db (s_id s) (Some c)) = ''Bom''
     \<and> styled_row summary_cell_color (pdf_section_row db c s) ! 2 = (''Bom'', Some color_success)
     \<and> classify (oriented True (getSectionAverage db (s_id s) (Some c))) = Critico"
proof -
  assume a: "4 \<le> getSectionAverage db (s_id s) (Some c)"
  have "classify (getSectionAverage db (s_id s) (Some c)) = Bom" using a by (simp add: classify_def)
  then show ?thesis
    using a summary_class_cell [of db c s]
    by (simp add: pdf_section_row_def Let_def getClassification_def csv_classification_def
        classify_def oriented_def)
qed

theorem summary_classification_unoriented_witness:
  "pdf_section_row ex_db ''emp1'' (sections ! 2) ! 2 = ''Bom''
   \<and> styled_row summary_cell_color (pdf_section_row ex_db ''emp1'' (sections ! 2)) ! 2 = (''Bom'', Some color_success)
   \<and> classify (oriented True (getSectionAverage ex_db ''vivencias'' (Some ''emp1''))) = Critico"
proof -
  have a: "getSectionAverage ex_db ''vivencias'' (Some ''emp1'') = 4" by code_simp
  have s: "s_id (sections ! 2) = ''vivencias''" by (simp add: sections_def)
  have n: "isNegative_section (s_id (sections ! 2))" by (simp add: s isNegative_section_def)
  show ?thesis
    using summary_classification_unoriented [OF n, of ex_db "''emp1''"] a s by simp
qed

end
