(* ===== verification/Dashboard.thy ===== *)
theory Dashboard
  imports CsvExport Ranking
begin

text \<open>
  The computations of the dashboard pages: the overview \<open>src/src/pages/Index.tsx\<close>
  (KPIs, company ranking, benchmark and radar data), the company comparison
  \<open>src/src/pages/CompanyComparison.tsx\<close> (selection toggles, chart data, ranking
  cards and their colours), the demographic view \<open>src/src/pages/Demographics.tsx\<close>
  (sex, age and sector groupings), the heatmap table
  \<open>src/src/components/dashboard/HeatmapTable.tsx\<close> and the per-question charts of
  \<open>src/src/pages/SurveyAnalysis.tsx\<close> and
  \<open>src/src/components/dashboard/QuestionChart.tsx\<close>. Rendering (JSX, recharts, CSS
  layout) is not modelled; what a page computes and shows as text or colour is. The data
  objects handed to the charts are association lists: assigning an existing key keeps its
  place, a new key goes last (the order of string keys in ECMAScript objects; no key used
  here is an array index).
\<close>

section \<open>Chart data objects\<close>

datatype js_val = JStr string | JNum js_num

type_synonym js_obj = "(string \<times> js_val) list"

text \<open>\<open>obj[k] = v\<close>\<close>

fun obj_set :: "string \<Rightarrow> js_val \<Rightarrow> js_obj \<Rightarrow> js_obj" where
  "obj_set k v [] = [(k, v)]"
| "obj_set k v ((k', v') # ob) = (if k = k' then (k, v) # ob else (k', v') # obj_set k v ob)"

text \<open>\<open>Object.fromEntries(entries)\<close> and the spread \<open>{...base, ...ob}\<close>.\<close>

definition fromEntries :: "(string \<times> js_val) list \<Rightarrow> js_obj" where
  "fromEntries es = foldl (\<lambda>ob (k, v). obj_set k v ob) [] es"

definition obj_spread :: "js_obj \<Rightarrow> js_obj \<Rightarrow> js_obj" where
  "obj_spread base ob = foldl (\<lambda>acc (k, v). obj_set k v acc) base ob"

text \<open>\<open>xs[i]\<close> on an array: \<open>undefined\<close> (here \<open>None\<close>) out of range.\<close>

definition js_at :: "'a list \<Rightarrow> int \<Rightarrow> 'a option" where
  "js_at xs i = (if 0 \<le> i \<and> nat i < length xs then Some (xs ! nat i) else None)"

text \<open>\<open>xs.indexOf(x)\<close>: the first position, \<open>-1\<close> when absent.\<close>

fun indexOf :: "'a list \<Rightarrow> 'a \<Rightarrow> int" where
  "indexOf [] x = -1"
| "indexOf (y # ys) x = (if x = y then 0 else (let i = indexOf ys x in if i < 0 then -1 else i + 1))"

text \<open>\<open>COLORS\<close> of \<open>Index.tsx\<close> and \<open>CompanyComparison.tsx\<close>.\<close>

definition COLORS :: "string list" where
  "COLORS = [''hsl(217, 71%, 45%)'', ''hsl(170, 60%, 45%)'', ''hsl(38, 92%, 55%)'',
             ''hsl(280, 60%, 55%)'', ''hsl(0, 72%, 55%)'']"

section \<open>Overview page (Index.tsx)\<close>

definition index_overallAvg :: "snapshot \<Rightarrow> js_num" where
  "index_overallAvg db =
     foldl (\<lambda>acc s. acc + getSectionAverage db (s_id s) None) 0 (db_sections db)
     / of_nat (length (db_sections db))"

text \<open>The four KPI cards: title and value shown.\<close>

definition index_kpis :: "snapshot \<Rightarrow> (string \<times> string) list" where
  "index_kpis db =
     [(''Empresas Ativas'', nat_str (length (db_companies db))),
      (''Total Respostas'', nat_str (length (db_respondents db))),
      (''Media Geral'', to_fixed 2 (index_overallAvg db)),
      (''Taxa de Resposta'', ''87%'')]"

text \<open>\<open>{ ...c, average: Math.round(avg * 100) / 100, respondentCount }\<close>\<close>

record ranked_company = company +
  rc_average :: js_num
  rc_respondentCount :: nat

definition ranked :: "snapshot \<Rightarrow> company \<Rightarrow> ranked_company" where
  "ranked db c =
     company.extend c (ranked_company.fields (round2 (overall_average db (c_id c)))
                                             (length (getCompanyRespondents db (c_id c))))"

definition companyRanking :: "snapshot \<Rightarrow> ranked_company list" where
  "companyRanking db = js_sort (\<lambda>a b. rc_average b - rc_average a) (map (ranked db) (db_companies db))"

text \<open>A row of the ranking table: position, name, sector, respondents, the section
  averages to one decimal and the average to two.\<close>

definition index_ranking_row :: "snapshot \<Rightarrow> nat \<Rightarrow> ranked_company \<Rightarrow> string list" where
  "index_ranking_row db i c =
     [nat_str (i + 1), c_name c, c_sector c, nat_str (rc_respondentCount c)]
     @ map (\<lambda>s. to_fixed 1 (getSectionAverage db (s_id s) (Some (c_id c)))) (db_sections db)
     @ [to_fixed 2 (rc_average c)]"

definition index_ranking_table :: "snapshot \<Rightarrow> string list list" where
  "index_ranking_table db =
     map2 (index_ranking_row db) [0..<length (companyRanking db)] (companyRanking db)"

definition benchmarkData :: "snapshot \<Rightarrow> js_obj list" where
  "benchmarkData db =
     map (\<lambda>c. foldl (\<lambda>row s. obj_set (s_shortName s) (JNum (getSectionAverage db (s_id s) (Some (c_id c)))) row)
                    [(''name'', JStr (first_word (c_name c)))] (db_sections db))
         (db_companies db)"

definition radarData :: "snapshot \<Rightarrow> js_obj list" where
  "radarData db =
     map (\<lambda>s. obj_spread [(''subject'', JStr (s_shortName s))]
                (fromEntries (map (\<lambda>c. (first_word (c_name c), JNum (getSectionAverage db (s_id s) (Some (c_id c)))))
                                  (db_companies db))))
         (db_sections db)"

section \<open>Company comparison page (CompanyComparison.tsx)\<close>

text \<open>\<open>toggle(id)\<close>: remove a selected id, append an unselected one. The same code is
  \<open>toggleCompare\<close> of \<open>Reports.tsx\<close>.\<close>

definition toggle :: "cid \<Rightarrow> cid list \<Rightarrow> cid list" where
  "toggle i prev = (if i \<in> set prev then filter (\<lambda>x. x \<noteq> i) prev else prev @ [i])"

definition comparison_data :: "snapshot \<Rightarrow> cid list \<Rightarrow> js_obj list" where
  "comparison_data db sel =
     map (\<lambda>s. foldl (\<lambda>row c. obj_set (first_word (c_name c)) (JNum (getSectionAverage db (s_id s) (Some (c_id c)))) row)
                    [(''name'', JStr (s_shortName s))] (selected_companies db sel))
         (db_sections db)"

text \<open>The colour of a company's bars and lines: \<open>COLORS[companies.indexOf(c)]\<close>.\<close>

definition chart_color :: "snapshot \<Rightarrow> company \<Rightarrow> string option" where
  "chart_color db c = js_at COLORS (indexOf (db_companies db) c)"

record overview_entry =
  ov_name :: string
  ov_media :: js_num
  ov_respostas :: nat
  ov_color :: "string option"

text \<open>\<open>selectedCompanies.map((c, i) => ...)\<close> before the sort: the colour is
  \<open>COLORS[i]\<close>, \<open>i\<close> the position among the selected companies.\<close>

definition overview_entries :: "snapshot \<Rightarrow> cid list \<Rightarrow> overview_entry list" where
  "overview_entries db sel =
     map2 (\<lambda>c i. \<lparr>ov_name = first_word (c_name c), ov_media = round2 (overall_average db (c_id c)),
                  ov_respostas = length (getCompanyRespondents db (c_id c)), ov_color = js_at COLORS (int i)\<rparr>)
          (selected_companies db sel) [0..<length (selected_companies db sel)]"

definition overviewData :: "snapshot \<Rightarrow> cid list \<Rightarrow> overview_entry list" where
  "overviewData db sel = js_sort (\<lambda>a b. ov_media b - ov_media a) (overview_entries db sel)"

text \<open>A ranking card: \<open>#{i + 1}\<close>, name, average to two decimals, respondents, and
  the colour of its number.\<close>

definition ranking_card :: "nat \<Rightarrow> overview_entry \<Rightarrow> string list \<times> string option" where
  "ranking_card i c =
     ([''#'' @ nat_str (i + 1), ov_name c, to_fixed 2 (ov_media c), nat_str (ov_respostas c) @ '' respostas''],
      ov_color c)"

definition ranking_cards :: "snapshot \<Rightarrow> cid list \<Rightarrow> (string list \<times> string option) list" where
  "ranking_cards db sel = map2 ranking_card [0..<length (overviewData db sel)] (overviewData db sel)"


section \<open>Demographic view (Demographics.tsx)\<close>

text \<open>\<open>companyFilter ? respondents.filter(r => r.companyId === companyFilter) : respondents\<close>\<close>

definition dem_pool :: "snapshot \<Rightarrow> cid \<Rightarrow> respondent list" where
  "dem_pool db f = (if f = [] then db_respondents db else filter (\<lambda>r. r_companyId r = f) (db_respondents db))"

definition sexData :: "snapshot \<Rightarrow> cid \<Rightarrow> (string \<times> nat) list" where
  "sexData db f = map (\<lambda>s. (sex_label s, length (filter (\<lambda>r. r_sex r = s) (dem_pool db f)))) sexGroups"

text \<open>\<open>{ name: s.substring(0, 8), ...Object.fromEntries(sections.map(...)) }\<close>\<close>

definition sexPerception :: "snapshot \<Rightarrow> cid \<Rightarrow> js_obj list" where
  "sexPerception db f =
     map (\<lambda>s. obj_spread [(''name'', JStr (take 8 (sex_label s)))]
                (fromEntries (map (\<lambda>sec. (s_shortName sec,
                   JNum (groupAverage (db_questions db) (filter (\<lambda>r. r_sex r = s) (dem_pool db f)) (s_id sec))))
                   (db_sections db))))
         sexGroups"

definition ageData :: "snapshot \<Rightarrow> cid \<Rightarrow> js_obj list" where
  "ageData db f =
     map (\<lambda>a. obj_spread [(''name'', JStr (ar_label a))]
                (fromEntries (map (\<lambda>sec. (s_shortName sec,
                   JNum (groupAverage (db_questions db)
                          (filter (\<lambda>r. ar_min a \<le> r_age r \<and> r_age r \<le> ar_max a) (dem_pool db f)) (s_id sec))))
                   (db_sections db))))
         ageRanges"

text \<open>\<open>[...new Set(xs)]\<close>: the distinct values in order of first occurrence.\<close>

definition js_set_values :: "'a list \<Rightarrow> 'a list" where
  "js_set_values xs = foldl (\<lambda>acc x. if x \<in> set acc then acc else acc @ [x]) [] xs"

record sector_entry =
  se_name :: string
  se_media :: js_num
  se_count :: nat

definition sectorData :: "snapshot \<Rightarrow> cid \<Rightarrow> sid \<Rightarrow> sector_entry list" where
  "sectorData db f sf =
     (let p = dem_pool db f in
      map (\<lambda>s. \<lparr>se_name = take 6 s,
                 se_media = groupAverage (db_questions db) (filter (\<lambda>r. r_sector r = s) p) sf,
                 se_count = length (filter (\<lambda>r. r_sector r = s) p)\<rparr>)
          (js_set_values (map r_sector p)))"

section \<open>Heatmap table (HeatmapTable.tsx)\<close>

text \<open>A cell: the question average to one decimal and the CSS class of \<open>getColor\<close>.\<close>

definition heatmap_cell :: "snapshot \<Rightarrow> sid \<Rightarrow> question \<Rightarrow> company \<Rightarrow> string \<times> string" where
  "heatmap_cell db sid q c =
     (let avg = getQuestionAverage db (q_id q) (Some (c_id c))
      in (to_fixed 1 avg, getColor avg (isNegative_section sid)))"

text \<open>The column heads and the rows (label \<open>{q.number}. {q.text}\<close> and one cell per company).\<close>

definition HeatmapTable :: "snapshot \<Rightarrow> sid \<Rightarrow> string list \<times> (string \<times> (string \<times> string) list) list" where
  "HeatmapTable db sid =
     (map (\<lambda>c. first_word (c_name c)) (db_companies db),
      map (\<lambda>q. (nat_str (q_number q) @ ''. '' @ q_text q, map (heatmap_cell db sid q) (db_companies db)))
          (section_questions (db_questions db) sid))"

section \<open>Per-question charts (SurveyAnalysis.tsx, QuestionChart.tsx)\<close>

record chart_point =
  cp_name :: "string option"
  cp_value :: nat
  cp_percentage :: int
  cp_score :: int

text \<open>\<open>dist.map(d => ({ name: scaleLabels[d.value], value: d.count, ... }))\<close>\<close>

definition question_chart_data :: "snapshot \<Rightarrow> qid \<Rightarrow> cid option \<Rightarrow> chart_point list" where
  "question_chart_data db q c =
     map (\<lambda>d. \<lparr>cp_name = scaleLabels (d_value d), cp_value = d_count d,
               cp_percentage = d_percentage d, cp_score = d_value d\<rparr>)
         (getAnswerDistribution db q c)"

definition question_radar_data :: "snapshot \<Rightarrow> qid \<Rightarrow> cid option \<Rightarrow> (string option \<times> int \<times> int) list" where
  "question_radar_data db q c = map (\<lambda>d. (cp_name d, cp_percentage d, 100)) (question_chart_data db q c)"

record survey_state =
  sa_activeSection :: sid
  sa_selectedCompany :: "cid option"

definition survey_init :: survey_state where
  "survey_init = \<lparr>sa_activeSection = ''contexto'', sa_selectedCompany = None\<rparr>"

text \<open>\<open>setSelectedCompany(e.target.value || undefined)\<close>\<close>

definition survey_select_company :: "string \<Rightarrow> survey_state \<Rightarrow> survey_state" where
  "survey_select_company v st = st\<lparr>sa_selectedCompany := (if v = [] then None else Some v)\<rparr>"

definition survey_charts :: "snapshot \<Rightarrow> survey_state \<Rightarrow> (string \<times> chart_point list) list" where
  "survey_charts db st =
     map (\<lambda>q. (nat_str (q_number q) @ ''. '' @ q_text q, question_chart_data db (q_id q) (sa_selectedCompany st)))
         (section_questions (db_questions db) (sa_activeSection st))"

text \<open>The figures of a company shown by both pages: first word of the name, rounded
  overall average, respondent count.\<close>

definition company_figures :: "snapshot \<Rightarrow> company \<Rightarrow> string \<times> js_num \<times> nat" where
  "company_figures db c =
     (first_word (c_name c), round2 (overall_average db (c_id c)), length (getCompanyRespondents db (c_id c)))"

section \<open>Lemmas on the page computations\<close>

lemma indexOf_eq:
  "indexOf xs x = (if x \<in> set xs then int (length (takeWhile (\<lambda>y. y \<noteq> x) xs)) else -1)"
  by (induction xs) (auto simp: Let_def)

lemma distinct_COLORS: "distinct COLORS"
  by (simp add: COLORS_def)

lemma js_at_COLORS_eq:
  "i < length COLORS \<Longrightarrow> j < length COLORS \<Longrightarrow>
     js_at COLORS (int i) = js_at COLORS (int j) \<longleftrightarrow> i = j"
  using distinct_COLORS by (simp add: js_at_def nth_eq_iff_index_eq)

lemma overview_entry_nth:
  "k < length (selected_companies db sel) \<Longrightarrow>
     overview_entries db sel ! k =
       \<lparr>ov_name = first_word (c_name (selected_companies db sel ! k)),
        ov_media = round2 (overall_average db (c_id (selected_companies db sel ! k))),
        ov_respostas = length (getCompanyRespondents db (c_id (selected_companies db sel ! k))),
        ov_color = js_at COLORS (int k)\<rparr>"
  by (simp add: overview_entries_def)

lemma selected_all: "selected_companies db (map c_id (db_companies db)) = db_companies db"
  by (simp add: selected_companies_def)

lemma companyRanking_sort_key:
  "companyRanking db = sort_key (\<lambda>r. - rc_average r) (map (ranked db) (db_companies db))"
  unfolding companyRanking_def by (rule js_sort_key) simp

lemma overviewData_sort_key:
  "overviewData db sel = sort_key (\<lambda>v. - ov_media v) (overview_entries db sel)"
  unfolding overviewData_def by (rule js_sort_key) simp

lemma overview_entries_figures:
  "map (\<lambda>v. (ov_name v, ov_media v, ov_respostas v)) (overview_entries db sel)
     = map (company_figures db) (selected_companies db sel)"
proof (rule nth_equalityI)
  show "length (map (\<lambda>v. (ov_name v, ov_media v, ov_respostas v)) (overview_entries db sel))
      = length (map (company_figures db) (selected_companies db sel))"
    by (simp add: overview_entries_def)
qed (simp add: overview_entry_nth company_figures_def overview_entries_def)

lemma ranked_figures:
  "map (\<lambda>r. (first_word (c_name r), rc_average r, rc_respondentCount r)) (map (ranked db) cs)
     = map (company_figures db) cs"
  by (simp add: ranked_def company_figures_def company.defs ranked_company.defs)

lemma js_set_values_aux:
  "set (foldl (\<lambda>acc x. if x \<in> set acc then acc else acc @ [x]) acc xs) = set acc \<union> set xs
   \<and> (distinct acc \<longrightarrow> distinct (foldl (\<lambda>acc x. if x \<in> set acc then acc else acc @ [x]) acc xs))"
  by (induction xs arbitrary: acc) auto

lemma js_set_values_set [simp]: "set (js_set_values xs) = set xs"
  using js_set_values_aux [of "[]" xs] by (simp add: js_set_values_def)

lemma js_set_values_distinct [simp]: "distinct (js_set_values xs)"
  using js_set_values_aux [of "[]" xs] by (simp add: js_set_values_def)

lemma sexGroups_all: "distinct sexGroups \<and> set sexGroups = UNIV"
  by (auto simp: sexGroups_def intro: sex.exhaust)

lemma sex_counts_total:
  "sum_list (map snd (sexData db f)) = length (dem_pool db f)"
proof -
  have "sum_list (map snd (sexData db f))
      = sum_list (map (\<lambda>s. length (filter (\<lambda>r. r_sex r = s) (dem_pool db f))) sexGroups)"
    by (simp add: sexData_def comp_def)
  also have "\<dots> = length (filter (\<lambda>r. r_sex r \<in> set sexGroups) (dem_pool db f))"
    using sexGroups_all by (simp add: sum_count_distinct)
  finally show ?thesis using sexGroups_all by simp
qed

lemma sector_counts_total:
  "sum_list (map se_count (sectorData db f sf)) = length (dem_pool db f)"
proof -
  let ?p = "dem_pool db f"
  have "sum_list (map se_count (sectorData db f sf))
      = sum_list (map (\<lambda>s. length (filter (\<lambda>r. r_sector r = s) ?p)) (js_set_values (map r_sector ?p)))"
    by (simp add: sectorData_def Let_def comp_def)
  also have "\<dots> = length (filter (\<lambda>r. r_sector r \<in> set (map r_sector ?p)) ?p)"
    by (simp add: sum_count_distinct del: set_map)
  finally show ?thesis by (simp add: filter_id_conv)
qed

lemma sector_counts_pos: "e \<in> set (sectorData db f sf) \<Longrightarrow> 0 < se_count e"
  by (auto simp: sectorData_def Let_def filter_empty_conv)

lemma heatmap_empty_company:
  assumes "getCompanyRespondents db (c_id c) = []" and "c_id c \<noteq> []"
  shows "heatmap_cell db sid q c =
           (''0.0'', if isNegative_section sid then class_css Bom else class_css Critico)"
proof -
  have "getQuestionAverage db (q_id q) (Some (c_id c)) = 0"
    using assms by (simp add: getQuestionAverage_mean exact_question_mean_def answer_values_def
        pool_def mean_def round2_0)
  then show ?thesis
    by (simp add: heatmap_cell_def getColor_classify oriented_def classify_def to_fixed_def
        to_fixed_nonneg_def Let_def nat_str.simps)
qed

section \<open>Properties of the pages\<close>

text \<open>
  C35. The ranking cards of the comparison page colour a company with
  \<open>COLORS[i]\<close>, \<open>i\<close> its position among the selected companies, while its bars and
  lines use \<open>COLORS[companies.indexOf(c)]\<close>. The two colours of a selected company
  agree exactly when every company before it in the schema is selected: deselecting a
  company recolours the cards of all companies after it, but not their charts.
\<close>

theorem overview_colour_mismatch:
  assumes "distinct (db_companies db)" and "length (db_companies db) \<le> length COLORS"
    and "k < length (selected_companies db sel)"
  shows "ov_color (overview_entries db sel ! k) = chart_color db (selected_companies db sel ! k)
         \<longleftrightarrow> (\<forall>c\<in>set (takeWhile (\<lambda>c. c \<noteq> selected_companies db sel ! k) (db_companies db)).
                c_id c \<in> set sel)"
proof -
  let ?cs = "db_companies db" and ?P = "\<lambda>c. c_id c \<in> set sel"
  let ?e = "selected_companies db sel ! k"
  let ?tw = "takeWhile (\<lambda>c. c \<noteq> ?e) ?cs"
  have ss: "selected_companies db sel = filter ?P ?cs" by (simp add: selected_companies_def)
  have e_in: "?e \<in> set ?cs" using assms(3) ss nth_mem by fastforce
  have ch: "chart_color db ?e = js_at COLORS (int (length ?tw))"
    using e_in by (simp add: chart_color_def indexOf_eq)
  have m: "length (filter ?P ?tw) = k" using filter_nth_prefix [OF assms(1)] assms(3) ss by simp
  have lt: "length ?tw < length COLORS"
    using takeWhile_length_less [OF e_in] assms(2) by linarith
  have kl: "k < length COLORS"
    using assms(2,3) length_filter_le [of ?P ?cs] unfolding ss by linarith
  have "ov_color (overview_entries db sel ! k) = chart_color db ?e \<longleftrightarrow> k = length ?tw"
    using assms(3) ch js_at_COLORS_eq [OF kl lt] by (simp add: overview_entry_nth)
  also have "\<dots> \<longleftrightarrow> (\<forall>c\<in>set ?tw. ?P c)" using m length_filter_eq_iff [of ?P ?tw] by auto
  finally show ?thesis .
qed

theorem overview_colour_mismatch_witness:
  "ov_color (overview_entries ex_db [''emp2'', ''emp3''] ! 0)
     \<noteq> chart_color ex_db (selected_companies ex_db [''emp2'', ''emp3''] ! 0)
   \<and> ov_color (overview_entries ex_db [''emp1'', ''emp3''] ! 0)
     = chart_color ex_db (selected_companies ex_db [''emp1'', ''emp3''] ! 0)"
  using overview_colour_mismatch [of ex_db 0 "[''emp2'', ''emp3'']"]
        overview_colour_mismatch [of ex_db 0 "[''emp1'', ''emp3'']"]
  by (simp add: ex_db_def companies_def selected_companies_def COLORS_def)

text \<open>
  C36. With every company selected, the ranking cards of the comparison page show the
  ranking of the overview page: the same companies in the same order with the same
  rounded averages and respondent counts. Both are the stable sort of the schema's
  companies by descending rounded overall average.
\<close>

theorem comparison_refines_ranking:
  "map (\<lambda>v. (ov_name v, ov_media v, ov_respostas v)) (overviewData db (map c_id (db_companies db)))
     = map (\<lambda>r. (first_word (c_name r), rc_average r, rc_respondentCount r)) (companyRanking db)
   \<and> map (\<lambda>r. (first_word (c_name r), rc_average r, rc_respondentCount r)) (companyRanking db)
     = sort_key (\<lambda>t. - fst (snd t)) (map (company_figures db) (db_companies db))"
proof -
  let ?g = "\<lambda>v. (ov_name v, ov_media v, ov_respostas v)"
  let ?h = "\<lambda>r. (first_word (c_name r), rc_average r, rc_respondentCount r)"
  have sh: "map ?h (sort_key (\<lambda>r. - rc_average r) ys) = sort_key (\<lambda>t. - fst (snd t)) (map ?h ys)"
    for ys :: "ranked_company list"
    using map_sort_key [of ?h "\<lambda>t. - fst (snd t)" ys] by simp
  have sg: "map ?g (sort_key (\<lambda>v. - ov_media v) ys) = sort_key (\<lambda>t. - fst (snd t)) (map ?g ys)"
    for ys :: "overview_entry list"
    using map_sort_key [of ?g "\<lambda>t. - fst (snd t)" ys] by simp
  have "map ?h (companyRanking db) = sort_key (\<lambda>t. - fst (snd t)) (map ?h (map (ranked db) (db_companies db)))"
    unfolding companyRanking_sort_key by (rule sh)
  then have r: "map ?h (companyRanking db) = sort_key (\<lambda>t. - fst (snd t)) (map (company_figures db) (db_companies db))"
    by (simp only: ranked_figures)
  have "map ?g (overviewData db (map c_id (db_companies db)))
      = sort_key (\<lambda>t. - fst (snd t)) (map ?g (overview_entries db (map c_id (db_companies db))))"
    unfolding overviewData_sort_key by (rule sg)
  then have ov: "map ?g (overviewData db (map c_id (db_companies db)))
      = sort_key (\<lambda>t. - fst (snd t)) (map (company_figures db) (db_companies db))"
    by (simp only: overview_entries_figures selected_all)
  show ?thesis using r ov by simp
qed

text \<open>
  C37. The demographic view counts every respondent of the filtered pool exactly once in
  the sex chart and exactly once in the sector chart, and shows no empty sector bar.
\<close>

theorem demographic_partition:
  "sum_list (map snd (sexData db f)) = length (dem_pool db f)
   \<and> sum_list (map se_count (sectorData db f sf)) = length (dem_pool db f)
   \<and> (\<forall>e\<in>set (sectorData db f sf). 0 < se_count e)"
  using sex_counts_total sector_counts_total sector_counts_pos by blast

theorem demographic_partition_witness:
  "sum_list (map snd (sexData ex_db ''emp1'')) = 5
   \<and> sum_list (map se_count (sectorData ex_db ''emp1'' ''contexto'')) = 5
   \<and> 0 < se_count (hd (sectorData ex_db ''emp1'' ''contexto''))"
proof -
  have p: "length (dem_pool ex_db ''emp1'') = 5"
    by (simp add: dem_pool_def ex_db_def ex_respondent_def)
  have "sectorData ex_db ''emp1'' ''contexto'' \<noteq> []"
    by (simp add: sectorData_def dem_pool_def ex_db_def ex_respondent_def js_set_values_def)
  then have "hd (sectorData ex_db ''emp1'' ''contexto'') \<in> set (sectorData ex_db ''emp1'' ''contexto'')"
    by simp
  then show ?thesis using demographic_partition [of ex_db "''emp1''" "''contexto''"] p by simp
qed

end
