(* ===== verification/ReportsPage.thy ===== *)
theory ReportsPage
  imports PdfExport Dashboard
begin

text \<open>
  The report page \<open>src/src/pages/Reports.tsx\<close> as a state machine. Its state is the
  pair of React states \<open>selectedCompany\<close> and \<open>compareIds\<close>; its events are the
  clicks and selections the rendered page offers (\<open>ui_event\<close>: the company
  \<open><select>\<close> offers the schema's ids, one toggle per company, one heatmap card per
  section); \<open>reports_step\<close> gives the next state, the file downloaded and the toast
  shown. \<open>reports_reach\<close> is the set of states reachable from the initial render.
  The preview (\<open>reports_preview\<close>) is what the page shows of the selected company:
  KPIs, the section table with its badges and the strengths and critical lists. The
  lemmas show that the non-null assertion \<open>companies.find(...)!\<close> holds in every
  reachable state, that the comparison export can always be enabled again, and that the
  preview shows what the PDF's summary page prints.
\<close>

record reports_state =
  rp_selectedCompany :: cid
  rp_compareIds :: "cid list"

text \<open>\<open>useState(companies[0].id)\<close> and \<open>useState(companies.map(c => c.id))\<close>;
  with no company, \<open>companies[0].id\<close> throws and the page does not render.\<close>

definition reports_init :: "snapshot \<Rightarrow> reports_state option" where
  "reports_init db =
     (case db_companies db of
        [] \<Rightarrow> None
      | c # _ \<Rightarrow> Some \<lparr>rp_selectedCompany = c_id c, rp_compareIds = map c_id (db_companies db)\<rparr>)"

datatype reports_event =
    SelectCompany string
  | ToggleCompare cid
  | ExportRawButton
  | ExportCompanyCard
  | ExportComparisonCard
  | ExportHeatmapCard section_def
  | ExportCompanyButton
  | ExportComparisonButton

text \<open>The events the rendered page can produce.\<close>

fun ui_event :: "snapshot \<Rightarrow> reports_event \<Rightarrow> bool" where
  "ui_event db (SelectCompany v) = (v \<in> set (map c_id (db_companies db)))"
| "ui_event db (ToggleCompare c) = (c \<in> set (map c_id (db_companies db)))"
| "ui_event db (ExportHeatmapCard s) = (s \<in> set (db_sections db))"
| "ui_event db _ = True"

record toast =
  t_title :: string
  t_description :: string

text \<open>\<open>handleExport(type, fn)\<close>: run the export, then show the toast, whether or not a
  file was produced.\<close>

definition handleExport :: "string \<Rightarrow> csv_file option \<Rightarrow> csv_file option \<times> toast option" where
  "handleExport ty file =
     (file, Some \<lparr>t_title = ''Relatorio exportado!'',
                  t_description = ''O arquivo '' @ ty @ '' foi baixado com sucesso.''\<rparr>)"

text \<open>One event: the next state, the download and the toast. The comparison button is
  \<open>disabled\<close> below two ids and then does nothing; the comparison card has no such
  guard.\<close>

fun reports_step :: "snapshot \<Rightarrow> string \<Rightarrow> string \<Rightarrow> reports_state \<Rightarrow> reports_event
                     \<Rightarrow> reports_state \<times> csv_file option \<times> toast option" where
  "reports_step db d i st (SelectCompany v) = (st\<lparr>rp_selectedCompany := v\<rparr>, None, None)"
| "reports_step db d i st (ToggleCompare c) = (st\<lparr>rp_compareIds := toggle c (rp_compareIds st)\<rparr>, None, None)"
| "reports_step db d i st ExportRawButton = (st, handleExport ''dados brutos'' (Some (exportRawData db i)))"
| "reports_step db d i st ExportCompanyCard =
     (st, handleExport ''empresa'' (exportCompanyReport db d i (rp_selectedCompany st)))"
| "reports_step db d i st ExportComparisonCard =
     (st, handleExport ''comparativo'' (Some (exportComparisonReport db d i (rp_compareIds st))))"
| "reports_step db d i st (ExportHeatmapCard s) =
     (st, handleExport (''heatmap '' @ s_shortName s) (Some (exportHeatmapData db d i (s_id s))))"
| "reports_step db d i st ExportCompanyButton =
     (st, handleExport ''empresa'' (exportCompanyReport db d i (rp_selectedCompany st)))"
| "reports_step db d i st ExportComparisonButton =
     (if length (rp_compareIds st) < 2 then (st, None, None)
      else (st, handleExport ''comparativo'' (Some (exportComparisonReport db d i (rp_compareIds st)))))"

definition reports_run :: "snapshot \<Rightarrow> string \<Rightarrow> string \<Rightarrow> reports_state \<Rightarrow> reports_event list \<Rightarrow> reports_state" where
  "reports_run db d i st evs = foldl (\<lambda>s ev. fst (reports_step db d i s ev)) st evs"

inductive reports_reach :: "snapshot \<Rightarrow> reports_state \<Rightarrow> bool" for db where
  start: "reports_init db = Some st \<Longrightarrow> reports_reach db st"
| step: "reports_reach db st \<Longrightarrow> ui_event db ev \<Longrightarrow> reports_step db d i st ev = (st', out)
           \<Longrightarrow> reports_reach db st'"

text \<open>The invariant: the selected id names a company, the comparison ids are distinct
  ids of companies.\<close>

definition rp_inv :: "snapshot \<Rightarrow> reports_state \<Rightarrow> bool" where
  "rp_inv db st \<longleftrightarrow> rp_selectedCompany st \<in> set (map c_id (db_companies db))
     \<and> distinct (rp_compareIds st) \<and> set (rp_compareIds st) \<subseteq> set (map c_id (db_companies db))"

section \<open>The preview\<close>

record preview_row =
  pr_cells :: "string list"
  pr_badge :: string
  pr_diff_tone :: string

text \<open>A row of the section table: name, average, badge, \<open>vs. Geral\<close>; the badge tone
  and the tone of the difference.\<close>

definition preview_section_row :: "snapshot \<Rightarrow> cid \<Rightarrow> section_def \<Rightarrow> preview_row" where
  "preview_section_row db c s =
     (let avg = getSectionAverage db (s_id s) (Some c);
          generalAvg = getSectionAverage db (s_id s) None;
          diff = avg - generalAvg
      in \<lparr>pr_cells = [s_name s, to_fixed 2 avg, snd (ClassBadge avg),
                      (if diff \<ge> 0 then ''+'' else '''') @ to_fixed 2 diff],
          pr_badge = fst (ClassBadge avg),
          pr_diff_tone = (if diff \<ge> 0 then ''text-success'' else ''text-destructive'')\<rparr>)"

text \<open>An item of the strengths or critical list: \<open>{i + 1}.\<close> and
  \<open>{q.text} ({q.avg.toFixed(1)})\<close>.\<close>

definition rank_item :: "nat \<times> question_avg \<Rightarrow> string \<times> string" where
  "rank_item p = (case p of (i, q) \<Rightarrow> (nat_str (i + 1) @ ''.'', q_text q @ '' ('' @ to_fixed 1 (qa_avg q) @ '')''))"

record reports_preview =
  pv_kpis :: "string list"
  pv_rows :: "preview_row list"
  pv_strengths :: "(string \<times> string) list"
  pv_critical :: "(string \<times> string) list"

text \<open>The preview of the selected company; \<open>None\<close> when \<open>companies.find(...)\<close> is
  \<open>undefined\<close> and reading \<open>company.sector\<close> throws.\<close>

definition reports_preview :: "snapshot \<Rightarrow> reports_state \<Rightarrow> reports_preview option" where
  "reports_preview db st =
     (let c = rp_selectedCompany st in
      case find (\<lambda>x. c_id x = c) (db_companies db) of
        None \<Rightarrow> None
      | Some company \<Rightarrow>
          Some \<lparr>pv_kpis = [nat_str (length (getCompanyRespondents db c)), to_fixed 2 (overall_average db c),
                          c_sector company, nat_str (c_employees company)],
                pv_rows = map (preview_section_row db c) (db_sections db),
                pv_strengths = map rank_item (zip [0..<length (reports_strengths db (Some c))] (reports_strengths db (Some c))),
                pv_critical = map rank_item (zip [0..<length (reports_critical db (Some c))] (reports_critical db (Some c)))\<rparr>)"

section \<open>Lemmas on the page\<close>

inductive_cases reports_reachE: "reports_reach db st"

lemma toggle_inv:
  "distinct xs \<Longrightarrow> set xs \<subseteq> A \<Longrightarrow> c \<in> A \<Longrightarrow> distinct (toggle c xs) \<and> set (toggle c xs) \<subseteq> A"
  by (auto simp: toggle_def)

lemma rp_inv_init: "distinct (map c_id (db_companies db)) \<Longrightarrow> reports_init db = Some st \<Longrightarrow> rp_inv db st"
  by (auto simp: reports_init_def rp_inv_def split: list.splits)

lemma rp_inv_step:
  assumes "rp_inv db st" and "ui_event db ev" and "reports_step db d i st ev = (st', out)"
  shows "rp_inv db st'"
proof (cases ev)
  case (ToggleCompare c)
  then show ?thesis using assms toggle_inv [of "rp_compareIds st" "set (map c_id (db_companies db))" c]
    by (auto simp: rp_inv_def)
next
  case ExportComparisonButton
  then show ?thesis using assms by (auto simp: rp_inv_def split: if_splits)
qed (use assms in \<open>auto simp: rp_inv_def\<close>)

lemma rp_inv_reach:
  assumes "distinct (map c_id (db_companies db))"
  shows "reports_reach db st \<Longrightarrow> rp_inv db st"
  by (induction rule: reports_reach.induct) (auto intro: rp_inv_init [OF assms] rp_inv_step)

lemma find_company: "c \<in> set (map c_id cs) \<Longrightarrow> \<exists>x. find (\<lambda>x. c_id x = c) cs = Some x \<and> c_id x = c"
  by (induction cs) auto

lemma run_toggles:
  "reports_run db d i st (map ToggleCompare ys)
     = st\<lparr>rp_compareIds := foldl (\<lambda>l c. toggle c l) (rp_compareIds st) ys\<rparr>"
  unfolding reports_run_def by (induction ys arbitrary: st) simp_all

lemma reach_toggles:
  "reports_reach db st \<Longrightarrow> set ys \<subseteq> set (map c_id (db_companies db)) \<Longrightarrow>
     reports_reach db (reports_run db d i st (map ToggleCompare ys))"
proof (induction ys arbitrary: st)
  case (Cons y ys)
  have "reports_reach db (fst (reports_step db d i st (ToggleCompare y)))"
    by (rule reports_reach.step [OF Cons.prems(1) _ prod.collapse [symmetric]]) (use Cons.prems(2) in simp)
  then show ?case using Cons by (simp add: reports_run_def)
qed (simp add: reports_run_def)

lemma toggles_append:
  "distinct ys \<Longrightarrow> set ys \<inter> set xs = {} \<Longrightarrow> foldl (\<lambda>l c. toggle c l) xs ys = xs @ ys"
  by (induction ys arbitrary: xs) (auto simp: toggle_def)

lemma two_le_length: "distinct xs \<Longrightarrow> a \<in> set xs \<Longrightarrow> b \<in> set xs \<Longrightarrow> a \<noteq> b \<Longrightarrow> 2 \<le> length xs"
proof -
  assume d: "distinct xs" and ab: "a \<in> set xs" "b \<in> set xs" "a \<noteq> b"
  have "card {a, b} \<le> card (set xs)" using ab by (intro card_mono) auto
  then show ?thesis using d ab(3) by (simp add: distinct_card)
qed

lemma preview_row_cells: "pr_cells (preview_section_row db c s) = pdf_section_row db c s"
  by (simp add: preview_section_row_def pdf_section_row_def Let_def ClassBadge_classify
      getClassification_classify)

lemma rank_items_lines:
  "map (\<lambda>(n, t). n @ '' '' @ t) (map rank_item (zip [0..<length qs] qs)) = rank_lines qs"
  by (simp add: rank_lines_def rank_item_def split_def)

lemma summary_first_page:
  "exportCompanyPDF db d i c = Some p \<Longrightarrow> find (\<lambda>x. c_id x = c) (db_companies db) = Some company \<Longrightarrow>
     hd (d_pages p) = summary_page db d company"
  by (auto simp: exportCompanyPDF_def add_pages_eq)

text \<open>The comparison card has no guard: from the initial render, deselecting four
  companies leaves one id, the button is disabled, and the card still downloads a
  comparison file with a single company.\<close>

lemma comparison_card_unguarded:
  "let st = reports_run ex_db d i (the (reports_init ex_db))
              (map ToggleCompare [''emp2'', ''emp3'', ''emp4'', ''emp5''])
   in rp_compareIds st = [''emp1'']
      \<and> fst (snd (reports_step ex_db d i st ExportComparisonButton)) = None
      \<and> fst (snd (reports_step ex_db d i st ExportComparisonCard))
          = Some (exportComparisonReport ex_db d i [''emp1''])"
  unfolding run_toggles by (simp add: reports_init_def ex_db_def companies_def toggle_def handleExport_def)

section \<open>Properties of the page\<close>

text \<open>
  C38. In every state the page can reach, the selected id names a company and the
  comparison ids are distinct ids of companies. So the non-null assertion
  \<open>companies.find(c => c.id === selectedCompany)!\<close> always holds, the preview
  renders, and the company export always downloads a file.
\<close>

theorem reports_reachable_safe:
  assumes "distinct (map c_id (db_companies db))" and "reports_reach db st"
  shows "rp_inv db st \<and> reports_preview db st \<noteq> None
         \<and> fst (snd (reports_step db d i st ExportCompanyButton)) \<noteq> None"
proof -
  have inv: "rp_inv db st" using rp_inv_reach [OF assms(1)] assms(2) .
  then obtain x where "find (\<lambda>x. c_id x = rp_selectedCompany st) (db_companies db) = Some x"
    using find_company by (fastforce simp: rp_inv_def)
  then show ?thesis
    using inv by (simp add: reports_preview_def exportCompanyReport_def handleExport_def Let_def)
qed

theorem reports_reachable_safe_witness:
  "rp_inv ex_db \<lparr>rp_selectedCompany = ''emp1'', rp_compareIds = [''emp1'', ''emp2'', ''emp3'', ''emp4'', ''emp5'']\<rparr>
   \<and> reports_preview ex_db \<lparr>rp_selectedCompany = ''emp1'', rp_compareIds = [''emp1'', ''emp2'', ''emp3'', ''emp4'', ''emp5'']\<rparr> \<noteq> None"
proof -
  have "reports_reach ex_db \<lparr>rp_selectedCompany = ''emp1'', rp_compareIds = [''emp1'', ''emp2'', ''emp3'', ''emp4'', ''emp5'']\<rparr>"
    by (rule reports_reach.start) (simp add: reports_init_def ex_db_def companies_def)
  then show ?thesis
    using reports_reachable_safe [of ex_db] by (simp add: ex_db_def companies_def)
qed

text \<open>
  C39. The comparison export can always be enabled again: from every reachable state,
  at most two toggles of company pills lead to a state in which the comparison button
  is enabled and downloads the comparison file.
\<close>

theorem comparison_export_live:
  assumes "distinct (map c_id (db_companies db))" and "2 \<le> length (db_companies db)"
    and "reports_reach db st"
  shows "\<exists>evs. length evs \<le> 2 \<and> list_all (ui_event db) evs
           \<and> 2 \<le> length (rp_compareIds (reports_run db d i st evs))
           \<and> fst (snd (reports_step db d i (reports_run db d i st evs) ExportComparisonButton)) \<noteq> None"
proof -
  let ?ids = "map c_id (db_companies db)" and ?cmp = "rp_compareIds st"
  let ?a = "?ids ! 0" and ?b = "?ids ! 1"
  let ?ys = "filter (\<lambda>c. c \<notin> set ?cmp) [?a, ?b]"
  have inv: "rp_inv db st" using rp_inv_reach [OF assms(1)] assms(3) .
  have l1: "1 < length ?ids" using assms(2) by simp
  have l0: "0 < length ?ids" using l1 by linarith
  have ab: "?a \<noteq> ?b" "?a \<in> set ?ids" "?b \<in> set ?ids"
    using nth_eq_iff_index_eq [OF assms(1) l0 l1] nth_mem [OF l0] nth_mem [OF l1] by simp_all
  have ys: "distinct ?ys" "set ?ys \<inter> set ?cmp = {}" using ab(1) by auto
  have cmp': "rp_compareIds (reports_run db d i st (map ToggleCompare ?ys)) = ?cmp @ ?ys"
    using toggles_append [OF ys] by (simp add: run_toggles)
  have dist: "distinct (?cmp @ ?ys)" using inv ys by (simp add: rp_inv_def)
  have two: "2 \<le> length (?cmp @ ?ys)"
    by (rule two_le_length [OF dist _ _ ab(1)]) auto
  have len: "length (map ToggleCompare ?ys) \<le> 2" by simp
  have ui: "list_all (ui_event db) (map ToggleCompare ?ys)" using ab(2,3) by auto
  have en: "fst (snd (reports_step db d i (reports_run db d i st (map ToggleCompare ?ys)) ExportComparisonButton)) \<noteq> None"
    using two cmp' by (simp add: handleExport_def)
  show ?thesis using len ui two cmp' en by (intro exI [of _ "map ToggleCompare ?ys"]) simp
qed

theorem comparison_export_live_witness:
  "\<exists>evs. length evs \<le> 2 \<and> list_all (ui_event ex_db) evs
     \<and> 2 \<le> length (rp_compareIds (reports_run ex_db ''09/11/2026'' ''2026-11-09''
                    \<lparr>rp_selectedCompany = ''emp1'', rp_compareIds = []\<rparr> evs))"
proof -
  let ?st0 = "\<lparr>rp_selectedCompany = ''emp1'', rp_compareIds = [''emp1'', ''emp2'', ''emp3'', ''emp4'', ''emp5'']\<rparr>"
  let ?ys = "[''emp1'', ''emp2'', ''emp3'', ''emp4'', ''emp5'']"
  have i: "reports_reach ex_db ?st0"
    by (rule reports_reach.start) (simp add: reports_init_def ex_db_def companies_def)
  have "reports_reach ex_db (reports_run ex_db ''09/11/2026'' ''2026-11-09'' ?st0 (map ToggleCompare ?ys))"
    by (rule reach_toggles [OF i]) (simp add: ex_db_def companies_def)
  moreover have "reports_run ex_db ''09/11/2026'' ''2026-11-09'' ?st0 (map ToggleCompare ?ys)
      = \<lparr>rp_selectedCompany = ''emp1'', rp_compareIds = []\<rparr>"
    unfolding run_toggles by (simp add: toggle_def)
  ultimately have r: "reports_reach ex_db \<lparr>rp_selectedCompany = ''emp1'', rp_compareIds = []\<rparr>" by simp
  have d: "distinct (map c_id (db_companies ex_db))" and l: "2 \<le> length (db_companies ex_db)"
    by (simp_all add: ex_db_def companies_def)
  show ?thesis
    using comparison_export_live [OF d l r, of "''09/11/2026''" "''2026-11-09''"] by blast
qed

text \<open>
  C40. Refinement of the report preview by the PDF: whenever the preview renders, the
  company PDF exists, and its summary page prints the preview's KPIs, the text of the
  preview's section table, and the preview's strengths and critical lists.
\<close>

theorem preview_refines_pdf:
  assumes "reports_preview db st = Some pv"
  shows "\<exists>p. exportCompanyPDF db d i (rp_selectedCompany st) = Some p
           \<and> take 4 (pg_body (hd (d_pages p)))
               = map2 Kpi [''Respostas'', ''Media Geral'', ''Setor'', ''Funcionarios''] (pv_kpis pv)
           \<and> pg_body (hd (d_pages p)) ! 5
               = Table [''Pilar'', ''Media'', ''Classificacao'', ''vs. Geral'']
                       (map (styled_row summary_cell_color) (map pr_cells (pv_rows pv)))
           \<and> filter (\<lambda>e. \<exists>t. e = TextLine t) (pg_body (hd (d_pages p)))
               = map (TextLine \<circ> (\<lambda>(n, t). n @ '' '' @ t)) (pv_strengths pv @ pv_critical pv)"
proof -
  let ?c = "rp_selectedCompany st"
  obtain company where f: "find (\<lambda>x. c_id x = ?c) (db_companies db) = Some company"
    using assms by (auto simp: reports_preview_def Let_def split: option.splits)
  have cid: "c_id company = ?c" using f by (auto dest: find_Some_iff [THEN iffD1])
  obtain p where p: "exportCompanyPDF db d i ?c = Some p" using f by (simp add: exportCompanyPDF_def)
  have hd: "hd (d_pages p) = summary_page db d company" using summary_first_page [OF p f] .
  have pv: "pv = \<lparr>pv_kpis = [nat_str (length (getCompanyRespondents db ?c)), to_fixed 2 (overall_average db ?c),
                          c_sector company, nat_str (c_employees company)],
                pv_rows = map (preview_section_row db ?c) (db_sections db),
                pv_strengths = map rank_item (zip [0..<length (reports_strengths db (Some ?c))] (reports_strengths db (Some ?c))),
                pv_critical = map rank_item (zip [0..<length (reports_critical db (Some ?c))] (reports_critical db (Some ?c)))\<rparr>"
    using assms f by (simp add: reports_preview_def Let_def)
  have st: "reports_strengths db (Some ?c) = pdf_strengths db (Some ?c)"
       "reports_critical db (Some ?c) = pdf_critical db (Some ?c)"
    by (simp_all add: strengths_sort_key critical_sort_key)
  have lines: "map (TextLine \<circ> (\<lambda>(n, t). n @ '' '' @ t)) (pv_strengths pv @ pv_critical pv)
      = map TextLine (rank_lines (pdf_strengths db (Some ?c)) @ rank_lines (pdf_critical db (Some ?c)))"
    using rank_items_lines [of "pdf_strengths db (Some ?c)"] rank_items_lines [of "pdf_critical db (Some ?c)"]
    by (simp add: pv st map_map [symmetric] del: map_map)
  have k: "take 4 (pg_body (hd (d_pages p)))
      = map2 Kpi [''Respostas'', ''Media Geral'', ''Setor'', ''Funcionarios''] (pv_kpis pv)"
    by (simp add: hd summary_page_def Let_def cid pv)
  have t: "pg_body (hd (d_pages p)) ! 5
      = Table [''Pilar'', ''Media'', ''Classificacao'', ''vs. Geral'']
              (map (styled_row summary_cell_color) (map pr_cells (pv_rows pv)))"
    by (simp add: hd summary_page_def Let_def cid pv preview_row_cells)
  have "filter (\<lambda>e. \<exists>t. e = TextLine t) (pg_body (hd (d_pages p)))
      = map TextLine (rank_lines (pdf_strengths db (Some ?c)) @ rank_lines (pdf_critical db (Some ?c)))"
    by (simp add: hd summary_page_def Let_def cid filter_map comp_def)
  then show ?thesis using p k t lines by simp
qed


theorem preview_refines_pdf_witness:
  "take 4 (pg_body (hd (d_pages (the (exportCompanyPDF ex_db ''09/11/2026'' ''2026-11-09'' ''emp1'')))))
     = map2 Kpi [''Respostas'', ''Media Geral'', ''Setor'', ''Funcionarios'']
            (pv_kpis (the (reports_preview ex_db \<lparr>rp_selectedCompany = ''emp1'', rp_compareIds = []\<rparr>)))"
proof -
  let ?st = "\<lparr>rp_selectedCompany = ''emp1'', rp_compareIds = []\<rparr>"
  have "reports_preview ex_db ?st \<noteq> None"
    by (simp add: reports_preview_def Let_def ex_db_def companies_def)
  then have s: "reports_preview ex_db ?st = Some (the (reports_preview ex_db ?st))" by simp
  show ?thesis
    using preview_refines_pdf [OF s, of "''09/11/2026''" "''2026-11-09''"] by auto
qed

end
