(* ===== verification/Sync.thy ===== *)
theory Sync
  imports Format
begin

text \<open>
  The edge function \<open>src/supabase/functions/sync-google-sheets/index.ts\<close>. It serves one
  HTTP request: it looks up a row of \<open>google_forms_config\<close>, records a run in
  \<open>sync_logs\<close>, fetches the sheet from the Google Sheets API and marks the run as a
  success or an error. The two tables it writes are the state (\<open>sync_db\<close>); the
  environment secret, the clock and the answer of the Google API are inputs of the handler,
  since the function only reads them. The database calls are modelled as succeeding, as the
  code assumes (it ignores the result of every write). The handler is one atomic step
  \<open>sync_handler\<close>; \<open>sync_step\<close> and \<open>reachable_db\<close> are the runs made of such steps.
  Portuguese messages are transliterated to ASCII.
\<close>

section \<open>Tables, requests and responses\<close>

record sync_config =
  cfg_id :: string
  cfg_spreadsheet_id :: string
  cfg_sheet_name :: string
  cfg_last_sync_at :: "string option"

datatype log_status = Running | Success | Error

record sync_log =
  log_id :: nat
  log_config_id :: string
  log_status :: log_status
  log_rows_synced :: "nat option"
  log_error_message :: "string option"
  log_finished_at :: "string option"

text \<open>The two tables; \<open>next_log_id\<close> is the key the database gives the next inserted log.\<close>

record sync_db =
  configs :: "sync_config list"
  sync_logs :: "sync_log list"
  next_log_id :: nat

text \<open>The request: \<open>OPTIONS\<close> (CORS preflight) or a body read by \<open>req.json()\<close>,
  which may fail (\<open>BadJson\<close> with the parser's message) or lack \<open>configId\<close>.\<close>

datatype request_body = BadJson string | NoConfigId | ConfigId string

datatype request = Options | Post request_body

text \<open>What \<open>fetch(sheetUrl)\<close> and \<open>sheetRes.json()\<close> give: the sheet's \<open>values\<close>
  (absent for an empty sheet), a non-OK HTTP status with its body, or a thrown error.\<close>

datatype sheet_result = SheetOk "string list list option" | SheetHttpError nat string | FetchFailure string

record sync_env =
  env_api_key :: "string option"
  env_now :: string

datatype response_body = NoBody | ErrorBody string | SuccessBody nat string

record response =
  resp_status :: nat
  resp_headers :: "(string \<times> string) list"
  resp_body :: response_body

definition corsHeaders :: "(string \<times> string) list" where
  "corsHeaders = [(''Access-Control-Allow-Origin'', ''*''),
                  (''Access-Control-Allow-Headers'', ''authorization, x-client-info, apikey, content-type'')]"

definition json_response :: "nat \<Rightarrow> response_body \<Rightarrow> response" where
  "json_response st b =
     \<lparr>resp_status = st, resp_headers = corsHeaders @ [(''Content-Type'', ''application/json'')], resp_body = b\<rparr>"

section \<open>Database operations\<close>

text \<open>\<open>.from("google_forms_config").select("*").eq("id", configId).single()\<close>: the row
  when exactly one matches, an error otherwise. A missing \<open>configId\<close> matches no row.\<close>

definition select_config :: "sync_db \<Rightarrow> string option \<Rightarrow> sync_config option" where
  "select_config db cid =
     (case filter (\<lambda>c. Some (cfg_id c) = cid) (configs db) of [c] \<Rightarrow> Some c | _ \<Rightarrow> None)"

text \<open>\<open>.from("sync_logs").insert(row).select().single()\<close>: the new row gets the next key.\<close>

definition insert_log :: "sync_db \<Rightarrow> (nat \<Rightarrow> sync_log) \<Rightarrow> sync_log \<times> sync_db" where
  "insert_log db mk =
     (let l = mk (next_log_id db) in
      (l, db\<lparr>sync_logs := sync_logs db @ [l], next_log_id := Suc (next_log_id db)\<rparr>))"

text \<open>\<open>.from("sync_logs").update(f).eq("id", id)\<close>\<close>

definition update_log :: "nat \<Rightarrow> (sync_log \<Rightarrow> sync_log) \<Rightarrow> sync_db \<Rightarrow> sync_db" where
  "update_log i f db = db\<lparr>sync_logs := map (\<lambda>l. if log_id l = i then f l else l) (sync_logs db)\<rparr>"

text \<open>\<open>.from("google_forms_config").update({ last_sync_at }).eq("id", configId)\<close>\<close>

definition touch_config :: "string \<Rightarrow> string \<Rightarrow> sync_db \<Rightarrow> sync_db" where
  "touch_config cid now db =
     db\<lparr>configs := map (\<lambda>c. if cfg_id c = cid then c\<lparr>cfg_last_sync_at := Some now\<rparr> else c) (configs db)\<rparr>"

section \<open>The handler\<close>

definition missing_key_log_message :: string where
  "missing_key_log_message =
     ''GOOGLE_SHEETS_API_KEY nao configurada. Adicione o secret nas configuracoes do backend.''"

definition missing_key_message :: string where
  "missing_key_message = ''API Key do Google nao configurada. Adicione o secret GOOGLE_SHEETS_API_KEY.''"

text \<open>\<open>Math.max(0, rows.length - 1)\<close>: the rows below the header.\<close>

definition rows_synced :: "string list list option \<Rightarrow> nat" where
  "rows_synced vals = (let rows = (case vals of None \<Rightarrow> [] | Some rs \<Rightarrow> rs) in
                       nat (max 0 (int (length rows) - 1)))"

text \<open>
  \<open>encodeURIComponent\<close> (ECMAScript library) on a UTF-8 byte string: the unreserved
  characters stay, every other byte becomes \<open>%XX\<close> in upper-case hexadecimal.
\<close>

definition uri_unreserved :: "char \<Rightarrow> bool" where
  "uri_unreserved c \<longleftrightarrow>
     is_digit c \<or> ((65::nat) \<le> of_char c \<and> of_char c \<le> (90::nat))
     \<or> ((97::nat) \<le> of_char c \<and> of_char c \<le> (122::nat)) \<or> c \<in> set ''-_.!~*()'' \<or> c = CHR 0x27"

definition hex_char :: "nat \<Rightarrow> char" where
  "hex_char d = (if d < 10 then digit_char d else char_of (55 + d))"

fun encodeURIComponent :: "string \<Rightarrow> string" where
  "encodeURIComponent [] = []"
| "encodeURIComponent (c # cs) =
     (if uri_unreserved c then [c]
      else [CHR ''%'', hex_char (of_char c div 16), hex_char (of_char c mod 16)])
     @ encodeURIComponent cs"

text \<open>\<open>https://sheets.googleapis.com/v4/spreadsheets/${id}/values/${encodeURIComponent(name)}?key=${key}\<close>\<close>

definition sheet_url :: "sync_config \<Rightarrow> string \<Rightarrow> string" where
  "sheet_url config key =
     ''https://sheets.googleapis.com/v4/spreadsheets/'' @ cfg_spreadsheet_id config @ ''/values/''
     @ encodeURIComponent (cfg_sheet_name config) @ ''?key='' @ key"

text \<open>The inner \<open>try\<close>: fetch the sheet and close the running log \<open>i\<close>. A thrown
  error closes the log with its message and is re-thrown (\<open>Inl\<close>), to be turned into
  a 500 response by the outer \<open>catch\<close>. \<open>fetch\<close> is the network: the answer to a URL.\<close>

definition sync_fetch :: "sync_env \<Rightarrow> (string \<Rightarrow> sheet_result) \<Rightarrow> sync_config \<Rightarrow> string \<Rightarrow> nat
                          \<Rightarrow> sync_db \<Rightarrow> (string + nat) \<times> sync_db" where
  "sync_fetch env fetch config key i db =
     (let fail = (\<lambda>msg. (Inl msg, update_log i (\<lambda>l. l\<lparr>log_status := Error, log_error_message := Some msg,
                                                         log_finished_at := Some (env_now env)\<rparr>) db))
      in case fetch (sheet_url config key) of
           SheetHttpError st body \<Rightarrow> fail (''Google Sheets API error: '' @ nat_str st @ '' - '' @ body)
         | FetchFailure msg \<Rightarrow> fail msg
         | SheetOk vals \<Rightarrow>
             (let n = rows_synced vals;
                  db1 = update_log i (\<lambda>l. l\<lparr>log_status := Success, log_rows_synced := Some n,
                                             log_finished_at := Some (env_now env)\<rparr>) db
              in (Inr n, touch_config (cfg_id config) (env_now env) db1)))"

text \<open>\<open>const { configId } = await req.json()\<close>: \<open>undefined\<close> is \<open>None\<close>.\<close>

definition body_configId :: "request_body \<Rightarrow> string option" where
  "body_configId b = (case b of ConfigId c \<Rightarrow> Some c | _ \<Rightarrow> None)"

text \<open>\<open>if (!googleApiKey)\<close>: the secret read by \<open>Deno.env.get\<close> counts only when it is
  set and non-empty, since \<open>undefined\<close> and \<open>""\<close> are both falsy.\<close>

definition present_key :: "string option \<Rightarrow> string option" where
  "present_key k = (case k of Some s \<Rightarrow> if s = [] then None else Some s | None \<Rightarrow> None)"

text \<open>\<open>Deno.serve(async (req) => ...)\<close>\<close>

definition sync_handler :: "sync_env \<Rightarrow> (string \<Rightarrow> sheet_result) \<Rightarrow> request \<Rightarrow> sync_db
                            \<Rightarrow> response \<times> sync_db" where
  "sync_handler env fetch req db =
     (case req of
        Options \<Rightarrow> (\<lparr>resp_status = 200, resp_headers = corsHeaders, resp_body = NoBody\<rparr>, db)
      | Post (BadJson msg) \<Rightarrow> (json_response 500 (ErrorBody msg), db)
      | Post body \<Rightarrow>
          (case select_config db (body_configId body) of
             None \<Rightarrow> (json_response 404 (ErrorBody ''Configuracao nao encontrada''), db)
           | Some config \<Rightarrow>
               (case present_key (env_api_key env) of
                  None \<Rightarrow>
                    (json_response 400 (ErrorBody missing_key_message),
                     snd (insert_log db (\<lambda>i. \<lparr>log_id = i, log_config_id = cfg_id config, log_status = Error,
                                               log_rows_synced = None,
                                               log_error_message = Some missing_key_log_message,
                                               log_finished_at = Some (env_now env)\<rparr>)))
                | Some key \<Rightarrow>
                    (let (l, db1) = insert_log db (\<lambda>i. \<lparr>log_id = i, log_config_id = cfg_id config,
                                                        log_status = Running, log_rows_synced = None,
                                                        log_error_message = None, log_finished_at = None\<rparr>)
                     in case sync_fetch env fetch config key (log_id l) db1 of
                          (Inl msg, db2) \<Rightarrow> (json_response 500 (ErrorBody msg), db2)
                        | (Inr n, db2) \<Rightarrow>
                            (json_response 200
                               (SuccessBody n (nat_str n @ '' respostas sincronizadas com sucesso.'')), db2)))))"

section \<open>Runs\<close>

inductive sync_step :: "sync_db \<Rightarrow> sync_db \<Rightarrow> bool" where
  handle: "sync_handler env fetch req db = (resp, db') \<Longrightarrow> sync_step db db'"

text \<open>A database as deployed: configuration rows with distinct ids and no log yet.\<close>

definition initial_db :: "sync_config list \<Rightarrow> sync_db" where
  "initial_db cs = \<lparr>configs = cs, sync_logs = [], next_log_id = 0\<rparr>"

inductive reachable_db :: "sync_config list \<Rightarrow> sync_db \<Rightarrow> bool" for cs where
  start: "reachable_db cs (initial_db cs)"
| step: "reachable_db cs db \<Longrightarrow> sync_step db db' \<Longrightarrow> reachable_db cs db'"

inductive_cases sync_stepE: "sync_step db db'"

text \<open>
  The invariant of the tables between requests: log keys are distinct and below the next
  key, no run is left \<open>Running\<close>, a successful run records its row count and end time, a
  failed one its message and end time, and every log names a configuration row.
\<close>

definition log_closed :: "sync_log \<Rightarrow> bool" where
  "log_closed l \<longleftrightarrow>
     (case log_status l of
        Running \<Rightarrow> False
      | Success \<Rightarrow> log_rows_synced l \<noteq> None \<and> log_finished_at l \<noteq> None
      | Error \<Rightarrow> log_error_message l \<noteq> None \<and> log_finished_at l \<noteq> None)"

definition sync_inv :: "sync_db \<Rightarrow> bool" where
  "sync_inv db \<longleftrightarrow>
     distinct (map log_id (sync_logs db))
     \<and> (\<forall>l\<in>set (sync_logs db). log_id l < next_log_id db \<and> log_closed l
                               \<and> log_config_id l \<in> cfg_id ` set (configs db))"

text \<open>
  The decoding the Google server applies to the path segment (\<open>decodeURIComponent\<close>),
  the inverse the URL construction relies on.
\<close>

definition hex_val :: "char \<Rightarrow> nat" where
  "hex_val c = (if is_digit c then digit_val c else of_char c - 55)"

function decodeURIComponent :: "string \<Rightarrow> string" where
  "decodeURIComponent [] = []"
| "decodeURIComponent (c # cs) =
     (if c = CHR ''%'' \<and> 2 \<le> length cs
      then char_of (hex_val (cs ! 0) * 16 + hex_val (cs ! 1)) # decodeURIComponent (drop 2 cs)
      else c # decodeURIComponent cs)"
  by pat_completeness auto
termination by (relation "measure length") auto



text \<open>A deployment with one configuration and the secret set, and a sheet with a header
  and two answers.\<close>

definition ex_sync_config :: sync_config where
  "ex_sync_config = \<lparr>cfg_id = ''f1'', cfg_spreadsheet_id = ''1AbC'', cfg_sheet_name = ''Respostas 2024/Q&A'',
                     cfg_last_sync_at = None\<rparr>"

definition ex_sync_env :: sync_env where
  "ex_sync_env = \<lparr>env_api_key = Some ''k'', env_now = ''2026-11-09T10:00:00Z''\<rparr>"

definition ex_fetch :: "string \<Rightarrow> sheet_result" where
  "ex_fetch url = SheetOk (Some [[''Nome'', ''Q1''], [''Ana'', ''4''], [''Rui'', ''2'']])"

section \<open>Lemmas on the handler\<close>

lemma hex_val_char: "d < 16 \<Longrightarrow> hex_val (hex_char d) = d"
proof (cases "d < 10")
  case True
  then show ?thesis by (simp add: hex_val_def hex_char_def digit_char_is_digit)
next
  case False
  assume "d < 16"
  then have "of_char (char_of (55 + d) :: char) = (55 + d :: nat)" by (simp add: of_char_of)
  then show ?thesis using False by (simp add: hex_val_def hex_char_def is_digit_def)
qed

lemma unreserved_not_pct: "uri_unreserved c \<Longrightarrow> c \<noteq> CHR ''%''"
  by (auto simp: uri_unreserved_def is_digit_def)

lemma of_char_div16: "of_char c div 16 < (16::nat)"
  using nat_of_char_less_256 [of c] by (simp add: div_less_iff_less_mult)

lemma char_of_div_mod: "char_of (of_char c div 16 * 16 + of_char c mod 16 :: nat) = c"
  by simp

lemma hex_char_unreserved: "d < 16 \<Longrightarrow> uri_unreserved (hex_char d)"
proof (cases "d < 10")
  case True
  then show ?thesis by (simp add: hex_char_def uri_unreserved_def digit_char_is_digit)
next
  case False
  assume "d < 16"
  then have "of_char (char_of (55 + d) :: char) = (55 + d :: nat)" by (simp add: of_char_of)
  then show ?thesis using False \<open>d < 16\<close> by (simp add: hex_char_def uri_unreserved_def)
qed

lemma encode_chars: "c \<in> set (encodeURIComponent s) \<Longrightarrow> uri_unreserved c \<or> c = CHR ''%''"
proof (induction s)
  case (Cons x xs)
  have "of_char x div 16 < (16::nat)" "of_char x mod 16 < (16::nat)" by (simp_all add: of_char_div16)
  then show ?case using Cons hex_char_unreserved by (auto split: if_splits)
qed simp

lemma sync_inv_initial: "sync_inv (initial_db cs)"
  by (simp add: sync_inv_def initial_db_def)

lemma touch_config_ids [simp]: "map cfg_id (configs (touch_config cid now db)) = map cfg_id (configs db)"
  by (simp add: touch_config_def)

lemma touch_config_logs [simp]:
  "sync_logs (touch_config cid now db) = sync_logs db" "next_log_id (touch_config cid now db) = next_log_id db"
  by (simp_all add: touch_config_def)

lemma select_config_in: "select_config db cid = Some c \<Longrightarrow> c \<in> set (configs db)"
  by (auto simp: select_config_def split: list.splits dest!: filter_eq_ConsD)

text \<open>Inserting a closed log with the next key keeps the invariant.\<close>

lemma insert_closed_inv:
  assumes "sync_inv db" and "log_id (mk (next_log_id db)) = next_log_id db"
    and "log_closed (mk (next_log_id db))"
    and "log_config_id (mk (next_log_id db)) \<in> cfg_id ` set (configs db)"
  shows "sync_inv (snd (insert_log db mk))"
  using assms by (auto simp: sync_inv_def insert_log_def Let_def)

text \<open>Inserting a running log with the next key and closing it at once keeps the invariant.\<close>

lemma insert_close_inv:
  assumes inv: "sync_inv db" and id: "log_id (mk (next_log_id db)) = next_log_id db"
    and cfg: "log_config_id (mk (next_log_id db)) \<in> cfg_id ` set (configs db)"
    and f: "\<And>l. log_id (f l) = log_id l \<and> log_config_id (f l) = log_config_id l"
    and cl: "log_closed (f (mk (next_log_id db)))"
  shows "sync_inv (update_log (next_log_id db) f (snd (insert_log db mk)))"
proof -
  have old: "\<forall>l\<in>set (sync_logs db). log_id l \<noteq> next_log_id db"
    using inv by (auto simp: sync_inv_def)
  then have m: "map (\<lambda>l. if log_id l = next_log_id db then f l else l) (sync_logs db) = sync_logs db"
    by (simp add: map_idI)
  show ?thesis
    using inv id cfg f cl old
    by (auto simp: sync_inv_def update_log_def insert_log_def Let_def m comp_def)
qed

lemma close_error: "log_closed (l\<lparr>log_status := Error, log_error_message := Some m, log_finished_at := Some t\<rparr>)"
  by (simp add: log_closed_def)

lemma close_success: "log_closed (l\<lparr>log_status := Success, log_rows_synced := Some n, log_finished_at := Some t\<rparr>)"
  by (simp add: log_closed_def)

lemma touch_config_inv: "sync_inv db \<Longrightarrow> sync_inv (touch_config cid now db)"
proof -
  have "cfg_id ` set (configs (touch_config cid now db)) = cfg_id ` set (configs db)"
    using touch_config_ids [of cid now db] by (metis set_map)
  then show "sync_inv db \<Longrightarrow> sync_inv (touch_config cid now db)" by (simp add: sync_inv_def)
qed

lemma sync_fetch_closes:
  assumes "sync_fetch env fetch config key i db = (r, db')"
  obtains f where "\<And>l. log_id (f l) = log_id l \<and> log_config_id (f l) = log_config_id l \<and> log_closed (f l)"
    and "db' = update_log i f db \<or> db' = touch_config (cfg_id config) (env_now env) (update_log i f db)"
proof (cases "fetch (sheet_url config key)")
  case (SheetOk vals)
  then show ?thesis using assms that [of "\<lambda>l. l\<lparr>log_status := Success, log_rows_synced := Some (rows_synced vals),
                                          log_finished_at := Some (env_now env)\<rparr>"]
    by (simp add: sync_fetch_def Let_def close_success)
next
  case (SheetHttpError st body)
  then show ?thesis using assms that [of "\<lambda>l. l\<lparr>log_status := Error,
        log_error_message := Some (''Google Sheets API error: '' @ nat_str st @ '' - '' @ body),
        log_finished_at := Some (env_now env)\<rparr>"]
    by (simp add: sync_fetch_def Let_def close_error)
next
  case (FetchFailure msg)
  then show ?thesis using assms that [of "\<lambda>l. l\<lparr>log_status := Error, log_error_message := Some msg,
                                          log_finished_at := Some (env_now env)\<rparr>"]
    by (simp add: sync_fetch_def Let_def close_error)
qed

lemma sync_handler_inv:
  assumes inv: "sync_inv db" and h: "sync_handler env fetch req db = (resp, db')"
  shows "sync_inv db'"
proof (cases "\<exists>b config. req = Post b \<and> (\<forall>m. b \<noteq> BadJson m) \<and> select_config db (body_configId b) = Some config")
  case False
  then have "db' = db" using h
    by (auto simp: sync_handler_def split: request.splits request_body.splits option.splits)
  then show ?thesis using inv by simp
next
  case True
  then obtain b config where b: "req = Post b" "\<forall>m. b \<noteq> BadJson m"
    and c: "select_config db (body_configId b) = Some config" by blast
  have cfg: "cfg_id config \<in> cfg_id ` set (configs db)" using select_config_in [OF c] by simp
  let ?run = "\<lambda>i. \<lparr>log_id = i, log_config_id = cfg_id config, log_status = Running, log_rows_synced = None,
                    log_error_message = None, log_finished_at = None\<rparr>"
  show ?thesis
  proof (cases "present_key (env_api_key env)")
    case None
    then have "db' = snd (insert_log db (\<lambda>i. \<lparr>log_id = i, log_config_id = cfg_id config, log_status = Error,
                     log_rows_synced = None, log_error_message = Some missing_key_log_message,
                     log_finished_at = Some (env_now env)\<rparr>))"
      using h b c by (cases b) (auto simp: sync_handler_def)
    then show ?thesis using inv cfg
      by (auto intro: insert_closed_inv simp: log_closed_def)
  next
    case (Some key)
    obtain r db2 where f: "sync_fetch env fetch config key (next_log_id db) (snd (insert_log db ?run)) = (r, db2)"
      by fastforce
    then have "db' = db2" using h b c Some
      by (cases b) (auto simp: sync_handler_def insert_log_def Let_def split: sum.splits)
    moreover obtain g where g: "\<And>l. log_id (g l) = log_id l \<and> log_config_id (g l) = log_config_id l \<and> log_closed (g l)"
      and d: "db2 = update_log (next_log_id db) g (snd (insert_log db ?run))
              \<or> db2 = touch_config (cfg_id config) (env_now env) (update_log (next_log_id db) g (snd (insert_log db ?run)))"
      using sync_fetch_closes [OF f] by blast
    have "sync_inv (update_log (next_log_id db) g (snd (insert_log db ?run)))"
      using inv cfg g by (intro insert_close_inv) auto
    ultimately show ?thesis using d touch_config_inv by auto
  qed
qed

lemma uri_roundtrip: "decodeURIComponent (encodeURIComponent s) = s"
proof (induction s)
  case (Cons c cs)
  show ?case
  proof (cases "uri_unreserved c")
    case True
    then show ?thesis using Cons unreserved_not_pct [OF True] by simp
  next
    case False
    have "of_char c div 16 < (16::nat)" by (rule of_char_div16)
    then show ?thesis using False Cons by (simp add: hex_val_char)
  qed
qed simp

lemma url_safe: "set (encodeURIComponent s) \<inter> set ''/?&#='' = {}"
proof -
  have "\<not> uri_unreserved c" if "c \<in> set ''/?&#=''" for c
    using that by (auto simp: uri_unreserved_def is_digit_def)
  then show ?thesis using encode_chars by fastforce
qed

lemma drop_all_append: "drop (length xs) (xs @ ys) = ys"
  by simp

section \<open>Properties of the sync function\<close>

text \<open>
  C29. Invariant of the tables: in every state reachable from a deployed database by
  handling requests, log keys are distinct and below the next key, no run is left
  \<open>Running\<close>, every successful run has its row count and end time, every failed run
  its message and end time, and every log names a configuration row.
\<close>

theorem sync_invariant: "reachable_db cs db \<Longrightarrow> sync_inv db"
proof (induction rule: reachable_db.induct)
  case start
  show ?case by (rule sync_inv_initial)
next
  case (step db db')
  from step.hyps(2) show ?case by (rule sync_stepE) (use step.IH sync_handler_inv in blast)
qed

theorem sync_invariant_witness:
  "sync_inv (snd (sync_handler ex_sync_env (\<lambda>u. FetchFailure ''timeout'') (Post (ConfigId ''f1''))
               (snd (sync_handler ex_sync_env ex_fetch (Post (ConfigId ''f1'')) (initial_db [ex_sync_config])))))"
proof -
  let ?db1 = "snd (sync_handler ex_sync_env ex_fetch (Post (ConfigId ''f1'')) (initial_db [ex_sync_config]))"
  have r1: "reachable_db [ex_sync_config] ?db1"
    by (rule reachable_db.step [OF reachable_db.start]) (rule sync_step.handle, rule prod.collapse [symmetric])
  have "reachable_db [ex_sync_config]
          (snd (sync_handler ex_sync_env (\<lambda>u. FetchFailure ''timeout'') (Post (ConfigId ''f1'')) ?db1))"
    by (rule reachable_db.step [OF r1]) (rule sync_step.handle, rule prod.collapse [symmetric])
  then show ?thesis by (rule sync_invariant)
qed

text \<open>
  C30. The response of each branch of the handler: 200 for the preflight, 500 when the body
  is not JSON, 404 when \<open>configId\<close> does not select exactly one configuration row, 400
  when the API key secret is unset or empty, 500 when the sheet cannot be fetched and 200 on
  success; every response carries the CORS headers first.
\<close>

theorem sync_response_status:
  "resp_status (fst (sync_handler env fetch req db)) =
     (case req of
        Options \<Rightarrow> 200
      | Post (BadJson m) \<Rightarrow> 500
      | Post b \<Rightarrow>
          (case select_config db (body_configId b) of
             None \<Rightarrow> 404
           | Some config \<Rightarrow>
               (case env_api_key env of
                  None \<Rightarrow> 400
                | Some key \<Rightarrow>
                    if key = [] then 400
                    else (case fetch (sheet_url config key) of SheetOk v \<Rightarrow> 200 | _ \<Rightarrow> 500))))
   \<and> take 2 (resp_headers (fst (sync_handler env fetch req db))) = corsHeaders"
  by (auto simp: sync_handler_def sync_fetch_def json_response_def corsHeaders_def insert_log_def Let_def
      present_key_def split: request.splits request_body.splits option.splits sheet_result.splits)

text \<open>
  C31. The configuration's \<open>last_sync_at\<close> changes only on a 200 response, the handler
  never adds, removes or renames configuration rows, and a success response reports the
  row count of a successful log of that run, the rows of the sheet below its header.
\<close>

theorem sync_success_consistency:
  assumes "sync_handler env fetch req db = (resp, db')"
  shows "(map cfg_last_sync_at (configs db') \<noteq> map cfg_last_sync_at (configs db) \<longrightarrow> resp_status resp = 200)
         \<and> map cfg_id (configs db') = map cfg_id (configs db)
         \<and> (resp_body resp = SuccessBody n msg \<longrightarrow>
              (\<exists>l\<in>set (sync_logs db'). log_id l = next_log_id db \<and> log_status l = Success
                                       \<and> log_rows_synced l = Some n))"
  using assms
  by (auto simp: sync_handler_def sync_fetch_def json_response_def insert_log_def update_log_def
      touch_config_def Let_def comp_def
      split: request.splits request_body.splits option.splits sheet_result.splits)

theorem sync_success_consistency_witness:
  "resp_body (fst (sync_handler ex_sync_env ex_fetch (Post (ConfigId ''f1'')) (initial_db [ex_sync_config])))
     = SuccessBody 2 ''2 respostas sincronizadas com sucesso.''
   \<and> (\<exists>l\<in>set (sync_logs (snd (sync_handler ex_sync_env ex_fetch (Post (ConfigId ''f1'')) (initial_db [ex_sync_config])))).
        log_status l = Success \<and> log_rows_synced l = Some 2)"
proof -
  let ?h = "sync_handler ex_sync_env ex_fetch (Post (ConfigId ''f1'')) (initial_db [ex_sync_config])"
  have b: "resp_body (fst ?h) = SuccessBody 2 ''2 respostas sincronizadas com sucesso.''"
    by (simp add: sync_handler_def sync_fetch_def ex_fetch_def ex_sync_env_def ex_sync_config_def
        select_config_def body_configId_def initial_db_def insert_log_def json_response_def
        rows_synced_def Let_def nat_str.simps present_key_def)
  show ?thesis
    using sync_success_consistency [OF prod.collapse [symmetric, of ?h], of 2 "''2 respostas sincronizadas com sucesso.''"] b
    by auto
qed

text \<open>
  C32. The request URL carries the sheet name as one encoded path segment: when the
  spreadsheet id holds no \<open>?\<close>, the query of the URL is exactly \<open>?key=\<close> followed by
  the API key, and the segment after \<open>/values/\<close> decodes back to the sheet name.
\<close>

theorem sheet_url_roundtrip:
  assumes "CHR ''?'' \<notin> set (cfg_spreadsheet_id config)"
  shows "dropWhile (\<lambda>c. c \<noteq> CHR ''?'') (sheet_url config key) = ''?key='' @ key
         \<and> decodeURIComponent (takeWhile (\<lambda>c. c \<noteq> CHR ''?'')
             (drop (length (''https://sheets.googleapis.com/v4/spreadsheets/'' @ cfg_spreadsheet_id config @ ''/values/''))
                   (sheet_url config key)))
           = cfg_sheet_name config"
proof -
  let ?e = "encodeURIComponent (cfg_sheet_name config)"
  have e: "CHR ''?'' \<notin> set ?e" using url_safe [of "cfg_sheet_name config"] by auto
  have tw: "takeWhile (\<lambda>c. c \<noteq> CHR ''?'') (?e @ ''?key='' @ key) = ?e"
    using e take_until_sep [of "CHR ''?''" ?e] by simp
  have dw: "dropWhile (\<lambda>c. c \<noteq> CHR ''?'') (?e @ ''?key='' @ key) = ''?key='' @ key"
    using e drop_until_sep [of "CHR ''?''" ?e] by simp
  let ?pre = "''https://sheets.googleapis.com/v4/spreadsheets/'' @ cfg_spreadsheet_id config @ ''/values/''"
  have url: "sheet_url config key = ?pre @ (?e @ ''?key='' @ key)" by (simp add: sheet_url_def)
  have np: "CHR ''?'' \<notin> set ?pre" using assms by simp
  have "dropWhile (\<lambda>c. c \<noteq> CHR ''?'') (sheet_url config key)
          = dropWhile (\<lambda>c. c \<noteq> CHR ''?'') (?pre @ (?e @ ''?key='' @ key))"
    by (simp only: url)
  also have "\<dots> = dropWhile (\<lambda>c. c \<noteq> CHR ''?'') (?e @ ''?key='' @ key)"
    using np by (rule drop_prefix_nosep)
  also have "\<dots> = ''?key='' @ key" by (rule dw)
  finally have "dropWhile (\<lambda>c. c \<noteq> CHR ''?'') (sheet_url config key) = ''?key='' @ key" .
  moreover have "drop (length ?pre) (sheet_url config key) = ?e @ ''?key='' @ key"
    unfolding url by (rule drop_all_append)
  ultimately show ?thesis using tw uri_roundtrip [of "cfg_sheet_name config"] by simp
qed

theorem sheet_url_roundtrip_witness:
  "dropWhile (\<lambda>c. c \<noteq> CHR ''?'') (sheet_url ex_sync_config ''k'') = ''?key=k''
   \<and> decodeURIComponent (takeWhile (\<lambda>c. c \<noteq> CHR ''?'')
       (drop (length ''https://sheets.googleapis.com/v4/spreadsheets/1AbC/values/'') (sheet_url ex_sync_config ''k'')))
     = ''Respostas 2024/Q&A''"
proof -
  have "CHR ''?'' \<notin> set (cfg_spreadsheet_id ex_sync_config)" by (simp add: ex_sync_config_def)
  from sheet_url_roundtrip [OF this, of "''k''"] show ?thesis by (simp add: ex_sync_config_def)
qed

end
