(* ===== verification/ConfigPage.thy ===== *)
theory ConfigPage
  imports Sync
begin

text \<open>
  The configuration page \<open>src/src/pages/GoogleSheetsConfig.tsx\<close>, a client of the
  database the sync edge function (theory \<open>Sync\<close>) works on. The page reads the full
  rows of \<open>google_forms_config\<close> (\<open>form_config\<close>, the \<open>FormConfig\<close> interface);
  the edge function reads only some of their columns: \<open>to_sync_db\<close> is that projection,
  and \<open>from_sync_db\<close> writes the function's changes back onto the full rows. The page
  state is \<open>showForm\<close> and \<open>formData\<close>; \<open>config_step\<close> handles a click or an
  edit: the three mutations \<open>addConfig\<close>, \<open>deleteConfig\<close>, \<open>syncNow\<close> with their
  toasts. What the database decides is an input of the step: the columns it fills in on
  an insert (\<open>id\<close>, \<open>is_active\<close>, \<open>created_at\<close>, defaults of a schema that is not in
  the repository) and whether a write fails with a message. \<open>supabase.functions.invoke\<close>
  reports every response outside 2xx as an error with the client library's generic message
  (\<open>invoke_error_message\<close>), not the body the function sent. Dates are shown through a
  formatting function \<open>fmt\<close> (\<open>toLocaleString("pt-BR")\<close>), a parameter.
\<close>

section \<open>Rows, database and the edge function's view\<close>

record form_config =
  fc_id :: string
  fc_company_name :: string
  fc_spreadsheet_id :: string
  fc_sheet_name :: string
  fc_form_url :: "string option"
  fc_is_active :: bool
  fc_last_sync_at :: "string option"
  fc_created_at :: nat

record app_db =
  app_rows :: "form_config list"
  app_logs :: "sync_log list"
  app_next_log_id :: nat

definition to_sync_config :: "form_config \<Rightarrow> sync_config" where
  "to_sync_config r =
     \<lparr>cfg_id = fc_id r, cfg_spreadsheet_id = fc_spreadsheet_id r, cfg_sheet_name = fc_sheet_name r,
      cfg_last_sync_at = fc_last_sync_at r\<rparr>"

definition to_sync_db :: "app_db \<Rightarrow> sync_db" where
  "to_sync_db db =
     \<lparr>configs = map to_sync_config (app_rows db), sync_logs = app_logs db, next_log_id = app_next_log_id db\<rparr>"

definition from_sync_db :: "app_db \<Rightarrow> sync_db \<Rightarrow> app_db" where
  "from_sync_db db s =
     \<lparr>app_rows = map2 (\<lambda>r c. r\<lparr>fc_last_sync_at := cfg_last_sync_at c\<rparr>) (app_rows db) (configs s),
      app_logs = sync_logs s, app_next_log_id = next_log_id s\<rparr>"

text \<open>\<open>select("*").order("created_at", { ascending: false })\<close>; rows with the same
  creation time keep their table order.\<close>

definition query_configs :: "app_db \<Rightarrow> form_config list" where
  "query_configs db = sort_key (\<lambda>r. - int (fc_created_at r)) (app_rows db)"

section \<open>Page state and events\<close>

record form_data =
  fd_company_name :: string
  fd_spreadsheet_id :: string
  fd_sheet_name :: string
  fd_form_url :: string

definition empty_form :: form_data where
  "empty_form = \<lparr>fd_company_name = [], fd_spreadsheet_id = [], fd_sheet_name = ''Form Responses 1'',
                  fd_form_url = []\<rparr>"

record config_page =
  cp_showForm :: bool
  cp_formData :: form_data

definition config_page_init :: config_page where
  "config_page_init = \<lparr>cp_showForm = False, cp_formData = empty_form\<rparr>"

datatype form_field = CompanyName | SpreadsheetId | SheetName | FormUrl

text \<open>\<open>setFormData(p => ({ ...p, field: e.target.value }))\<close>\<close>

fun set_field :: "form_field \<Rightarrow> string \<Rightarrow> form_data \<Rightarrow> form_data" where
  "set_field CompanyName v p = p\<lparr>fd_company_name := v\<rparr>"
| "set_field SpreadsheetId v p = p\<lparr>fd_spreadsheet_id := v\<rparr>"
| "set_field SheetName v p = p\<lparr>fd_sheet_name := v\<rparr>"
| "set_field FormUrl v p = p\<lparr>fd_form_url := v\<rparr>"

text \<open>\<open>disabled={!formData.company_name || !formData.spreadsheet_id}\<close>\<close>

definition save_enabled :: "form_data \<Rightarrow> bool" where
  "save_enabled fd \<longleftrightarrow> fd_company_name fd \<noteq> [] \<and> fd_spreadsheet_id fd \<noteq> []"

record page_toast =
  pt_title :: string
  pt_description :: string
  pt_destructive :: bool

text \<open>The columns the database fills in on an insert.\<close>

record row_defaults =
  rd_id :: string
  rd_is_active :: bool
  rd_created_at :: nat

text \<open>\<open>addConfig\<close>: \<open>insert({ company_name, spreadsheet_id, sheet_name, form_url: form_url || null })\<close>\<close>

definition insert_config :: "row_defaults \<Rightarrow> form_data \<Rightarrow> app_db \<Rightarrow> app_db" where
  "insert_config dft fd db =
     db\<lparr>app_rows := app_rows db @
          [\<lparr>fc_id = rd_id dft, fc_company_name = fd_company_name fd, fc_spreadsheet_id = fd_spreadsheet_id fd,
            fc_sheet_name = fd_sheet_name fd,
            fc_form_url = (if fd_form_url fd = [] then None else Some (fd_form_url fd)),
            fc_is_active = rd_is_active dft, fc_last_sync_at = None, fc_created_at = rd_created_at dft\<rparr>]\<rparr>"

text \<open>\<open>deleteConfig\<close>: \<open>delete().eq("id", id)\<close>\<close>

definition delete_config :: "string \<Rightarrow> app_db \<Rightarrow> app_db" where
  "delete_config i db = db\<lparr>app_rows := filter (\<lambda>r. fc_id r \<noteq> i) (app_rows db)\<rparr>"

definition invoke_error_message :: string where
  "invoke_error_message = ''Edge Function returned a non-2xx status code''"

text \<open>\<open>supabase.functions.invoke("sync-google-sheets", { body: { configId } })\<close>: the
  handler runs on the edge function's view of the tables; a status outside 2xx is an
  error carrying the library's message.\<close>

definition functions_invoke :: "sync_env \<Rightarrow> (string \<Rightarrow> sheet_result) \<Rightarrow> string \<Rightarrow> app_db
                                \<Rightarrow> (string + response_body) \<times> app_db" where
  "functions_invoke env fetch cid db =
     (case sync_handler env fetch (Post (ConfigId cid)) (to_sync_db db) of
        (resp, s') \<Rightarrow>
          ((if 200 \<le> resp_status resp \<and> resp_status resp < 300 then Inr (resp_body resp)
            else Inl invoke_error_message),
           from_sync_db db s'))"

datatype config_event =
    ToggleForm
  | EditField form_field string
  | SaveClick
  | CancelClick
  | DeleteClick string
  | SyncClick string

record config_inputs =
  ci_defaults :: row_defaults
  ci_db_error :: "string option"
  ci_env :: sync_env
  ci_fetch :: "string \<Rightarrow> sheet_result"

text \<open>One event. A failed insert shows the error toast; a failed delete shows nothing
  (\<open>deleteConfig\<close> has no \<open>onError\<close>); a failed sync shows the error toast.\<close>

fun config_step :: "config_inputs \<Rightarrow> config_page \<times> app_db \<Rightarrow> config_event
                    \<Rightarrow> config_page \<times> app_db \<times> page_toast option" where
  "config_step inp (st, db) ToggleForm = (st\<lparr>cp_showForm := \<not> cp_showForm st\<rparr>, db, None)"
| "config_step inp (st, db) (EditField f v) = (st\<lparr>cp_formData := set_field f v (cp_formData st)\<rparr>, db, None)"
| "config_step inp (st, db) SaveClick =
     (if \<not> save_enabled (cp_formData st) then (st, db, None)
      else (case ci_db_error inp of
              Some msg \<Rightarrow> (st, db, Some \<lparr>pt_title = ''Erro'', pt_description = msg, pt_destructive = True\<rparr>)
            | None \<Rightarrow> (\<lparr>cp_showForm = False, cp_formData = empty_form\<rparr>,
                       insert_config (ci_defaults inp) (cp_formData st) db,
                       Some \<lparr>pt_title = ''Formulario adicionado!'',
                             pt_description = ''A configuracao foi salva com sucesso.'', pt_destructive = False\<rparr>)))"
| "config_step inp (st, db) CancelClick = (st\<lparr>cp_showForm := False\<rparr>, db, None)"
| "config_step inp (st, db) (DeleteClick i) =
     (case ci_db_error inp of
        Some msg \<Rightarrow> (st, db, None)
      | None \<Rightarrow> (st, delete_config i db,
                 Some \<lparr>pt_title = ''Removido'', pt_description = ''Configuracao excluida.'', pt_destructive = False\<rparr>))"
| "config_step inp (st, db) (SyncClick i) =
     (case functions_invoke (ci_env inp) (ci_fetch inp) i db of
        (Inl msg, db') \<Rightarrow>
          (st, db', Some \<lparr>pt_title = ''Erro na sincronizacao'', pt_description = msg, pt_destructive = True\<rparr>)
      | (Inr b, db') \<Rightarrow>
          (st, db', Some \<lparr>pt_title = ''Sincronizacao concluida!'', pt_description = ''Os dados foram atualizados.'',
                         pt_destructive = False\<rparr>))"

text \<open>The events the rendered page offers: the form's inputs and buttons only while it
  is shown, the sync and delete buttons of the listed rows.\<close>

fun config_ui_event :: "config_page \<Rightarrow> app_db \<Rightarrow> config_event \<Rightarrow> bool" where
  "config_ui_event st db (EditField f v) = cp_showForm st"
| "config_ui_event st db SaveClick = cp_showForm st"
| "config_ui_event st db CancelClick = cp_showForm st"
| "config_ui_event st db (DeleteClick i) = (i \<in> set (map fc_id (query_configs db)))"
| "config_ui_event st db (SyncClick i) = (i \<in> set (map fc_id (query_configs db)))"
| "config_ui_event st db ToggleForm = True"

section \<open>The list of configurations\<close>

text \<open>A card: name, status badge, sheet line, last sync line, and whether the form link
  is shown (\<open>config.form_url && ...\<close>: not for \<open>null\<close> or the empty string).\<close>

definition config_card :: "(string \<Rightarrow> string) \<Rightarrow> form_config \<Rightarrow> string list \<times> bool" where
  "config_card fmt c =
     ([fc_company_name c, if fc_is_active c then ''Ativo'' else ''Inativo'',
       ''Planilha: '' @ take 20 (fc_spreadsheet_id c) @ ''... | Aba: '' @ fc_sheet_name c,
       (case fc_last_sync_at c of None \<Rightarrow> ''Nunca sincronizado'' | Some t \<Rightarrow> ''Ultima sync: '' @ fmt t)],
      (case fc_form_url c of None \<Rightarrow> False | Some u \<Rightarrow> u \<noteq> []))"

definition config_view :: "(string \<Rightarrow> string) \<Rightarrow> app_db \<Rightarrow> string + (string list \<times> bool) list" where
  "config_view fmt db =
     (if query_configs db = [] then Inl ''Nenhum formulario configurado ainda''
      else Inr (map (config_card fmt) (query_configs db)))"




section \<open>The page on the edge function's view of the tables\<close>









text \<open>A deletion can leave logs naming a row that no longer exists: the invariant of the
  sync function does not survive the page's \<open>delete().eq("id", id)\<close> unless the
  database cascades it.\<close>

lemma delete_dangling_logs:
  "let db = \<lparr>app_rows = [\<lparr>fc_id = ''f1'', fc_company_name = ''TechSol'', fc_spreadsheet_id = ''1AbC'',
                          fc_sheet_name = ''Respostas'', fc_form_url = None, fc_is_active = True,
                          fc_last_sync_at = None, fc_created_at = 1\<rparr>],
             app_logs = [\<lparr>log_id = 0, log_config_id = ''f1'', log_status = Error, log_rows_synced = None,
                          log_error_message = Some ''x'', log_finished_at = Some ''t''\<rparr>],
             app_next_log_id = 1\<rparr>
   in sync_inv (to_sync_db db) \<and> \<not> sync_inv (to_sync_db (delete_config ''f1'' db))"
  by (auto simp: sync_inv_def to_sync_db_def delete_config_def to_sync_config_def log_closed_def)

text \<open>A failed synchronisation shows the client library's message, never the error body
  of the function: with the API key missing, the function answers 400 with
  \<open>missing_key_message\<close>, the toast reads \<open>invoke_error_message\<close>.\<close>

lemma sync_toast_generic:
  assumes "select_config (to_sync_db db) (Some i) = Some c" and "env_api_key (ci_env inp) = None"
  shows "snd (snd (config_step inp (st, db) (SyncClick i)))
           = Some \<lparr>pt_title = ''Erro na sincronizacao'', pt_description = invoke_error_message, pt_destructive = True\<rparr>
         \<and> resp_body (fst (sync_handler (ci_env inp) (ci_fetch inp) (Post (ConfigId i)) (to_sync_db db)))
           = ErrorBody missing_key_message"
  using assms by (simp add: functions_invoke_def sync_handler_def body_configId_def json_response_def
      present_key_def)

text \<open>A row the page inserts has a company name and a spreadsheet id, and no empty form
  link; the form is then hidden and reset.\<close>

lemma save_row_filled:
  assumes "config_step inp (st, db) SaveClick = (st', db', t)" and "r \<in> set (app_rows db')"
    and "r \<notin> set (app_rows db)"
  shows "fc_company_name r \<noteq> [] \<and> fc_spreadsheet_id r \<noteq> [] \<and> fc_form_url r \<noteq> Some []
         \<and> st' = config_page_init"
  using assms by (auto simp: save_enabled_def insert_config_def config_page_init_def
      split: if_splits option.splits)



end
