(* ===== verification/Generator.thy ===== *)
theory Generator
  imports CsvExport "HOL-Library.State_Monad" "HOL-Library.Stream"
begin

text \<open>
  The start-up generator of the respondent store in \<open>src/src/data/mockData.ts\<close>
  (\<open>randomInt\<close>, \<open>generateAnswers\<close>, \<open>generateRespondents\<close>). \<open>Math.random()\<close>
  is an infinite stream of draws threaded through the generator by the state monad of
  \<open>HOL-Library.State_Monad\<close>; each \<open>randomInt\<close> consumes one draw, in the order the
  code evaluates the calls (the properties of an object literal left to right). The bias
  table is a map: a company without a bias would make every answer \<open>NaN\<close>, which the
  model reports as \<open>None\<close>. ECMAScript guarantees that every draw lies in \<open>[0, 1)\<close>;
  under that hypothesis (\<open>valid_rng\<close>) every array index the generator computes is in
  range, which is shown below.
\<close>

type_synonym rng = "js_num stream"

text \<open>One call of \<open>Math.random()\<close>.\<close>

definition random :: "(rng, js_num) state" where
  "random = State (\<lambda>s. (shd s, stl s))"

text \<open>\<open>randomInt(min, max) = Math.floor(Math.random() * (max - min + 1)) + min\<close>\<close>

definition randomInt :: "int \<Rightarrow> int \<Rightarrow> (rng, int) state" where
  "randomInt lo hi = do { r \<leftarrow> random; State_Monad.return (\<lfloor>r * of_int (hi - lo + 1)\<rfloor> + lo) }"

definition sectorsList :: "string list" where
  "sectorsList = [''Administrativo'', ''Operacional'', ''Comercial'', ''RH'', ''TI'', ''Financeiro'', ''Producao'']"

text \<open>The questions the generator treats as negative (lower is better).\<close>

definition negative_question :: "question \<Rightarrow> bool" where
  "negative_question q \<longleftrightarrow>
     q_section q = ''vivencias'' \<or> q_section q = ''saude''
     \<or> q_id q \<in> set [''g1'', ''g2'', ''g3'', ''g4'', ''g5'', ''g8'', ''g9'', ''g10'']"

text \<open>One answer: \<open>Math.max(1, Math.min(5, randomInt(...) +/- Math.round((5 - bias) * 0.3)))\<close>.\<close>

definition answer_value :: "js_num \<Rightarrow> question \<Rightarrow> (rng, int) state" where
  "answer_value bias q =
     (if negative_question q
      then do { x \<leftarrow> randomInt 1 3; State_Monad.return (max 1 (min 5 (x + round ((5 - bias) * 3/10)))) }
      else do { x \<leftarrow> randomInt 2 5; State_Monad.return (max 1 (min 5 (x - round ((5 - bias) * 3/10)))) })"

text \<open>\<open>questions.forEach(q => { answers[q.id] = ... })\<close>: one draw per question, in order;
  a later assignment to the same key overwrites an earlier one.\<close>

primrec gen_answers :: "js_num \<Rightarrow> (qid \<rightharpoonup> int) \<Rightarrow> question list \<Rightarrow> (rng, qid \<rightharpoonup> int) state" where
  "gen_answers bias m [] = State_Monad.return m"
| "gen_answers bias m (q # qs) = do { v \<leftarrow> answer_value bias q; gen_answers bias (m(q_id q \<mapsto> v)) qs }"

definition generateAnswers :: "question list \<Rightarrow> js_num \<Rightarrow> (rng, qid \<rightharpoonup> int) state" where
  "generateAnswers qs bias = gen_answers bias Map.empty qs"

definition sexes :: "sex list" where
  "sexes = [Masculino, Feminino, Prefiro_nao_declarar]"

definition names :: "string list" where
  "names = [''Ana Silva'', ''Carlos Santos'', ''Maria Oliveira'', ''Joao Pereira'', ''Fernanda Costa'',
            ''Ricardo Lima'', ''Patricia Souza'', ''Marcos Almeida'', ''Juliana Ferreira'', ''Andre Ribeiro'',
            ''Camila Martins'', ''Lucas Barbosa'', ''Beatriz Rocha'', ''Pedro Cardoso'', ''Larissa Araujo'',
            ''Gustavo Mendes'', ''Amanda Gomes'', ''Felipe Nascimento'', ''Isabela Moreira'', ''Rafael Dias'']"

definition biases :: "cid \<rightharpoonup> js_num" where
  "biases = [''emp1'' \<mapsto> 19/5, ''emp2'' \<mapsto> 16/5, ''emp3'' \<mapsto> 29/10, ''emp4'' \<mapsto> 7/2, ''emp5'' \<mapsto> 3]"

text \<open>The object literal pushed for respondent \<open>i\<close> of a company.\<close>

definition gen_respondent :: "question list \<Rightarrow> company \<Rightarrow> js_num \<Rightarrow> nat \<Rightarrow> (rng, respondent) state" where
  "gen_respondent qs company bias i = do {
     sx \<leftarrow> randomInt 0 2;
     age \<leftarrow> randomInt 20 60;
     sec \<leftarrow> randomInt 0 (int (length sectorsList) - 1);
     ans \<leftarrow> generateAnswers qs bias;
     State_Monad.return
       \<lparr>r_id = c_id company @ ''_r'' @ nat_str i, r_companyId = c_id company,
        r_name = names ! (i mod length names), r_sex = sexes ! nat sx, r_age = age,
        r_sector = sectorsList ! nat sec, r_answers = ans,
        r_comment = (if i mod 5 = 0 then Some ''Satisfeito com o ambiente de trabalho em geral.'' else None)\<rparr>
   }"

text \<open>\<open>for (let i = 0; i < count; i++)\<close>, as recursion on the number \<open>k\<close> of
  iterations left.\<close>

primrec gen_loop :: "question list \<Rightarrow> company \<Rightarrow> js_num \<Rightarrow> nat \<Rightarrow> nat \<Rightarrow> (rng, respondent list) state" where
  "gen_loop qs company bias i 0 = State_Monad.return []"
| "gen_loop qs company bias i (Suc k) = do {
     r \<leftarrow> gen_respondent qs company bias i;
     rs \<leftarrow> gen_loop qs company bias (Suc i) k;
     State_Monad.return (r # rs)
   }"

definition gen_company :: "question list \<Rightarrow> company \<Rightarrow> js_num \<Rightarrow> (rng, respondent list) state" where
  "gen_company qs company bias = do {
     count \<leftarrow> randomInt 15 30;
     gen_loop qs company bias 0 (nat count)
   }"

text \<open>\<open>generateRespondents()\<close>: \<open>None\<close> when a company has no bias.\<close>

fun generateRespondents :: "question list \<Rightarrow> company list \<Rightarrow> (cid \<rightharpoonup> js_num) \<Rightarrow> (rng, respondent list option) state" where
  "generateRespondents qs [] bs = State_Monad.return (Some [])"
| "generateRespondents qs (c # cs) bs =
     (case bs (c_id c) of
        None \<Rightarrow> State_Monad.return None
      | Some b \<Rightarrow> do {
          rs \<leftarrow> gen_company qs c b;
          rest \<leftarrow> generateRespondents qs cs bs;
          State_Monad.return (map_option (\<lambda>xs. rs @ xs) rest)
        })"

text \<open>\<open>export const respondents = generateRespondents()\<close>, with the snapshot around it.\<close>

definition valid_rng :: "rng \<Rightarrow> bool" where
  "valid_rng s \<longleftrightarrow> (\<forall>x\<in>sset s. 0 \<le> x \<and> x < 1)"

definition generated_db :: "rng \<Rightarrow> snapshot option" where
  "generated_db s =
     map_option (\<lambda>rs. \<lparr>db_sections = sections, db_questions = questions, db_companies = companies,
                       db_respondents = rs\<rparr>)
       (fst (run_state (generateRespondents questions companies biases) s))"


definition in_scale_map :: "(qid \<rightharpoonup> int) \<Rightarrow> bool" where
  "in_scale_map m \<longleftrightarrow> (\<forall>k v. m k = Some v \<longrightarrow> 1 \<le> v \<and> v \<le> 5)"

definition gen_ok :: "question list \<Rightarrow> company \<Rightarrow> respondent \<Rightarrow> bool" where
  "gen_ok qs c r \<longleftrightarrow> r_companyId r = c_id c \<and> answers_in_scale r \<and> complete_respondent qs r"

definition age_ok :: "respondent \<Rightarrow> bool" where
  "age_ok r \<longleftrightarrow> 20 \<le> r_age r \<and> r_age r \<le> 60"

text \<open>The company ids as the generator needs them: distinct and without underscore.\<close>

definition id_friendly :: "company list \<Rightarrow> bool" where
  "id_friendly cs \<longleftrightarrow> distinct (map c_id cs) \<and> list_all (\<lambda>c. CHR ''_'' \<notin> set (c_id c)) cs"

definition gen_id_form :: "respondent \<Rightarrow> bool" where
  "gen_id_form r \<longleftrightarrow> (\<exists>j. r_id r = r_companyId r @ ''_r'' @ nat_str j)"

section \<open>Lemmas on the generator\<close>

lemma valid_sdrop: "valid_rng s \<Longrightarrow> valid_rng (sdrop n s)"
  unfolding valid_rng_def by (metis sdrop_snth snth_sset sset_range imageE)

lemma randomInt_run: "run_state (randomInt lo hi) s = (\<lfloor>shd s * of_int (hi - lo + 1)\<rfloor> + lo, stl s)"
  by (simp add: randomInt_def random_def)

lemma randomInt_range:
  fixes r :: js_num
  assumes "0 \<le> r" "r < 1" "lo \<le> hi"
  shows "lo \<le> \<lfloor>r * of_int (hi - lo + 1)\<rfloor> + lo \<and> \<lfloor>r * of_int (hi - lo + 1)\<rfloor> + lo \<le> hi"
proof -
  let ?n = "hi - lo + 1"
  have n: "0 < ?n" using assms(3) by simp
  have n': "(0::js_num) < of_int ?n" using n by simp
  have "0 \<le> r * of_int ?n" using assms(1) n by simp
  moreover have "r * of_int ?n < of_int ?n"
    using mult_strict_right_mono [OF assms(2) n'] by simp
  ultimately have f0: "0 \<le> \<lfloor>r * of_int ?n\<rfloor>" and f1: "\<lfloor>r * of_int ?n\<rfloor> < ?n"
    by (simp only: zero_le_floor, simp only: floor_less_iff)
  then show ?thesis by linarith
qed

lemma randomInt_valid:
  "valid_rng s \<Longrightarrow> lo \<le> hi \<Longrightarrow> run_state (randomInt lo hi) s = (x, s') \<Longrightarrow> lo \<le> x \<and> x \<le> hi"
  using randomInt_range [of "shd s" lo hi] shd_sset [of s]
  by (auto simp: randomInt_run valid_rng_def)

lemma answer_value_run:
  "run_state (answer_value b q) s = (v, s') \<Longrightarrow> 1 \<le> v \<and> v \<le> 5 \<and> s' = stl s"
  by (auto simp: answer_value_def randomInt_run split: if_splits)

lemma gen_answers_run:
  "in_scale_map m \<Longrightarrow> run_state (gen_answers b m qs) s = (m', s') \<Longrightarrow>
     in_scale_map m' \<and> (\<forall>q\<in>set qs. m' (q_id q) \<noteq> None) \<and> dom m \<subseteq> dom m' \<and> s' = sdrop (length qs) s"
proof (induction qs arbitrary: m s)
  case Nil
  then show ?case by simp
next
  case (Cons q qs)
  obtain v s1 where av: "run_state (answer_value b q) s = (v, s1)" by fastforce
  from answer_value_run [OF av] have v: "1 \<le> v" "v \<le> 5" and s1: "s1 = stl s" by auto
  have m1: "in_scale_map (m(q_id q \<mapsto> v))" using Cons.prems(1) v by (simp add: in_scale_map_def)
  have r: "run_state (gen_answers b (m(q_id q \<mapsto> v)) qs) s1 = (m', s')"
    using Cons.prems(2) av by simp
  from Cons.IH [OF m1 r] have ih: "in_scale_map m'" "\<forall>q\<in>set qs. m' (q_id q) \<noteq> None"
    "dom (m(q_id q \<mapsto> v)) \<subseteq> dom m'" "s' = sdrop (length qs) s1" by blast+
  have "dom m \<subseteq> dom (m(q_id q \<mapsto> v))" by auto
  then have d: "dom m \<subseteq> dom m'" using ih(3) by (rule order_trans)
  have e: "m' (q_id q) \<noteq> None" using ih(3) by auto
  show ?case
  proof (intro conjI)
    show "in_scale_map m'" by (rule ih(1))
    show "\<forall>x\<in>set (q # qs). m' (q_id x) \<noteq> None" using ih(2) e by simp
    show "dom m \<subseteq> dom m'" by (rule d)
    show "s' = sdrop (length (q # qs)) s" using ih(4) s1 by simp
  qed
qed

lemma answers_in_scale_map: "answers_in_scale r \<longleftrightarrow> in_scale_map (r_answers r)"
  by (simp add: answers_in_scale_def in_scale_map_def)

lemma generateAnswers_run:
  "run_state (generateAnswers qs b) s = (m, s') \<Longrightarrow>
     in_scale_map m \<and> (\<forall>q\<in>set qs. \<exists>v. m (q_id q) = Some v) \<and> s' = sdrop (length qs) s"
  using gen_answers_run [of Map.empty b qs s m s'] by (auto simp: generateAnswers_def in_scale_map_def)

lemma gen_respondent_run:
  assumes "run_state (gen_respondent qs c b i) s = (r, s')"
  shows "r_id r = c_id c @ ''_r'' @ nat_str i \<and> gen_ok qs c r \<and> (\<exists>n. s' = sdrop n s)
         \<and> (valid_rng s \<longrightarrow> age_ok r)"
proof -
  obtain m s4 where g: "run_state (generateAnswers qs b) (stl (stl (stl s))) = (m, s4)" by fastforce
  from generateAnswers_run [OF g] have m: "in_scale_map m" "\<forall>q\<in>set qs. \<exists>v. m (q_id q) = Some v"
    and s4: "s4 = sdrop (length qs) (stl (stl (stl s)))" by auto
  have r: "r_answers r = m" "r_id r = c_id c @ ''_r'' @ nat_str i" "r_companyId r = c_id c"
    "r_age r = \<lfloor>shd (stl s) * of_int (60 - 20 + 1)\<rfloor> + 20" and s': "s' = s4"
    using assms g by (auto simp: gen_respondent_def randomInt_run)
  have s4': "s4 = sdrop (length qs + 3) s" using s4 by (simp add: eval_nat_numeral)
  have "complete_respondent qs r"
    using m r(1) by (auto simp: complete_respondent_def list_all_iff answered_def in_scale_map_def)
  moreover have "valid_rng s \<longrightarrow> age_ok r"
    using randomInt_valid [of "stl s" 20 60] valid_sdrop [of s 1] r(4)
    by (auto simp: randomInt_run age_ok_def)
  ultimately show ?thesis using m r s' s4' by (auto simp: gen_ok_def answers_in_scale_map)
qed

lemma gen_loop_run:
  "run_state (gen_loop qs c b i k) s = (rs, s') \<Longrightarrow>
     map r_id rs = map (\<lambda>j. c_id c @ ''_r'' @ nat_str j) [i..<i + k]
     \<and> list_all (gen_ok qs c) rs \<and> (valid_rng s \<longrightarrow> list_all age_ok rs) \<and> (\<exists>n. s' = sdrop n s)"
proof (induction k arbitrary: i s rs s')
  case 0
  then show ?case by (auto intro: exI [of _ 0])
next
  case (Suc k)
  obtain r s1 where g: "run_state (gen_respondent qs c b i) s = (r, s1)" by fastforce
  obtain rs' s2 where l: "run_state (gen_loop qs c b (Suc i) k) s1 = (rs', s2)" by fastforce
  have rs: "rs = r # rs'" and s2: "s' = s2" using Suc.prems g l by simp_all
  from gen_respondent_run [OF g] obtain n1 where r: "r_id r = c_id c @ ''_r'' @ nat_str i"
    "gen_ok qs c r" "valid_rng s \<longrightarrow> age_ok r" and n1: "s1 = sdrop n1 s"
    by blast
  from Suc.IH [OF l] obtain n2 where ih: "map r_id rs' = map (\<lambda>j. c_id c @ ''_r'' @ nat_str j) [Suc i..<Suc i + k]"
    "list_all (gen_ok qs c) rs'" "valid_rng s1 \<longrightarrow> list_all age_ok rs'" and n2: "s2 = sdrop n2 s1"
    by blast
  have "[i..<i + Suc k] = i # [Suc i..<Suc i + k]" by (simp add: upt_conv_Cons del: upt_Suc)
  moreover have "valid_rng s \<longrightarrow> valid_rng s1" using n1 valid_sdrop by blast
  ultimately show ?case using rs s2 r ih n1 n2 by (auto intro: exI [of _ "n1 + n2"])
qed

lemma gen_company_run:
  "run_state (gen_company qs c b) s = (rs, s') \<Longrightarrow>
     map r_id rs = map (\<lambda>j. c_id c @ ''_r'' @ nat_str j) [0..<length rs]
     \<and> list_all (gen_ok qs c) rs
     \<and> (valid_rng s \<longrightarrow> list_all age_ok rs \<and> 15 \<le> length rs \<and> length rs \<le> 30)
     \<and> (\<exists>n. s' = sdrop n s)"
proof -
  assume a: "run_state (gen_company qs c b) s = (rs, s')"
  let ?count = "\<lfloor>shd s * of_int (30 - 15 + 1)\<rfloor> + 15"
  have l: "run_state (gen_loop qs c b 0 (nat ?count)) (stl s) = (rs, s')"
    using a by (simp add: gen_company_def randomInt_run)
  from gen_loop_run [OF l] obtain n where g: "map r_id rs = map (\<lambda>j. c_id c @ ''_r'' @ nat_str j) [0..<nat ?count]"
    "list_all (gen_ok qs c) rs" "valid_rng (stl s) \<longrightarrow> list_all age_ok rs" and n: "s' = sdrop n (stl s)"
    by auto
  have len: "length rs = nat ?count" using arg_cong [OF g(1), of length] by simp
  have c: "valid_rng s \<longrightarrow> 15 \<le> ?count \<and> ?count \<le> 30"
    using randomInt_valid [of s 15 30 ?count "stl s"] by (simp add: randomInt_run)
  have "valid_rng s \<longrightarrow> 15 \<le> length rs \<and> length rs \<le> 30"
    using c unfolding len by linarith
  moreover have "valid_rng s \<longrightarrow> valid_rng (stl s)" using valid_sdrop [of s 1] by simp
  ultimately show ?thesis using g len n by (auto intro: exI [of _ "Suc n"])
qed

lemma nat_str_inj: "nat_str m = nat_str n \<Longrightarrow> m = n"
  by (metis digits_val_nat_str option.inject)

lemma id_split:
  assumes "CHR ''_'' \<notin> set a" "CHR ''_'' \<notin> set a'" "a @ ''_r'' @ x = a' @ ''_r'' @ y"
  shows "a = a' \<and> x = y"
proof -
  have "takeWhile (\<lambda>ch. ch \<noteq> CHR ''_'') (a @ ''_r'' @ x) = a"
    "takeWhile (\<lambda>ch. ch \<noteq> CHR ''_'') (a' @ ''_r'' @ y) = a'"
    using assms(1,2) take_until_sep by simp_all
  then have "a = a'" using assms(3) by metis
  then show ?thesis using assms(3) by simp
qed

lemma gen_company_ids:
  assumes "map r_id rs = map (\<lambda>j. c_id c @ ''_r'' @ nat_str j) [0..<length rs]"
    and "list_all (gen_ok qs c) rs"
  shows "distinct (map r_id rs) \<and> list_all gen_id_form rs"
proof
  show "distinct (map r_id rs)"
    using assms(1) by (simp add: distinct_map inj_on_def nat_str_inj)
  have "r_id (rs ! j) = c_id c @ ''_r'' @ nat_str j" if "j < length rs" for j
    using arg_cong [OF assms(1), of "\<lambda>xs. xs ! j"] that by simp
  then show "list_all gen_id_form rs"
    using assms(2) by (fastforce simp: list_all_iff gen_id_form_def gen_ok_def in_set_conv_nth)
qed

lemma generateRespondents_run:
  "run_state (generateRespondents qs cs bs) s = (res, s') \<Longrightarrow> list_all (\<lambda>c. bs (c_id c) \<noteq> None) cs \<Longrightarrow>
     id_friendly cs \<Longrightarrow>
     \<exists>xs. res = Some xs \<and> distinct (map r_id xs)
       \<and> list_all (\<lambda>r. r_companyId r \<in> c_id ` set cs \<and> answers_in_scale r \<and> complete_respondent qs r
                      \<and> gen_id_form r) xs
       \<and> (\<forall>c\<in>set cs. valid_rng s \<longrightarrow> 15 \<le> length (filter (\<lambda>r. r_companyId r = c_id c) xs)
                                        \<and> length (filter (\<lambda>r. r_companyId r = c_id c) xs) \<le> 30)
       \<and> (valid_rng s \<longrightarrow> list_all age_ok xs)"
proof (induction cs arbitrary: s res s')
  case Nil
  then show ?case by auto
next
  case (Cons c cs)
  obtain b where b: "bs (c_id c) = Some b" using Cons.prems(2) by auto
  obtain rs s1 where g: "run_state (gen_company qs c b) s = (rs, s1)" by fastforce
  obtain rest s2 where r: "run_state (generateRespondents qs cs bs) s1 = (rest, s2)" by fastforce
  have res: "res = map_option (\<lambda>xs. rs @ xs) rest" using Cons.prems(1) b g r by simp
  have fr: "id_friendly cs" and cnot: "c_id c \<notin> c_id ` set cs" and cu: "CHR ''_'' \<notin> set (c_id c)"
    and csu: "\<forall>c'\<in>set cs. CHR ''_'' \<notin> set (c_id c')"
    using Cons.prems(3) by (auto simp: id_friendly_def list_all_iff)
  from gen_company_run [OF g] obtain n where
    gi: "map r_id rs = map (\<lambda>j. c_id c @ ''_r'' @ nat_str j) [0..<length rs]" and
    go: "list_all (gen_ok qs c) rs" and
    gv: "valid_rng s \<longrightarrow> list_all age_ok rs \<and> 15 \<le> length rs \<and> length rs \<le> 30" and n: "s1 = sdrop n s"
    by blast
  from gen_company_ids [OF gi go] have d1: "distinct (map r_id rs)" and f1: "list_all gen_id_form rs" by auto
  from Cons.IH [OF r _ fr] Cons.prems(2) obtain xs where x: "rest = Some xs" "distinct (map r_id xs)"
    "list_all (\<lambda>r. r_companyId r \<in> c_id ` set cs \<and> answers_in_scale r \<and> complete_respondent qs r
                   \<and> gen_id_form r) xs"
    "\<forall>c\<in>set cs. valid_rng s1 \<longrightarrow> 15 \<le> length (filter (\<lambda>r. r_companyId r = c_id c) xs)
                                   \<and> length (filter (\<lambda>r. r_companyId r = c_id c) xs) \<le> 30"
    "valid_rng s1 \<longrightarrow> list_all age_ok xs"
    by auto
  have v1: "valid_rng s \<longrightarrow> valid_rng s1" using n valid_sdrop by blast
  have rc: "\<forall>r\<in>set rs. r_companyId r = c_id c" using go by (simp add: list_all_iff gen_ok_def)
  have xc: "\<forall>y\<in>set xs. r_companyId y \<in> c_id ` set cs \<and> gen_id_form y" using x(3) by (simp add: list_all_iff)
  have disj: "r_id r \<noteq> r_id y" if rin: "r \<in> set rs" and yin: "y \<in> set xs" for r y
  proof
    assume eq: "r_id r = r_id y"
    have "\<exists>j. r_id r = c_id c @ ''_r'' @ nat_str j"
      using f1 rin rc by (auto simp: list_all_iff gen_id_form_def)
    then obtain j where j: "r_id r = c_id c @ ''_r'' @ nat_str j" by blast
    obtain j' where j': "r_id y = r_companyId y @ ''_r'' @ nat_str j'"
      using xc yin by (auto simp: gen_id_form_def)
    have yc: "r_companyId y \<in> c_id ` set cs" using xc yin by simp
    then have "CHR ''_'' \<notin> set (r_companyId y)" using csu by auto
    then have "c_id c = r_companyId y" using id_split [OF cu] eq j j' by metis
    then show False using yc cnot by simp
  qed
  have "distinct (map r_id (rs @ xs))" using d1 x(2) disj by auto
  moreover have "list_all (\<lambda>r. r_companyId r \<in> c_id ` set (c # cs) \<and> answers_in_scale r \<and> complete_respondent qs r
                               \<and> gen_id_form r) (rs @ xs)"
    using go f1 x(3) by (auto simp: list_all_iff gen_ok_def)
  moreover have "\<forall>c'\<in>set (c # cs). valid_rng s \<longrightarrow> 15 \<le> length (filter (\<lambda>r. r_companyId r = c_id c') (rs @ xs))
                    \<and> length (filter (\<lambda>r. r_companyId r = c_id c') (rs @ xs)) \<le> 30"
  proof (intro ballI impI)
    fix c' assume c': "c' \<in> set (c # cs)" and v: "valid_rng s"
    show "15 \<le> length (filter (\<lambda>r. r_companyId r = c_id c') (rs @ xs))
          \<and> length (filter (\<lambda>r. r_companyId r = c_id c') (rs @ xs)) \<le> 30"
    proof (cases "c' = c")
      case True
      have "filter (\<lambda>r. r_companyId r = c_id c) xs = []"
        unfolding filter_empty_conv using xc cnot by metis
      moreover have "filter (\<lambda>r. r_companyId r = c_id c) rs = rs" using rc by simp
      ultimately show ?thesis using True gv v by simp
    next
      case False
      then have c'cs: "c' \<in> set cs" using c' by simp
      then have ne: "c_id c' \<noteq> c_id c" using cnot by (metis image_eqI)
      have "filter (\<lambda>r. r_companyId r = c_id c') rs = []" using rc ne by (auto simp: filter_empty_conv)
      then show ?thesis using x(4) c'cs v v1 by simp
    qed
  qed
  moreover have "valid_rng s \<longrightarrow> list_all age_ok (rs @ xs)" using gv x(5) v1 by simp
  ultimately show ?case using res x(1) by simp
qed

lemma exactly_one_band:
  "\<forall>x\<in>set xs. length (filter (\<lambda>b. P b x) bs) = 1 \<Longrightarrow>
     sum_list (map (\<lambda>b. length (filter (P b) xs)) bs) = length xs"
proof (induction xs)
  case (Cons x xs)
  have pw: "length (filter (P b) (x # xs)) = (if P b x then 1 else 0) + length (filter (P b) xs)" for b
    by simp
  have "sum_list (map (\<lambda>b. length (filter (P b) (x # xs))) bs)
          = sum_list (map (\<lambda>b. (if P b x then 1 else 0) + length (filter (P b) xs)) bs)"
    by (simp only: pw)
  also have "\<dots> = sum_list (map (\<lambda>b. if P b x then 1 else 0) bs) + sum_list (map (\<lambda>b. length (filter (P b) xs)) bs)"
    by (rule sum_list_addf)
  also have "sum_list (map (\<lambda>b. if P b x then 1 else 0) bs) = length (filter (\<lambda>b. P b x) bs)"
    by (rule length_filter_sum [symmetric])
  finally show ?case using Cons by simp
qed simp

lemma age_ok_one_band:
  "age_ok r \<Longrightarrow> length (filter (\<lambda>b. ar_min b \<le> r_age r \<and> r_age r \<le> ar_max b) ageRanges) = 1"
  unfolding age_ok_def ageRanges_def by auto

lemma generated_run:
  "\<exists>xs. fst (run_state (generateRespondents questions companies biases) s) = Some xs
     \<and> distinct (map r_id xs)
     \<and> list_all (\<lambda>r. r_companyId r \<in> c_id ` set companies \<and> answers_in_scale r
                    \<and> complete_respondent questions r \<and> gen_id_form r) xs
     \<and> (\<forall>c\<in>set companies. valid_rng s \<longrightarrow> 15 \<le> length (filter (\<lambda>r. r_companyId r = c_id c) xs)
                                         \<and> length (filter (\<lambda>r. r_companyId r = c_id c) xs) \<le> 30)
     \<and> (valid_rng s \<longrightarrow> list_all age_ok xs)"
proof -
  have "dom biases = {''emp5'', ''emp4'', ''emp3'', ''emp2'', ''emp1''}" by (simp add: biases_def)
  then have b: "list_all (\<lambda>c. biases (c_id c) \<noteq> None) companies"
    by (auto simp: companies_def)
  have f: "id_friendly companies" by (simp add: id_friendly_def companies_def)
  show ?thesis using generateRespondents_run [OF prod.collapse [symmetric] b f] by blast
qed

section \<open>Properties of the generator\<close>

text \<open>
  C33. The generator always produces a store (every company has a bias), and the store is
  well formed: every respondent belongs to a company of the schema, answers every question
  with a value on the 1..5 scale (the clamp makes this hold for any draws), and respondent
  ids are distinct.
\<close>

theorem generated_store_wf:
  "\<exists>db. generated_db s = Some db \<and> store_in_scale db
     \<and> list_all (complete_respondent (db_questions db)) (db_respondents db)
     \<and> distinct (map r_id (db_respondents db))
     \<and> list_all (\<lambda>r. r_companyId r \<in> c_id ` set (db_companies db)) (db_respondents db)"
  using generated_run [of s]
  by (auto simp: generated_db_def store_in_scale_def list_all_iff)

theorem generated_store_wf_witness:
  "\<exists>db. generated_db (sconst 0) = Some db \<and> store_in_scale db"
  using generated_store_wf [of "sconst 0"] by blast

text \<open>
  C34. With draws in \<open>[0, 1)\<close>, every company gets between 15 and 30 respondents and
  every respondent an age in 20..60, so the age bands of the CSV demographic section
  count every respondent of a company exactly once.
\<close>

theorem generated_demographics:
  assumes "valid_rng s" and "generated_db s = Some db"
  shows "(\<forall>c\<in>set companies. 15 \<le> length (getCompanyRespondents db (c_id c))
                             \<and> length (getCompanyRespondents db (c_id c)) \<le> 30)
         \<and> sum_list (map (age_count (getCompanyRespondents db c)) ageRanges)
             = length (getCompanyRespondents db c)"
proof -
  obtain xs where x: "fst (run_state (generateRespondents questions companies biases) s) = Some xs"
    "\<forall>c\<in>set companies. valid_rng s \<longrightarrow> 15 \<le> length (filter (\<lambda>r. r_companyId r = c_id c) xs)
                                     \<and> length (filter (\<lambda>r. r_companyId r = c_id c) xs) \<le> 30"
    "valid_rng s \<longrightarrow> list_all age_ok xs"
    using generated_run [of s] by blast
  have db: "db_respondents db = xs" using assms(2) x(1) by (auto simp: generated_db_def)
  have "\<forall>r\<in>set (getCompanyRespondents db c). age_ok r"
    using x(3) assms(1) by (auto simp: getCompanyRespondents_def db list_all_iff)
  then have "sum_list (map (age_count (getCompanyRespondents db c)) ageRanges) = length (getCompanyRespondents db c)"
    unfolding age_count_def by (intro exactly_one_band) (simp add: age_ok_one_band)
  then show ?thesis using x(2) assms(1) by (simp add: getCompanyRespondents_def db)
qed

theorem generated_demographics_witness:
  "15 \<le> length (getCompanyRespondents (the (generated_db (sconst 0))) ''emp1'')
   \<and> sum_list (map (age_count (getCompanyRespondents (the (generated_db (sconst 0))) ''emp1'')) ageRanges)
     = length (getCompanyRespondents (the (generated_db (sconst 0))) ''emp1'')"
proof -
  have v: "valid_rng (sconst 0)" by (simp add: valid_rng_def)
  have "generated_db (sconst 0) \<noteq> None"
    using generated_run [of "sconst 0"] by (auto simp: generated_db_def)
  then have g: "generated_db (sconst 0) = Some (the (generated_db (sconst 0)))" by simp
  have e: "''emp1'' = c_id (hd companies)" "hd companies \<in> set companies" by (simp_all add: companies_def)
  show ?thesis using generated_demographics [OF v g, of "''emp1''"] e by metis
qed

end
