(* ===== verification/Navigation.thy ===== *)
theory Navigation
  imports Prelude
begin

text \<open>
  Routing and navigation: the route table of \<open>src/src/App.tsx\<close>, the menus of
  \<open>src/src/components/layout/Sidebar.tsx\<close> with its collapse state and active-item
  marking, and the change badge of \<open>src/src/components/dashboard/KPICard.tsx\<close>. The
  browser's location is part of the navigation state; a click on a \<open>NavLink\<close> sets it to
  the link's path. \<open>nav_reach\<close> is the set of states reachable from the start page by
  clicks in the sidebar.
\<close>

section \<open>Routes\<close>

datatype page = PIndex | PSurveyAnalysis | PCompanyComparison | PDemographics | PHeatmap
  | PReports | PGoogleSheetsConfig | PNotFound

definition routes :: "(string \<times> page) list" where
  "routes = [(''/'', PIndex), (''/analise'', PSurveyAnalysis), (''/empresas'', PCompanyComparison),
             (''/demografico'', PDemographics), (''/heatmap'', PHeatmap), (''/relatorios'', PReports),
             (''/integracoes'', PGoogleSheetsConfig)]"

text \<open>\<open><Routes>\<close>: the element of the route with the path, \<open>NotFound\<close> for \<open>"*"\<close>.\<close>

definition route :: "string \<Rightarrow> page" where
  "route path = (case map_of routes path of Some p \<Rightarrow> p | None \<Rightarrow> PNotFound)"

section \<open>Sidebar\<close>

record menu_item =
  mi_path :: string
  mi_label :: string

definition menuItems :: "menu_item list" where
  "menuItems =
     [\<lparr>mi_path = ''/'', mi_label = ''Visao Geral''\<rparr>,
      \<lparr>mi_path = ''/analise'', mi_label = ''Analise por Pergunta''\<rparr>,
      \<lparr>mi_path = ''/empresas'', mi_label = ''Comparacao Empresas''\<rparr>,
      \<lparr>mi_path = ''/demografico'', mi_label = ''Perfil Demografico''\<rparr>,
      \<lparr>mi_path = ''/heatmap'', mi_label = ''Heatmap Satisfacao''\<rparr>,
      \<lparr>mi_path = ''/relatorios'', mi_label = ''Relatorios''\<rparr>]"

definition bottomItems :: "menu_item list" where
  "bottomItems =
     [\<lparr>mi_path = ''/configuracoes'', mi_label = ''Configuracoes''\<rparr>,
      \<lparr>mi_path = ''/ajuda'', mi_label = ''Ajuda''\<rparr>]"

record nav_state =
  pathname :: string
  collapsed :: bool

text \<open>A menu entry as drawn: whether it is active (\<open>location.pathname === item.path\<close>)
  and its label, hidden when the sidebar is collapsed.\<close>

definition nav_item_view :: "nav_state \<Rightarrow> menu_item \<Rightarrow> bool \<times> string option" where
  "nav_item_view st item = (pathname st = mi_path item, if collapsed st then None else Some (mi_label item))"

definition bottom_item_view :: "nav_state \<Rightarrow> menu_item \<Rightarrow> string option" where
  "bottom_item_view st item = (if collapsed st then None else Some (mi_label item))"

definition sidebar_view :: "nav_state \<Rightarrow> (bool \<times> string option) list \<times> string option list" where
  "sidebar_view st = (map (nav_item_view st) menuItems, map (bottom_item_view st) bottomItems)"

datatype nav_event = FollowLink string | ToggleCollapse

text \<open>\<open>NavLink to={item.path}\<close> and \<open>setCollapsed(!collapsed)\<close>\<close>

fun nav_step :: "nav_state \<Rightarrow> nav_event \<Rightarrow> nav_state" where
  "nav_step st (FollowLink p) = st\<lparr>pathname := p\<rparr>"
| "nav_step st ToggleCollapse = st\<lparr>collapsed := \<not> collapsed st\<rparr>"

text \<open>The links the sidebar offers.\<close>

definition sidebar_link :: "nav_event \<Rightarrow> bool" where
  "sidebar_link ev = (case ev of FollowLink p \<Rightarrow> p \<in> set (map mi_path (menuItems @ bottomItems)) | ToggleCollapse \<Rightarrow> True)"

inductive nav_reach :: "nav_state \<Rightarrow> bool" where
  start: "nav_reach \<lparr>pathname = ''/'', collapsed = False\<rparr>"
| step: "nav_reach st \<Longrightarrow> sidebar_link ev \<Longrightarrow> nav_reach (nav_step st ev)"

section \<open>KPI card\<close>

text \<open>\<open>isPositive = change >= 0\<close>; the badge shows the arrow and \<open>Math.abs(change)\<close>.\<close>

definition kpi_badge :: "js_num \<Rightarrow> bool \<times> js_num" where
  "kpi_badge change = (change \<ge> 0, \<bar>change\<bar>)"

definition kpi_spark :: "js_num list option \<Rightarrow> (js_num \<times> nat) list" where
  "kpi_spark sparkData =
     (let d = (case sparkData of None \<Rightarrow> [3, 4, 7/2, 21/5, 19/5, 9/2, 41/10] | Some xs \<Rightarrow> xs)
      in zip d [0..<length d])"

section \<open>Properties of the navigation\<close>

lemma menu_routes: "\<forall>item\<in>set menuItems. route (mi_path item) \<noteq> PNotFound"
  by (simp add: menuItems_def route_def routes_def)

lemma bottom_not_found: "\<forall>item\<in>set bottomItems. route (mi_path item) = PNotFound"
  by (simp add: bottomItems_def route_def routes_def)

lemma menu_paths_distinct: "distinct (map mi_path menuItems)"
  by (simp add: menuItems_def)

lemma menu_bottom_disjoint: "set (map mi_path menuItems) \<inter> set (map mi_path bottomItems) = {}"
  by (simp add: menuItems_def bottomItems_def)

text \<open>At most one menu entry is marked active, whatever the location.\<close>

lemma one_active: "length (filter fst (map (nav_item_view st) menuItems)) \<le> 1"
proof -
  have "length (filter (\<lambda>item. pathname st = mi_path item) menuItems) \<le> 1"
    using distinct_key_filter_le1 [OF menu_paths_distinct] .
  then show ?thesis by (simp add: nav_item_view_def comp_def)
qed

text \<open>Every state reachable through the sidebar shows a menu page or \<open>NotFound\<close>;
  the configuration page \<open>/integracoes\<close> has a route but no link.\<close>

lemma nav_reach_pages:
  "nav_reach st \<Longrightarrow> pathname st \<in> set (map mi_path (menuItems @ bottomItems)) \<and> route (pathname st) \<noteq> PGoogleSheetsConfig"
proof (induction rule: nav_reach.induct)
  case start
  show ?case by (simp add: menuItems_def bottomItems_def route_def routes_def)
next
  case (step st ev)
  then show ?case
    by (cases ev) (auto simp: sidebar_link_def menuItems_def bottomItems_def route_def routes_def)
qed

lemma sheets_config_unlinked:
  "route ''/integracoes'' = PGoogleSheetsConfig \<and> \<not> nav_reach \<lparr>pathname = ''/integracoes'', collapsed = b\<rparr>"
  using nav_reach_pages [of "\<lparr>pathname = ''/integracoes'', collapsed = b\<rparr>"]
  by (auto simp: route_def routes_def menuItems_def bottomItems_def)

text \<open>
  C16. On every location reachable through the sidebar's links (from \<open>/\<close>, by menu
  links, bottom links and the collapse button) the page is never the configuration page
  \<open>/integracoes\<close>; it is \<open>NotFound\<close> exactly when the location is one of the bottom
  links (\<open>/configuracoes\<close>, \<open>/ajuda\<close>); and exactly one menu entry is highlighted
  on every other page, none on \<open>NotFound\<close>.
\<close>

theorem sidebar_reachable_pages:
  assumes "nav_reach st"
  shows "route (pathname st) \<noteq> PGoogleSheetsConfig
       \<and> (route (pathname st) = PNotFound \<longleftrightarrow> pathname st \<in> set (map mi_path bottomItems))
       \<and> length (filter fst (map (nav_item_view st) menuItems))
           = (if route (pathname st) = PNotFound then 0 else 1)"
proof -
  have p: "pathname st \<in> set (map mi_path (menuItems @ bottomItems))"
    and g: "route (pathname st) \<noteq> PGoogleSheetsConfig"
    using nav_reach_pages [OF assms] by blast+
  have act: "length (filter fst (map (nav_item_view st) menuItems))
      = length (filter (\<lambda>i. pathname st = mi_path i) menuItems)"
    by (simp add: nav_item_view_def comp_def)
  consider (menu) "pathname st \<in> set (map mi_path menuItems)"
    | (bottom) "pathname st \<in> set (map mi_path bottomItems)"
    using p by auto
  then show ?thesis
  proof cases
    case menu
    then have "route (pathname st) \<noteq> PNotFound" using menu_routes by auto
    moreover have "pathname st \<notin> set (map mi_path bottomItems)"
      using menu menu_bottom_disjoint by blast
    moreover have "length (filter (\<lambda>i. pathname st = mi_path i) menuItems) = 1"
      by (rule distinct_key_filter_eq1 [OF menu_paths_distinct menu])
    ultimately show ?thesis using g act by simp
  next
    case bottom
    then have "route (pathname st) = PNotFound" using bottom_not_found by auto
    moreover have "pathname st \<notin> set (map mi_path menuItems)"
      using bottom menu_bottom_disjoint by blast
    then have "filter (\<lambda>i. pathname st = mi_path i) menuItems = []"
      by (auto simp: filter_empty_conv)
    ultimately show ?thesis using g act bottom by simp
  qed
qed

theorem sidebar_reachable_pages_witness:
  "route ''/ajuda'' = PNotFound
   \<and> length (filter fst (map (nav_item_view \<lparr>pathname = ''/ajuda'', collapsed = True\<rparr>) menuItems)) = 0"
proof -
  have r0: "nav_reach \<lparr>pathname = ''/'', collapsed = False\<rparr>" by (rule nav_reach.start)
  have r1: "nav_reach (nav_step \<lparr>pathname = ''/'', collapsed = False\<rparr> ToggleCollapse)"
    by (rule nav_reach.step [OF r0]) (simp add: sidebar_link_def)
  have r2: "nav_reach (nav_step (nav_step \<lparr>pathname = ''/'', collapsed = False\<rparr> ToggleCollapse) (FollowLink ''/ajuda''))"
    by (rule nav_reach.step [OF r1]) (simp add: sidebar_link_def menuItems_def bottomItems_def)
  have "route ''/ajuda'' = PNotFound" by (simp add: route_def routes_def)
  then show ?thesis using sidebar_reachable_pages [OF r2] by (simp add: bottomItems_def)
qed

end
