(* ===== verification/PageState.thy ===== *)
theory PageState
  imports Dashboard
begin

text \<open>
  The state the dashboard pages keep and the events that change it: the section tabs of
  \<open>src/src/pages/Heatmap.tsx\<close> and \<open>src/src/pages/SurveyAnalysis.tsx\<close>, the two
  filters of \<open>src/src/pages/Demographics.tsx\<close> and the chart-type buttons of
  \<open>src/src/components/dashboard/QuestionChart.tsx\<close> with the four renderings they
  select. Each page has an event datatype and one step equation per event; the events a
  rendered page can produce are a predicate, and the states reachable from the first
  render are an inductive set. What each page then computes from its state is the view
  of theory \<open>Dashboard\<close>.
\<close>

section \<open>Heatmap page (Heatmap.tsx)\<close>

record heatmap_state =
  hm_activeSection :: sid

definition heatmap_init :: heatmap_state where
  "heatmap_init = \<lparr>hm_activeSection = ''contexto''\<rparr>"

datatype heatmap_event = HeatmapTab sid

fun heatmap_step :: "heatmap_state \<Rightarrow> heatmap_event \<Rightarrow> heatmap_state" where
  "heatmap_step st (HeatmapTab s) = st\<lparr>hm_activeSection := s\<rparr>"

text \<open>One tab button per section: \<open>onClick={() => setActiveSection(s.id)}\<close>.\<close>

fun heatmap_ui_event :: "snapshot \<Rightarrow> heatmap_event \<Rightarrow> bool" where
  "heatmap_ui_event db (HeatmapTab s) = (s \<in> set (map s_id (db_sections db)))"

text \<open>The tab bar (label, highlighted) and the legend (swatch class, text).\<close>

definition heatmap_tabs :: "snapshot \<Rightarrow> heatmap_state \<Rightarrow> (string \<times> bool) list" where
  "heatmap_tabs db st = map (\<lambda>s. (s_shortName s, hm_activeSection st = s_id s)) (db_sections db)"

definition heatmap_legend :: "(classification \<times> string) list" where
  "heatmap_legend = [(Bom, ''Bom (>=4)''), (Moderado, ''Moderado (3-4)''), (Critico, ''Critico (<3)'')]"

definition heatmap_page :: "snapshot \<Rightarrow> heatmap_state
                             \<Rightarrow> (string \<times> bool) list \<times> (classification \<times> string) list
                                \<times> string list \<times> (string \<times> (string \<times> string) list) list" where
  "heatmap_page db st =
     (let t = HeatmapTable db (hm_activeSection st) in (heatmap_tabs db st, heatmap_legend, fst t, snd t))"

inductive heatmap_reach :: "snapshot \<Rightarrow> heatmap_state \<Rightarrow> bool" for db where
  start: "heatmap_reach db heatmap_init"
| step: "heatmap_reach db st \<Longrightarrow> heatmap_ui_event db ev \<Longrightarrow> heatmap_reach db (heatmap_step st ev)"

section \<open>Question analysis page (SurveyAnalysis.tsx)\<close>

datatype survey_event = SurveyTab sid | SurveyCompany string

fun survey_step :: "survey_state \<Rightarrow> survey_event \<Rightarrow> survey_state" where
  "survey_step st (SurveyTab s) = st\<lparr>sa_activeSection := s\<rparr>"
| "survey_step st (SurveyCompany v) = survey_select_company v st"

text \<open>\<open>value={selectedCompany || ""}\<close>: what the company select shows.\<close>

definition survey_select_value :: "survey_state \<Rightarrow> string" where
  "survey_select_value st = (case sa_selectedCompany st of None \<Rightarrow> [] | Some c \<Rightarrow> c)"

text \<open>The options: \<open>""\<close> (all companies) and each company's id; one tab per section.\<close>

fun survey_ui_event :: "snapshot \<Rightarrow> survey_event \<Rightarrow> bool" where
  "survey_ui_event db (SurveyTab s) = (s \<in> set (map s_id (db_sections db)))"
| "survey_ui_event db (SurveyCompany v) = (v \<in> set ([] # map c_id (db_companies db)))"

definition survey_tabs :: "snapshot \<Rightarrow> survey_state \<Rightarrow> (string \<times> bool) list" where
  "survey_tabs db st = map (\<lambda>s. (s_shortName s, sa_activeSection st = s_id s)) (db_sections db)"

inductive survey_reach :: "snapshot \<Rightarrow> survey_state \<Rightarrow> bool" for db where
  start: "survey_reach db survey_init"
| step: "survey_reach db st \<Longrightarrow> survey_ui_event db ev \<Longrightarrow> survey_reach db (survey_step st ev)"

section \<open>Demographic page filters (Demographics.tsx)\<close>

record dem_state =
  dm_companyFilter :: cid
  dm_sectionFilter :: sid

definition dem_init :: dem_state where
  "dem_init = \<lparr>dm_companyFilter = [], dm_sectionFilter = ''contexto''\<rparr>"

datatype dem_event = DemCompany string | DemSection sid

fun dem_step :: "dem_state \<Rightarrow> dem_event \<Rightarrow> dem_state" where
  "dem_step st (DemCompany v) = st\<lparr>dm_companyFilter := v\<rparr>"
| "dem_step st (DemSection s) = st\<lparr>dm_sectionFilter := s\<rparr>"

fun dem_ui_event :: "snapshot \<Rightarrow> dem_event \<Rightarrow> bool" where
  "dem_ui_event db (DemCompany v) = (v \<in> set ([] # map c_id (db_companies db)))"
| "dem_ui_event db (DemSection s) = (s \<in> set (map s_id (db_sections db)))"

text \<open>The four charts of the page for its state.\<close>

definition dem_view :: "snapshot \<Rightarrow> dem_state
                        \<Rightarrow> (string \<times> nat) list \<times> js_obj list \<times> js_obj list \<times> sector_entry list" where
  "dem_view db st =
     (sexData db (dm_companyFilter st), sexPerception db (dm_companyFilter st), ageData db (dm_companyFilter st),
      sectorData db (dm_companyFilter st) (dm_sectionFilter st))"

section \<open>Chart types of a question chart (QuestionChart.tsx)\<close>

datatype chart_type = BarChart | PieChart | LineChart | RadarChart

definition chartTypes :: "(chart_type \<times> string) list" where
  "chartTypes = [(BarChart, ''Barras''), (PieChart, ''Pizza''), (LineChart, ''Linha''), (RadarChart, ''Radar'')]"

text \<open>The chart a type draws: per point its category, the value drawn, a label and its
  colour (\<open>COLORS[i % COLORS.length]\<close> for bars and slices, \<open>COLORS[0]\<close> for the line
  and the radar).\<close>

record chart_mark =
  cm_category :: "string option"
  cm_value :: int
  cm_label :: "string option"
  cm_color :: string

definition render_chart :: "chart_type \<Rightarrow> chart_point list \<Rightarrow> chart_mark list" where
  "render_chart t pts =
     map (\<lambda>(i, p). (case t of
            BarChart \<Rightarrow> \<lparr>cm_category = cp_name p, cm_value = int (cp_value p), cm_label = None,
                         cm_color = COLORS ! (i mod length COLORS)\<rparr>
          | PieChart \<Rightarrow> \<lparr>cm_category = cp_name p, cm_value = int (cp_value p),
                         cm_label = Some ((case cp_name p of None \<Rightarrow> ''undefined'' | Some n \<Rightarrow> n) @ '': ''
                                          @ int_str (cp_percentage p) @ ''%''),
                         cm_color = COLORS ! (i mod length COLORS)\<rparr>
          | LineChart \<Rightarrow> \<lparr>cm_category = cp_name p, cm_value = int (cp_value p), cm_label = None,
                          cm_color = COLORS ! 0\<rparr>
          | RadarChart \<Rightarrow> \<lparr>cm_category = cp_name p, cm_value = cp_percentage p, cm_label = None,
                           cm_color = COLORS ! 0\<rparr>))
         (zip [0..<length pts] pts)"

record question_chart_state =
  qc_chartType :: chart_type

definition question_chart_init :: question_chart_state where
  "question_chart_init = \<lparr>qc_chartType = BarChart\<rparr>"

text \<open>\<open>onClick={() => setChartType(type)}\<close>\<close>

definition question_chart_step :: "question_chart_state \<Rightarrow> chart_type \<Rightarrow> question_chart_state" where
  "question_chart_step st t = st\<lparr>qc_chartType := t\<rparr>"

definition question_chart :: "snapshot \<Rightarrow> qid \<Rightarrow> cid option \<Rightarrow> question_chart_state
                              \<Rightarrow> (string \<times> bool) list \<times> chart_mark list" where
  "question_chart db q c st =
     (map (\<lambda>(t, l). (l, qc_chartType st = t)) chartTypes,
      render_chart (qc_chartType st) (question_chart_data db q c))"


section \<open>Lemmas on the page states\<close>

text \<open>A tab bar over sections with distinct ids highlights exactly one tab when the
  active id is one of them.\<close>

lemma tabs_one_active:
  assumes "distinct (map s_id ss)" and "a \<in> set (map s_id ss)"
  shows "length (filter snd (map (\<lambda>s. (s_shortName s, a = s_id s)) ss)) = 1"
  using distinct_key_filter_eq1 [OF assms] by (simp add: comp_def)

lemma heatmap_reach_section:
  assumes "''contexto'' \<in> set (map s_id (db_sections db))"
  shows "heatmap_reach db st \<Longrightarrow> hm_activeSection st \<in> set (map s_id (db_sections db))"
  by (induction rule: heatmap_reach.induct) (use assms in \<open>auto simp: heatmap_init_def elim: heatmap_ui_event.elims\<close>)

lemma heatmap_one_tab:
  assumes "distinct (map s_id (db_sections db))" and "''contexto'' \<in> set (map s_id (db_sections db))"
    and "heatmap_reach db st"
  shows "length (filter snd (heatmap_tabs db st)) = 1"
  unfolding heatmap_tabs_def by (rule tabs_one_active [OF assms(1) heatmap_reach_section [OF assms(2,3)]])

lemma survey_reach_state:
  assumes "''contexto'' \<in> set (map s_id (db_sections db))"
  shows "survey_reach db st \<Longrightarrow> sa_activeSection st \<in> set (map s_id (db_sections db))
           \<and> sa_selectedCompany st \<noteq> Some []
           \<and> (\<forall>c. sa_selectedCompany st = Some c \<longrightarrow> c \<in> set (map c_id (db_companies db)))"
proof (induction rule: survey_reach.induct)
  case start
  show ?case using assms by (simp add: survey_init_def)
next
  case (step st ev)
  then show ?case by (cases ev) (auto simp: survey_select_company_def)
qed

lemma survey_one_tab:
  assumes "distinct (map s_id (db_sections db))" and "''contexto'' \<in> set (map s_id (db_sections db))"
    and "survey_reach db st"
  shows "length (filter snd (survey_tabs db st)) = 1"
  using survey_reach_state [OF assms(2,3)] unfolding survey_tabs_def
  by (intro tabs_one_active [OF assms(1)]) blast

text \<open>The company select round-trips: in every reachable state the value it shows,
  sent back through \<open>onChange\<close>, gives the same state.\<close>

lemma survey_select_roundtrip:
  assumes "''contexto'' \<in> set (map s_id (db_sections db))" and "survey_reach db st"
  shows "survey_select_company (survey_select_value st) st = st"
  using survey_reach_state [OF assms]
  by (cases "sa_selectedCompany st") (auto simp: survey_select_company_def survey_select_value_def)

lemma dem_reach_filters:
  "dem_ui_event db ev \<Longrightarrow> dem_ui_event db (DemCompany (dm_companyFilter st)) \<Longrightarrow>
     dem_ui_event db (DemCompany (dm_companyFilter (dem_step st ev)))"
  by (cases ev) auto

text \<open>Every chart type draws the five scale labels in order, so switching the type never
  changes the categories shown; the bars and slices add up to the respondents of the
  pool who answered the question, and each pie label prints the rounded percentage.\<close>

lemma question_chart_names:
  "map cp_name (question_chart_data db q c) = map Some [''Nunca'', ''Raramente'', ''As vezes'', ''Frequentemente'', ''Sempre'']"
  by (simp add: question_chart_data_def getAnswerDistribution_def Let_def scaleLabels_def)

lemma render_categories: "map cm_category (render_chart t pts) = map cp_name pts"
  by (cases t) (simp_all add: render_chart_def split_def comp_def map_zip_upt_snd)

lemma render_values: "t \<noteq> RadarChart \<Longrightarrow> map cm_value (render_chart t pts) = map (\<lambda>p. int (cp_value p)) pts"
  using map_zip_upt_snd [of "\<lambda>p. int (cp_value p)" pts]
  by (cases t) (simp_all add: render_chart_def split_def comp_def)

lemma render_values_radar: "map cm_value (render_chart RadarChart pts) = map cp_percentage pts"
  using map_zip_upt_snd [of cp_percentage pts] by (simp add: render_chart_def split_def comp_def)

lemma chart_categories_all_types:
  "map cm_category (render_chart t (question_chart_data db q c))
     = map Some [''Nunca'', ''Raramente'', ''As vezes'', ''Frequentemente'', ''Sempre'']"
  by (simp only: render_categories question_chart_names)

lemma chart_total:
  "t \<noteq> RadarChart \<Longrightarrow>
     sum_list (map cm_value (render_chart t (question_chart_data db q c)))
       = int (length (filter (\<lambda>r. answered r q) (pool db c)))"
proof -
  assume t: "t \<noteq> RadarChart"
  have "map cp_value (question_chart_data db q c) = map d_count (getAnswerDistribution db q c)"
    by (simp add: question_chart_data_def comp_def)
  then have "sum_list (map (\<lambda>p. int (cp_value p)) (question_chart_data db q c))
      = int (sum_list (map d_count (getAnswerDistribution db q c)))"
    by (simp add: int_sum_list)
  then show ?thesis using t by (simp add: render_values distribution_count_total)
qed

text \<open>
  C18. The per-question chart, whatever chart type is selected: exactly one of the four
  type buttons is highlighted; the chart draws the five scale labels \<open>Nunca\<close> ..
  \<open>Sempre\<close> in order; the bar, pie and line values add up to the number of
  respondents of the pool who answered the question, and the radar draws the rounded
  percentages of the distribution.
\<close>

theorem question_chart_view:
  "length (filter snd (fst (question_chart db q c st))) = 1
   \<and> map cm_category (snd (question_chart db q c st))
       = map Some [''Nunca'', ''Raramente'', ''As vezes'', ''Frequentemente'', ''Sempre'']
   \<and> sum_list (map cm_value (snd (question_chart db q c st)))
       = (if qc_chartType st = RadarChart
          then sum_list (map d_percentage (getAnswerDistribution db q c))
          else int (length (filter (\<lambda>r. answered r q) (pool db c))))"
proof -
  have b: "length (filter snd (fst (question_chart db q c st))) = 1"
    by (cases "qc_chartType st") (simp_all add: question_chart_def chartTypes_def)
  have r: "sum_list (map cm_value (render_chart RadarChart (question_chart_data db q c)))
      = sum_list (map d_percentage (getAnswerDistribution db q c))"
    by (simp add: render_values_radar question_chart_data_def comp_def)
  show ?thesis
    using b r chart_total [of "qc_chartType st" db q c]
    by (simp add: question_chart_def chart_categories_all_types)
qed

end
