(* ===== verification/Spec2Isabelle.thy ===== *)
theory Spec2Isabelle
  imports ReportsPage ConfigPage Generator Navigation PageState
begin

text \<open>
  \<^bold>\<open>A verification development of the PROART survey dashboard (data-insight-hub).\<close>

  \<^bold>\<open>The program.\<close> A React/TypeScript dashboard over a survey of psychosocial risk.
  \<open>src/src/data/mockData.ts\<close> holds the schema (four sections, 91 questions, five
  companies, the 1..5 scale labels), the respondent store (generated at start-up from
  \<open>Math.random\<close>) and the aggregation engine (\<open>getQuestionAverage\<close>,
  \<open>getSectionAverage\<close>, \<open>getAnswerDistribution\<close>). Every page and both export
  libraries (\<open>src/src/lib/exportUtils.ts\<close> for CSV, \<open>src/src/lib/pdfExport.ts\<close>
  for PDF) read the module-level constants of that file and call the engine;
  classification into Bom/Moderado/Critico and the orientation of the inverted sections
  are re-implemented at each call site. \<open>src/supabase/functions/sync-google-sheets/index.ts\<close>
  is an edge function that fetches a Google sheet and records the synchronisation run in
  two database tables.

  \<^bold>\<open>Modelling conventions.\<close> JavaScript numbers are exact rationals (\<open>rat\<close>);
  \<open>Math.round\<close> is HOL's \<open>round\<close> (ties towards \<open>+\<infinity>\<close>, as in ECMAScript).
  A rounded average is therefore specified as a nearest-cent value (two decimals, within
  half a cent of the mean it rounds): both neighbours of a half-cent tie qualify, so these
  statements also hold where IEEE doubles fall just below a tie, and the concrete values
  claimed (C10) are computed on inputs a third of a cent from any tie.
  The module-level constants are passed explicitly as one \<open>snapshot\<close> record, so every
  report reads a single snapshot. Strings are character lists, Portuguese text is
  transliterated to ASCII. Errors and early returns are values: \<open>option\<close> where the code
  returns nothing, the \<open>response\<close> record where the edge function answers with a status.
  Library functions of ECMAScript that the code calls (\<open>toFixed\<close>, \<open>join\<close>,
  \<open>parseFloat\<close>, \<open>encodeURIComponent\<close>) are modelled from the language specification on
  the inputs the program gives them; a CSV reader (\<open>csv_split\<close>) stands for the program
  that opens the exported files.

  \<^bold>\<open>Theories and what they model.\<close>
  \<^item> \<open>Prelude\<close>: \<open>round2\<close> (\<open>Math.round(x * 100) / 100\<close>), the exact \<open>mean\<close>,
    rounding error bounds, \<open>hundredths\<close>, list-sum and list-prefix lemmas shared by all.
  \<^item> \<open>Schema\<close>: records \<open>question\<close>, \<open>company\<close>, \<open>section_def\<close> and the constants
    of \<open>mockData.ts\<close>; \<open>wf_schema\<close>.
  \<^item> \<open>Store\<close>: record \<open>respondent\<close>, the \<open>snapshot\<close>, \<open>getCompanyRespondents\<close>,
    \<open>answer_or_zero\<close> (\<open>r.answers[q] || 0\<close>), data-quality predicates.
  \<^item> \<open>Aggregation\<close>: the engine and \<open>groupAverage\<close> (\<open>Demographics.tsx\<close>); C1--C10
    show each average to be its mean to the nearest cent, bound it, count the distribution
    and exhibit a pool on which the report and demographic figures differ.
  \<^item> \<open>Classification\<close>: the thresholds of \<open>exportUtils.ts\<close>, \<open>pdfExport.ts\<close>,
    \<open>Reports.tsx\<close> (\<open>ClassBadge\<close>) and \<open>HeatmapTable.tsx\<close>, with a \<open>linorder\<close>
    instance on the three classes; C11--C12 (parity of the three renderings, orientation
    law of the heatmap colours).
  \<^item> \<open>Ranking\<close>: the strengths and critical lists of \<open>Reports.tsx\<close> and
    \<open>pdfExport.ts\<close>, with \<open>Array.prototype.sort\<close> as a stable insertion sort; C14,
    C15 and C17 (parity of the four comparators, top five and bottom five).
  \<^item> \<open>Format\<close>: \<open>toFixed\<close>, \<open>join\<close> and a decimal \<open>parseFloat\<close>; its print/parse
    round trip of two-decimal values carries the CSV and PDF claims.
  \<^item> \<open>CsvExport\<close>: \<open>exportCompanyReport\<close>, \<open>exportComparisonReport\<close>,
    \<open>exportRawData\<close>, \<open>exportHeatmapData\<close> and \<open>downloadCSV\<close>, line by line;
    C19--C22 (CSV round trips, order independence, the not-found path).
  \<^item> \<open>PdfExport\<close>: \<open>exportCompanyPDF\<close> and \<open>exportComparisonPDF\<close> as a list of pages
    (header, body elements, footer) with the \<open>didParseCell\<close> colouring and the page
    counter threaded by \<open>add_pages\<close>; C23--C28 (cross-format parity, colours, the
    two-company guard, page numbering, unoriented summary classification).
  \<^item> \<open>Sync\<close>: the edge function as \<open>sync_handler env fetch req db\<close> returning the
    response and the updated tables (\<open>sheet_sync_config\<close>, \<open>sheet_sync_logs\<close>); the
    network is the input \<open>fetch\<close>; the secret counts only when set and non-empty
    (\<open>present_key\<close>, the falsiness of \<open>!googleApiKey\<close>). Runs are the step relation \<open>sync_step\<close>, reachable
    states the inductive \<open>reachable_db\<close>; C29 (every log of a reachable state is closed,
    by rule induction), C30--C31 (status of every branch, consistency of the tables), C32
    (the sheet name survives \<open>encodeURIComponent\<close> in the request URL).
  \<^item> \<open>ConfigPage\<close>: \<open>GoogleSheetsConfig.tsx\<close> as a client of the same database: the full
    rows of \<open>google_forms_config\<close>, the projection \<open>to_sync_db\<close> onto the edge
    function's view and the write-back \<open>from_sync_db\<close>, the page step \<open>config_step\<close>
    (form edits, \<open>addConfig\<close>, \<open>deleteConfig\<close>, \<open>syncNow\<close> through
    \<open>supabase.functions.invoke\<close>) and the list of configuration cards. C13: every event
    but a deletion keeps the invariant of C29, and a sync click refines running the handler
    on the view (lemmas \<open>config_step_inv\<close>, \<open>invoke_view\<close>). Its other lemmas show
    that a deletion can leave logs naming a deleted row
    (\<open>delete_dangling_logs\<close>), and that a failed synchronisation shows the client
    library's generic message instead of the function's (\<open>sync_toast_generic\<close>).
  \<^item> \<open>Navigation\<close>: the route table of \<open>App.tsx\<close>, the sidebar of \<open>Sidebar.tsx\<close>
    (menus, active marking, collapse) as a step function over the location, the states
    reachable by its links (\<open>nav_reach\<close>), and the badge of \<open>KPICard.tsx\<close>. C16:
    on every reachable location the page is \<open>NotFound\<close> exactly for the two bottom
    entries, exactly one menu entry is highlighted on every other page, and the
    configuration page, routed at \<open>/integracoes\<close>, is never reached.
  \<^item> \<open>Generator\<close>: \<open>randomInt\<close>, \<open>generateAnswers\<close> and \<open>generateRespondents\<close>
    in the \<open>State_Monad\<close> over a stream of \<open>Math.random\<close> draws; C33 (the generated
    store is well formed for any draws), C34 (with draws in \<open>[0,1)\<close>, 15..30 respondents
    per company and age bands that count each respondent once).

  \<^item> \<open>Dashboard\<close>: what the pages \<open>Index.tsx\<close>, \<open>CompanyComparison.tsx\<close>,
    \<open>Demographics.tsx\<close>, \<open>SurveyAnalysis.tsx\<close> and the components
    \<open>HeatmapTable.tsx\<close> and \<open>QuestionChart.tsx\<close> compute and show: KPIs, the company
    ranking, the chart data objects (association lists with the key order of ECMAScript
    objects), the comparison toggles and ranking cards with their colours, the demographic
    groupings, the heatmap cells and the per-question chart points. C35 (a card takes the
    colour of another company once an earlier company is deselected), C36 (with every company
    selected the cards refine the overview ranking), C37 (the sex and sector charts partition
    the pool).
  \<^item> \<open>PageState\<close>: the state of the other pages and the events that change it: the
    section tabs of \<open>Heatmap.tsx\<close> and \<open>SurveyAnalysis.tsx\<close> (with the legend and
    the company select), the filters of \<open>Demographics.tsx\<close>, the chart-type buttons of
    \<open>QuestionChart.tsx\<close> and the four renderings they select. Its lemmas: exactly one tab
    is highlighted in every reachable state and the company select round-trips. C18: for
    every chart type one button is highlighted, the five scale labels are drawn in order,
    bars, slices and line add up to the answers and the radar draws the percentages.
  \<^item> \<open>ReportsPage\<close>: \<open>Reports.tsx\<close> as a state machine: \<open>reports_step\<close> over the
    events the rendered page offers (\<open>ui_event\<close>), reachable states \<open>reports_reach\<close>
    (inductive, from \<open>reports_init\<close>), and the preview \<open>reports_preview\<close>. C38 (the
    invariant of the reachable states, by rule induction: \<open>companies.find(...)!\<close> holds),
    C39 (liveness: two toggles at most re-enable the comparison export), C40 (the preview is
    refined by the PDF's summary page).

  \<^bold>\<open>Bounds and fuel.\<close> No definition uses fuel: every loop of the program runs over a
  finite list or a counter (\<open>primrec\<close>/\<open>fun\<close>, structural), \<open>decodeURIComponent\<close>
  terminates by the measure \<open>length\<close>. The random source is an infinite stream, so the
  generator is total; \<open>valid_rng\<close> (every draw in \<open>[0,1)\<close>) is assumed only where a
  range of \<open>randomInt\<close> is used. Since no loop of the program can run unboundedly
  (the longest is the generator's \<open>for\<close> over at most 30 respondents per company, the
  others iterate fixed tables or the store), every operation is a total HOL function and
  the development states no separate termination property.

  \<^bold>\<open>Not modelled.\<close> Rendering: JSX, CSS classes other than the colours the
  pages compute, the geometry of the recharts charts (the pie labels of
  \<open>Demographics.tsx\<close> use the slice fraction recharts computes); \<open>Topbar.tsx\<close> (static markup:
  its search field and buttons have no handlers); the chart area of \<open>KPICard.tsx\<close>; the schema of the Supabase tables (not in the repository:
  the columns the database fills in on an insert, and whether it cascades a deletion, are
  inputs or open questions of \<open>ConfigPage\<close>); the react-query cache (a mutation
  invalidates it and the list is read again, so the page shows \<open>query_configs\<close>); jsPDF layout (coordinates, fonts, page breaks by height); the browser download
  itself; concurrent invocations of the edge function (each run is one atomic step);
  binary floating point: values are exact rationals, and where IEEE doubles fall just
  below a half-cent tie (\<open>194/80*100\<close> is 242.49999999999997) the model rounds the exact
  value up; the claims are stated so that they hold for either result (see the modelling
  conventions).
\<close>

end
